(* ===== verification/Prelude.thy ===== *)
theory Prelude
  imports Complex_Main "HOL-Library.Sorting_Algorithms"
begin

text \<open>
  Shared vocabulary of the development: the JavaScript built-ins the TypeScript sources
  call (\<open>String.prototype.split\<close>, \<open>join\<close>, \<open>trim\<close>, \<open>includes\<close>,
  \<open>Array.prototype.slice\<close>, \<open>Array.prototype.sort\<close>, \<open>Math.round\<close>), each written
  from the ECMAScript definition, with the lemmas on them that the component theories share.
  Strings are Isabelle strings (lists of 8-bit \<open>char\<close>s standing for UTF-16 code units);
  numbers that are read by the scoring engine are exact reals.
\<close>

named_theorems js_simps \<open>evaluation rules of the modelled JavaScript built-ins\<close>

subsection \<open>Strings\<close>

text \<open>\<open>s.split(c)\<close> for a one-character separator: the maximal runs between separators,
  in order; the empty string splits into one empty part.\<close>

fun js_split :: "char \<Rightarrow> string \<Rightarrow> string list" where
  "js_split c [] = [[]]"
| "js_split c (x # xs) =
     (let r = js_split c xs in if x = c then [] # r else (x # hd r) # tl r)"

text \<open>\<open>xs.join(sep)\<close>.\<close>

fun js_join :: "string \<Rightarrow> string list \<Rightarrow> string" where
  "js_join sep [] = []"
| "js_join sep [x] = x"
| "js_join sep (x # y # zs) = x @ sep @ js_join sep (y # zs)"

text \<open>WhiteSpace and LineTerminator code units below 256: TAB, LF, VT, FF, CR, SPACE, NBSP.\<close>

definition is_js_ws :: "char \<Rightarrow> bool" where
  "is_js_ws c \<longleftrightarrow> of_char c \<in> ({9, 10, 11, 12, 13, 32, 160} :: nat set)"

text \<open>\<open>s.trim()\<close>.\<close>

definition js_trim :: "string \<Rightarrow> string" where
  "js_trim s = rev (dropWhile is_js_ws (rev (dropWhile is_js_ws s)))"

text \<open>\<open>s.includes(p)\<close>: \<open>p\<close> occurs in \<open>s\<close> at some position.\<close>

fun js_includes :: "string \<Rightarrow> string \<Rightarrow> bool" where
  "js_includes [] p \<longleftrightarrow> p = []"
| "js_includes (x # xs) p \<longleftrightarrow> take (length p) (x # xs) = p \<or> js_includes xs p"

subsection \<open>Numbers and arrays\<close>

text \<open>\<open>xs[i]\<close> read through array destructuring: \<open>undefined\<close> past the end.\<close>

definition js_index :: "'a list \<Rightarrow> nat \<Rightarrow> 'a option" where
  "js_index xs i = (if i < length xs then Some (xs ! i) else None)"

text \<open>\<open>Math.round(x)\<close>: the nearest integer, halves rounded towards \<open>+\<infinity>\<close>.\<close>

definition js_round :: "real \<Rightarrow> int" where
  "js_round x = \<lfloor>x + 1 / 2\<rfloor>"

text \<open>\<open>xs.slice(start, end)\<close> for integral arguments: a negative bound counts from the end.\<close>

definition js_rel_index :: "nat \<Rightarrow> int \<Rightarrow> nat" where
  "js_rel_index len i = (if i < 0 then nat (max (int len + i) 0) else min (nat i) len)"

definition js_slice :: "'a list \<Rightarrow> int \<Rightarrow> int \<Rightarrow> 'a list" where
  "js_slice xs s e =
     (let from = js_rel_index (length xs) s; to = js_rel_index (length xs) e
      in take (to - from) (drop from xs))"

text \<open>
  \<open>xs.sort(cmp)\<close>: ECMAScript requires a stable sort whose order agrees with the
  comparator, an element going before another exactly when the comparator is not positive.
  For a consistent comparator that fixes the result; the model is a stable insertion sort.
\<close>

fun js_insort :: "('a \<Rightarrow> 'a \<Rightarrow> int) \<Rightarrow> 'a \<Rightarrow> 'a list \<Rightarrow> 'a list" where
  "js_insort cmp y [] = [y]"
| "js_insort cmp y (x # xs) = (if cmp y x \<le> 0 then y # x # xs else x # js_insort cmp y xs)"

definition js_sort :: "('a \<Rightarrow> 'a \<Rightarrow> int) \<Rightarrow> 'a list \<Rightarrow> 'a list" where
  "js_sort cmp xs = foldr (js_insort cmp) xs []"

subsection \<open>Split and join\<close>

lemma length_js_split: "length (js_split c s) = Suc (count_list s c)"
  by (induction s) (auto simp: Let_def)

lemma js_split_not_Nil [simp]: "js_split c s \<noteq> []"
  by (induction s) (simp_all add: Let_def)

lemma js_split_no_sep [js_simps]: "c \<notin> set s \<Longrightarrow> js_split c s = [s]"
  by (induction s) (auto simp: Let_def)

lemma js_split_append_sep [js_simps]:
  "c \<notin> set x \<Longrightarrow> js_split c (x @ c # y) = x # js_split c y"
  by (induction x) (auto simp: Let_def)

lemma js_join_Cons_Cons [js_simps]: "js_join sep (x # y # zs) = x @ sep @ js_join sep (y # zs)"
  by simp

text \<open>Splitting a joined list at its separator gives the parts back when no part holds it:
  the law the city identifier relies on.\<close>

lemma js_split_join:
  "ps \<noteq> [] \<Longrightarrow> (\<And>p. p \<in> set ps \<Longrightarrow> c \<notin> set p) \<Longrightarrow> js_split c (js_join [c] ps) = ps"
proof (induction ps)
  case (Cons x xs)
  then show ?case
    by (cases xs) (simp_all add: js_split_no_sep js_split_append_sep)
qed simp

lemma js_join_prefix: "take (length x) (js_join sep (x # xs)) = x"
  by (cases xs) simp_all

lemma js_join_Nil_iff: "js_join sep (x # xs) = [] \<longleftrightarrow> x = [] \<and> (xs \<noteq> [] \<longrightarrow> sep = [] \<and> js_join sep xs = [])"
  by (cases xs) simp_all

lemma js_includes_iff: "js_includes s p \<longleftrightarrow> (\<exists>u v. s = u @ p @ v)"
proof (induction s)
  case Nil
  then show ?case by simp
next
  case (Cons x xs)
  have "take (length p) (x # xs) = p \<longleftrightarrow> (\<exists>v. x # xs = p @ v)"
    by (metis append_eq_conv_conj)
  moreover have "(\<exists>u v. x # xs = u @ p @ v) \<longleftrightarrow>
      (\<exists>v. x # xs = p @ v) \<or> (\<exists>u v. xs = u @ p @ v)"
    by (auto simp: Cons_eq_append_conv)
  ultimately show ?case using Cons.IH by simp
qed

subsection \<open>Slice\<close>

lemma js_slice_0: "js_slice xs 0 e = take (js_rel_index (length xs) e) xs"
  by (simp add: js_slice_def js_rel_index_def)

lemma length_js_slice_0:
  "length (js_slice xs 0 e) =
     (if 0 \<le> e then min (nat e) (length xs) else nat (max (int (length xs) + e) 0))"
  by (auto simp: js_slice_0 js_rel_index_def)

subsection \<open>Sort\<close>

text \<open>A JavaScript comparator that agrees in sign with a library comparator sorts exactly as
  the library's stable sort; the library's facts (sorted, permutation, stable) then apply.\<close>

definition agrees_with :: "('a \<Rightarrow> 'a \<Rightarrow> int) \<Rightarrow> 'a comparator \<Rightarrow> bool" where
  "agrees_with cmp C \<longleftrightarrow> (\<forall>a b. cmp a b \<le> 0 \<longleftrightarrow> compare C a b \<noteq> Greater)"

lemma js_insort_eq_insort:
  "agrees_with cmp C \<Longrightarrow> js_insort cmp y xs = Sorting_Algorithms.insort C y xs"
  by (induction xs) (simp_all add: agrees_with_def)

lemma js_sort_eq_sort: "agrees_with cmp C \<Longrightarrow> js_sort cmp xs = Sorting_Algorithms.sort C xs"
  by (induction xs) (simp_all add: js_sort_def js_insort_eq_insort)

lemma agrees_with_key_desc:
  fixes f :: "'a \<Rightarrow> int"
  shows "agrees_with (\<lambda>a b. f b - f a) (reversed (key f default))"
  by (auto simp: agrees_with_def)

text \<open>Sortedness in the library's sense, for the descending key order, is a non-increasing
  list of keys.\<close>

lemma sorted_desc_key_iff:
  fixes f :: "'a \<Rightarrow> int"
  shows "Sorting_Algorithms.sorted (reversed (key f default)) xs \<longleftrightarrow> sorted_wrt (\<ge>) (map f xs)"
proof (induction xs)
  case (Cons y xs)
  then show ?case
    by (cases xs) (auto intro: order_trans)
qed simp

end
