(* ===== verification/Constants.thy ===== *)
theory Constants
  imports Prelude
begin

text \<open>
  The static tables of \<open>src/src/utils/constants.ts\<close> (its second, current version, which
  also holds the activity table, and its first, older copy): the provider's weather codes with their labels, the error
  codes of the application grouped by kind, and the activity profiles the scoring engine
  reads. Tables are association lists in source order.
\<close>

subsection \<open>Weather codes\<close>

definition WEATHER_CODES :: "(int \<times> string) list" where
  "WEATHER_CODES =
    [(0, ''Clear sky''), (1, ''Mainly clear''), (2, ''Partly cloudy''), (3, ''Overcast''),
     (45, ''Fog''), (48, ''Depositing rime fog''),
     (51, ''Light drizzle''), (53, ''Moderate drizzle''), (55, ''Dense drizzle''),
     (56, ''Light freezing drizzle''), (57, ''Dense freezing drizzle''),
     (61, ''Slight rain''), (63, ''Moderate rain''), (65, ''Heavy rain''),
     (66, ''Light freezing rain''), (67, ''Heavy freezing rain''),
     (71, ''Slight snow fall''), (73, ''Moderate snow fall''), (75, ''Heavy snow fall''),
     (77, ''Snow grains''),
     (80, ''Slight rain showers''), (81, ''Moderate rain showers''), (82, ''Violent rain showers''),
     (85, ''Slight snow showers''), (86, ''Heavy snow showers''),
     (95, ''Thunderstorm''), (96, ''Thunderstorm with slight hail''),
     (99, ''Thunderstorm with heavy hail'')]"

subsection \<open>Error codes\<close>

text \<open>\<open>ERROR_CODES\<close> is a two-level object: a kind (\<open>API_ERROR\<close>, \<open>INTERNAL_ERROR\<close>,
  \<open>USER_ERROR\<close>) and, under it, codes whose string value is their own name.\<close>

datatype error_kind = API_ERROR | INTERNAL_ERROR | USER_ERROR

datatype error_code =
    RATE_LIMIT_EXCEEDED | TIMEOUT | UNKNOWN_ERROR
  | INTERNAL_SERVER_ERROR
  | INVALID_COORDINATES | BAD_USER_INPUT

fun ERROR_CODES :: "error_kind \<Rightarrow> (string \<times> error_code) list" where
  "ERROR_CODES API_ERROR =
     [(''RATE_LIMIT_EXCEEDED'', RATE_LIMIT_EXCEEDED), (''TIMEOUT'', TIMEOUT),
      (''UNKNOWN_ERROR'', UNKNOWN_ERROR)]"
| "ERROR_CODES INTERNAL_ERROR = [(''INTERNAL_SERVER_ERROR'', INTERNAL_SERVER_ERROR)]"
| "ERROR_CODES USER_ERROR =
     [(''INVALID_COORDINATES'', INVALID_COORDINATES), (''BAD_USER_INPUT'', BAD_USER_INPUT)]"

text \<open>The string each code stands for on the wire (the \<open>code\<close> extension of a GraphQL error).\<close>

fun error_code_str :: "error_code \<Rightarrow> string" where
  "error_code_str RATE_LIMIT_EXCEEDED = ''RATE_LIMIT_EXCEEDED''"
| "error_code_str TIMEOUT = ''TIMEOUT''"
| "error_code_str UNKNOWN_ERROR = ''UNKNOWN_ERROR''"
| "error_code_str INTERNAL_SERVER_ERROR = ''INTERNAL_SERVER_ERROR''"
| "error_code_str INVALID_COORDINATES = ''INVALID_COORDINATES''"
| "error_code_str BAD_USER_INPUT = ''BAD_USER_INPUT''"

text \<open>\<open>ERROR_CODES_MAP = new Map(Object.entries(ERROR_CODES))\<close>: the kinds under their
  property names, in insertion order.\<close>

fun error_kind_str :: "error_kind \<Rightarrow> string" where
  "error_kind_str API_ERROR = ''API_ERROR''"
| "error_kind_str INTERNAL_ERROR = ''INTERNAL_ERROR''"
| "error_kind_str USER_ERROR = ''USER_ERROR''"

definition ERROR_CODES_MAP :: "(string \<times> (string \<times> error_code) list) list" where
  "ERROR_CODES_MAP =
     map (\<lambda>k. (error_kind_str k, ERROR_CODES k)) [API_ERROR, INTERNAL_ERROR, USER_ERROR]"

subsection \<open>The older copy of the tables\<close>

text \<open>The first part of \<open>constants.ts\<close> is an earlier revision of the same module,
  without the activity table.\<close>

definition WEATHER_CODES_v1 :: "(int \<times> string) list" where
  "WEATHER_CODES_v1 =
    [(0, ''Clear sky''), (1, ''Mainly clear''), (2, ''Partly cloudy''), (3, ''Overcast''),
     (45, ''Fog''), (48, ''Depositing rime fog''),
     (51, ''Light drizzle''), (53, ''Moderate drizzle''), (55, ''Dense drizzle''),
     (56, ''Light freezing drizzle''), (57, ''Dense freezing drizzle''),
     (61, ''Slight rain''), (63, ''Moderate rain''), (65, ''Heavy rain''),
     (66, ''Light freezing rain''), (67, ''Heavy freezing rain''),
     (71, ''Slight snow fall''), (73, ''Moderate snow fall''), (75, ''Heavy snow fall''),
     (77, ''Snow grains''),
     (80, ''Slight rain showers''), (81, ''Moderate rain showers''), (82, ''Violent rain showers''),
     (85, ''Slight snow showers''), (86, ''Heavy snow showers''),
     (95, ''Thunderstorm''), (96, ''Thunderstorm with slight hail''),
     (99, ''Thunderstorm with heavy hail'')]"

fun ERROR_CODES_v1 :: "error_kind \<Rightarrow> (string \<times> error_code) list" where
  "ERROR_CODES_v1 API_ERROR =
     [(''RATE_LIMIT_EXCEEDED'', RATE_LIMIT_EXCEEDED), (''TIMEOUT'', TIMEOUT),
      (''UNKNOWN_ERROR'', UNKNOWN_ERROR)]"
| "ERROR_CODES_v1 INTERNAL_ERROR = [(''INTERNAL_SERVER_ERROR'', INTERNAL_SERVER_ERROR)]"
| "ERROR_CODES_v1 USER_ERROR =
     [(''INVALID_COORDINATES'', INVALID_COORDINATES), (''BAD_USER_INPUT'', BAD_USER_INPUT)]"

definition ERROR_CODES_MAP_v1 :: "(string \<times> (string \<times> error_code) list) list" where
  "ERROR_CODES_MAP_v1 =
     map (\<lambda>k. (error_kind_str k, ERROR_CODES_v1 k)) [API_ERROR, INTERNAL_ERROR, USER_ERROR]"

subsection \<open>Activity profiles\<close>

record ActivityConfig =
  cfg_name :: string
  idealTempMin :: real
  idealTempMax :: real
  rainTolerance :: real
  windPreference :: real

definition ACTIVITY_CONFIGS :: "ActivityConfig list" where
  "ACTIVITY_CONFIGS =
    [\<lparr>cfg_name = ''skiing'', idealTempMin = -10, idealTempMax = 2,
       rainTolerance = 0.1, windPreference = 0.2\<rparr>,
     \<lparr>cfg_name = ''surfing'', idealTempMin = 18, idealTempMax = 28,
       rainTolerance = 0.7, windPreference = 0.8\<rparr>,
     \<lparr>cfg_name = ''indoor_sightseeing'', idealTempMin = 10, idealTempMax = 30,
       rainTolerance = 1.0, windPreference = 0.5\<rparr>,
     \<lparr>cfg_name = ''outdoor_sightseeing'', idealTempMin = 15, idealTempMax = 25,
       rainTolerance = 0.1, windPreference = 0.3\<rparr>]"

section \<open>Properties of the tables\<close>

lemma constants_versions_agree:
  "WEATHER_CODES_v1 = WEATHER_CODES \<and> ERROR_CODES_MAP_v1 = ERROR_CODES_MAP
   \<and> (\<forall>k. ERROR_CODES_v1 k = ERROR_CODES k)"
proof -
  have e: "ERROR_CODES_v1 k = ERROR_CODES k" for k
    by (cases k) simp_all
  then show ?thesis
    by (simp add: WEATHER_CODES_v1_def WEATHER_CODES_def ERROR_CODES_MAP_v1_def ERROR_CODES_MAP_def)
qed

lemma error_codes_wf:
  assumes "(s, c) \<in> set (ERROR_CODES k)"
  shows "s = error_code_str c \<and> map_of ERROR_CODES_MAP (error_kind_str k) = Some (ERROR_CODES k)
         \<and> (\<forall>k'. c \<in> snd ` set (ERROR_CODES k') \<longleftrightarrow> k' = k)"
proof -
  have "(s, c) \<in> set (ERROR_CODES k') \<Longrightarrow> s = error_code_str c" for k'
    by (cases k') auto
  moreover have "c \<in> snd ` set (ERROR_CODES k') \<longleftrightarrow> k' = k" for k'
    using assms by (cases k; cases k') auto
  moreover have "map_of ERROR_CODES_MAP (error_kind_str k) = Some (ERROR_CODES k)"
    by (cases k) (simp_all add: ERROR_CODES_MAP_def)
  ultimately show ?thesis
    using assms by blast
qed

end
