(* ===== verification/ActivityRanking.thy ===== *)
theory ActivityRanking
  imports Constants
begin

text \<open>
  The activity suitability scoring engine, \<open>ActivityRankingService\<close> of
  \<open>src/unnamed/part_000\<close> (the service \<open>src/utils/activityRanking.ts\<close> the adapter imports).
  The service's read-only numeric fields are a record, its singleton instance a constant;
  \<open>scoreActivity\<close> is the composition of its four scoring stages (temperature, rain, wind,
  indoor bonus), each a function on the pair (running score, reasons so far), in the order the
  method runs them; \<open>rankActivitiesForDay\<close> scores the profile table, sorts with the source's
  comparator and slices. Scores are exact reals until \<open>Math.round\<close>.
\<close>

subsection \<open>Data\<close>

text \<open>\<open>Activity\<close> and \<open>Omit<DailyForecast, 'activities'>\<close> of the generated GraphQL types.\<close>

record Activity =
  act_name :: string
  reasoning :: string
  suitabilityScore :: int

record DayForecast =
  date :: string
  maxTemp :: real
  minTemp :: real
  day_conditions :: string
  day_precipitation :: real
  day_windSpeed :: real

record DailyForecast = DayForecast +
  activities :: "Activity list"

record ActivityRankingService =
  BASE_SCORE :: real
  IDEAL_TEMP_BONUS :: real
  COLD_PENALTY_MULTIPLIER :: real
  WARM_PENALTY_MULTIPLIER :: real
  MAX_TEMP_PENALTY :: real
  RAIN_IMPACT_MULTIPLIER :: real
  HIGH_TOLERANCE_BONUS :: real
  LOW_TOLERANCE_BONUS :: real
  HIGH_TOLERANCE_THRESHOLD :: real
  LOW_TOLERANCE_THRESHOLD :: real
  WIND_IMPACT_MULTIPLIER :: real
  WIND_OFFSET :: real
  HIGH_PREFERENCE_THRESHOLD :: real
  LOW_PREFERENCE_THRESHOLD :: real
  EXTREME_WEATHER_BONUS :: real
  COLD_THRESHOLD :: real
  HOT_THRESHOLD :: real
  RAIN_THRESHOLD :: real
  WIND_THRESHOLD :: real
  MIN_SCORE :: int
  MAX_SCORE :: int

text \<open>\<open>ActivityRankingService.getInstance()\<close>: the one instance, with the field initialisers.\<close>

definition activityRankingService :: ActivityRankingService where
  "activityRankingService =
    \<lparr>BASE_SCORE = 50, IDEAL_TEMP_BONUS = 30, COLD_PENALTY_MULTIPLIER = 5,
     WARM_PENALTY_MULTIPLIER = 5, MAX_TEMP_PENALTY = 30, RAIN_IMPACT_MULTIPLIER = 20,
     HIGH_TOLERANCE_BONUS = 10, LOW_TOLERANCE_BONUS = 10, HIGH_TOLERANCE_THRESHOLD = 0.8,
     LOW_TOLERANCE_THRESHOLD = 0.3, WIND_IMPACT_MULTIPLIER = 15, WIND_OFFSET = 7.5,
     HIGH_PREFERENCE_THRESHOLD = 0.6, LOW_PREFERENCE_THRESHOLD = 0.4,
     EXTREME_WEATHER_BONUS = 15, COLD_THRESHOLD = 10, HOT_THRESHOLD = 30,
     RAIN_THRESHOLD = 1, WIND_THRESHOLD = 20, MIN_SCORE = 0, MAX_SCORE = 100\<rparr>"

subsection \<open>Scoring one activity\<close>

type_synonym score_state = "real \<times> string list"

definition temperature_term ::
  "ActivityRankingService \<Rightarrow> ActivityConfig \<Rightarrow> real \<Rightarrow> score_state \<Rightarrow> score_state" where
  "temperature_term this config avgTemp st =
    (case st of (score, reasons) \<Rightarrow>
      if avgTemp \<ge> idealTempMin config \<and> avgTemp \<le> idealTempMax config
      then (score + IDEAL_TEMP_BONUS this, reasons @ [''ideal temperature''])
      else if avgTemp < idealTempMin config
      then (let penalty = min (MAX_TEMP_PENALTY this)
                  ((idealTempMin config - avgTemp) * COLD_PENALTY_MULTIPLIER this)
            in (score - penalty, reasons @ [''too cold'']))
      else (let penalty = min (MAX_TEMP_PENALTY this)
                  ((avgTemp - idealTempMax config) * WARM_PENALTY_MULTIPLIER this)
            in (score - penalty, reasons @ [''too warm''])))"

definition rain_term ::
  "ActivityRankingService \<Rightarrow> ActivityConfig \<Rightarrow> bool \<Rightarrow> score_state \<Rightarrow> score_state" where
  "rain_term this config hasRain st =
    (case st of (score, reasons) \<Rightarrow>
      if hasRain
      then (let score' = score - (1 - rainTolerance config) * RAIN_IMPACT_MULTIPLIER this
            in if rainTolerance config > HIGH_TOLERANCE_THRESHOLD this
               then (score' + HIGH_TOLERANCE_BONUS this, reasons @ [''rain makes it more appealing''])
               else if rainTolerance config < LOW_TOLERANCE_THRESHOLD this
               then (score', reasons @ [''rain not ideal''])
               else (score', reasons))
      else if rainTolerance config < LOW_TOLERANCE_THRESHOLD this
      then (score + LOW_TOLERANCE_BONUS this, reasons @ [''no rain''])
      else (score, reasons))"

definition wind_term ::
  "ActivityRankingService \<Rightarrow> ActivityConfig \<Rightarrow> bool \<Rightarrow> score_state \<Rightarrow> score_state" where
  "wind_term this config isWindy st =
    (case st of (score, reasons) \<Rightarrow>
      if isWindy
      then (let score' = score + (windPreference config * WIND_IMPACT_MULTIPLIER this - WIND_OFFSET this)
            in if windPreference config > HIGH_PREFERENCE_THRESHOLD this
               then (score', reasons @ [''good wind conditions''])
               else if windPreference config < LOW_PREFERENCE_THRESHOLD this
               then (score', reasons @ [''windy conditions''])
               else (score', reasons))
      else (score, reasons))"

definition indoor_term ::
  "ActivityRankingService \<Rightarrow> ActivityConfig \<Rightarrow> real \<Rightarrow> score_state \<Rightarrow> score_state" where
  "indoor_term this config avgTemp st =
    (case st of (score, reasons) \<Rightarrow>
      if js_includes (cfg_name config) ''indoor''
         \<and> (avgTemp < COLD_THRESHOLD this \<or> avgTemp > HOT_THRESHOLD this)
      then (score + EXTREME_WEATHER_BONUS this,
            reasons @ [''extreme weather favors indoor activities''])
      else (score, reasons))"

text \<open>The four stages in the order of \<open>scoreActivity\<close>, from \<open>score = BASE_SCORE\<close>,
  \<open>reasons = []\<close>. The method's \<open>precipitation\<close> and \<open>windSpeed\<close> parameters are never read.\<close>

definition score_stages ::
  "ActivityRankingService \<Rightarrow> ActivityConfig \<Rightarrow> real \<Rightarrow> bool \<Rightarrow> bool \<Rightarrow> score_state" where
  "score_stages this config avgTemp hasRain isWindy =
     indoor_term this config avgTemp
       (wind_term this config isWindy
         (rain_term this config hasRain
           (temperature_term this config avgTemp (BASE_SCORE this, []))))"

definition scoreActivity ::
  "ActivityRankingService \<Rightarrow> ActivityConfig \<Rightarrow> real \<Rightarrow> bool \<Rightarrow> bool \<Rightarrow> real \<Rightarrow> real \<Rightarrow> Activity" where
  "scoreActivity this config avgTemp hasRain isWindy precipitation windSpeed =
    (case score_stages this config avgTemp hasRain isWindy of (score, reasons) \<Rightarrow>
      \<lparr>act_name = cfg_name config,
       reasoning = (let joined = js_join '', '' reasons
                    in if joined = [] then ''standard conditions'' else joined),
       suitabilityScore = max (MIN_SCORE this) (min (MAX_SCORE this) (js_round score))\<rparr>)"

subsection \<open>Ranking a day\<close>

text \<open>The comparator passed to \<open>Array.prototype.sort\<close>: \<open>(a, b) => b.suitabilityScore - a.suitabilityScore\<close>.\<close>

definition activity_compare :: "Activity \<Rightarrow> Activity \<Rightarrow> int" where
  "activity_compare a b = suitabilityScore b - suitabilityScore a"

text \<open>The scored table of one day, the method's local \<open>activities\<close>.\<close>

definition day_activities :: "ActivityRankingService \<Rightarrow> DayForecast \<Rightarrow> Activity list" where
  "day_activities this forecast =
    (let avgTemp = (maxTemp forecast + minTemp forecast) / 2;
         hasRain = day_precipitation forecast > RAIN_THRESHOLD this;
         isWindy = day_windSpeed forecast > WIND_THRESHOLD this
     in map (\<lambda>config. scoreActivity this config avgTemp hasRain isWindy
               (day_precipitation forecast) (day_windSpeed forecast)) ACTIVITY_CONFIGS)"

definition rankActivitiesForDay ::
  "ActivityRankingService \<Rightarrow> DayForecast \<Rightarrow> int \<Rightarrow> Activity list" where
  "rankActivitiesForDay this forecast top_n =
     js_slice (js_sort activity_compare (day_activities this forecast)) 0 top_n"

text \<open>The tags the temperature stage can give, and the library comparator the source's
  comparator agrees with (descending score).\<close>

definition temperature_tags :: "string set" where
  "temperature_tags = {''ideal temperature'', ''too cold'', ''too warm''}"

abbreviation by_score_desc :: "Activity comparator" where
  "by_score_desc \<equiv> reversed (key suitabilityScore default)"

text \<open>The shape the GraphQL type \<open>Activity\<close> promises of a ranked activity: the name of a
  profile, an \<open>Int\<close> score in [0, 100] and a non-empty reasoning.\<close>

definition wf_activity :: "Activity \<Rightarrow> bool" where
  "wf_activity a \<longleftrightarrow>
     act_name a \<in> set (map cfg_name ACTIVITY_CONFIGS) \<and> 0 \<le> suitabilityScore a
     \<and> suitabilityScore a \<le> 100 \<and> reasoning a \<noteq> []"

subsection \<open>Evaluation\<close>

text \<open>The rules that evaluate a score on concrete inputs, stage by stage.\<close>

lemmas score_eval = scoreActivity_def score_stages_def temperature_term_def rain_term_def
  wind_term_def indoor_term_def js_round_def

lemma day_activities_eval:
  "day_activities this forecast =
     map (\<lambda>config. scoreActivity this config ((maxTemp forecast + minTemp forecast) / 2)
            (RAIN_THRESHOLD this < day_precipitation forecast)
            (WIND_THRESHOLD this < day_windSpeed forecast)
            (day_precipitation forecast) (day_windSpeed forecast)) ACTIVITY_CONFIGS"
  by (simp add: day_activities_def Let_def)

lemma activityRankingService_thresholds [simp]:
  "RAIN_THRESHOLD activityRankingService = 1" "WIND_THRESHOLD activityRankingService = 20"
  "MIN_SCORE activityRankingService = 0" "MAX_SCORE activityRankingService = 100"
  by (simp_all add: activityRankingService_def)

subsection \<open>Reasons\<close>

text \<open>Each stage only appends to the reasons; the temperature stage always appends one of
  its three tags, so the reasons of a score are never empty and start with that tag.\<close>

lemma temperature_term_snd:
  "\<exists>t \<in> temperature_tags. snd (temperature_term this config avgTemp st) = snd st @ [t]"
  by (cases st) (simp add: temperature_term_def temperature_tags_def Let_def)

lemma rain_term_snd: "\<exists>ts. snd (rain_term this config hasRain st) = snd st @ ts"
  by (cases st) (auto simp: rain_term_def Let_def)

lemma wind_term_snd: "\<exists>ts. snd (wind_term this config isWindy st) = snd st @ ts"
  by (cases st) (auto simp: wind_term_def Let_def)

lemma indoor_term_snd: "\<exists>ts. snd (indoor_term this config avgTemp st) = snd st @ ts"
  by (cases st) (auto simp: indoor_term_def)

lemma score_stages_reasons:
  "\<exists>t ts. snd (score_stages this config avgTemp hasRain isWindy) = t # ts \<and> t \<in> temperature_tags"
proof -
  let ?s1 = "temperature_term this config avgTemp (BASE_SCORE this, [])"
  let ?s2 = "rain_term this config hasRain ?s1"
  let ?s3 = "wind_term this config isWindy ?s2"
  obtain t where t: "t \<in> temperature_tags" and s1: "snd ?s1 = [t]"
    using temperature_term_snd [of this config avgTemp "(BASE_SCORE this, [])"] by auto
  obtain ts1 where s2: "snd ?s2 = snd ?s1 @ ts1"
    using rain_term_snd by blast
  obtain ts2 where s3: "snd ?s3 = snd ?s2 @ ts2"
    using wind_term_snd by blast
  obtain ts3 where "snd (indoor_term this config avgTemp ?s3) = snd ?s3 @ ts3"
    using indoor_term_snd by blast
  with s1 s2 s3 t show ?thesis
    by (auto simp: score_stages_def)
qed

lemma scoreActivity_fields:
  "act_name (scoreActivity this config avgTemp hasRain isWindy p w) = cfg_name config"
  "reasoning (scoreActivity this config avgTemp hasRain isWindy p w) =
     (let joined = js_join '', '' (snd (score_stages this config avgTemp hasRain isWindy))
      in if joined = [] then ''standard conditions'' else joined)"
  "suitabilityScore (scoreActivity this config avgTemp hasRain isWindy p w) =
     max (MIN_SCORE this) (min (MAX_SCORE this)
       (js_round (fst (score_stages this config avgTemp hasRain isWindy))))"
  by (simp_all add: scoreActivity_def split: prod.split)

subsection \<open>Ranking as the library's stable sort\<close>

lemma activity_compare_agrees: "agrees_with activity_compare by_score_desc"
  using agrees_with_key_desc [of suitabilityScore] by (simp add: activity_compare_def [abs_def])

lemma length_day_activities [simp]: "length (day_activities this forecast) = 4"
  by (simp add: day_activities_def ACTIVITY_CONFIGS_def Let_def)

lemma rank_eq_take_sort:
  "rankActivitiesForDay this forecast n =
     take (js_rel_index 4 n) (Sorting_Algorithms.sort by_score_desc (day_activities this forecast))"
  by (simp add: rankActivitiesForDay_def js_slice_0 js_sort_eq_sort [OF activity_compare_agrees])

lemma rank_all_eq_sort:
  "rankActivitiesForDay this forecast 4 = Sorting_Algorithms.sort by_score_desc (day_activities this forecast)"
  by (simp add: rank_eq_take_sort js_rel_index_def)

lemma sorted_sort_by_score: "sorted_wrt (\<ge>) (map suitabilityScore (Sorting_Algorithms.sort by_score_desc xs))"
  using sorted_desc_key_iff [of suitabilityScore "Sorting_Algorithms.sort by_score_desc xs"] by simp

lemma mset_rank_all: "mset (rankActivitiesForDay this forecast 4) = mset (day_activities this forecast)"
  by (simp add: rank_all_eq_sort)

lemma set_rank_all: "set (rankActivitiesForDay this forecast 4) = set (day_activities this forecast)"
  by (metis mset_rank_all set_mset_mset)


subsection \<open>Two days of the test suite, evaluated\<close>

text \<open>The clear day (22/18 degrees, dry, 5 km/h) and the rainy day (18/15 degrees, 15 mm,
  10 km/h) of the ranking tests, scored profile by profile.\<close>

lemma day_activities_clear_day:
  "day_activities activityRankingService
     \<lparr>date = ''2025-01-01'', maxTemp = 22, minTemp = 18, day_conditions = ''Clear sky'',
      day_precipitation = 0, day_windSpeed = 5\<rparr> =
   [\<lparr>act_name = ''skiing'', reasoning = ''too warm, no rain'', suitabilityScore = 30\<rparr>,
    \<lparr>act_name = ''surfing'', reasoning = ''ideal temperature'', suitabilityScore = 80\<rparr>,
    \<lparr>act_name = ''indoor_sightseeing'', reasoning = ''ideal temperature'', suitabilityScore = 80\<rparr>,
    \<lparr>act_name = ''outdoor_sightseeing'', reasoning = ''ideal temperature, no rain'',
       suitabilityScore = 90\<rparr>]"
  by (simp add: day_activities_eval ACTIVITY_CONFIGS_def score_eval activityRankingService_def)

lemma day_activities_rainy_day:
  "day_activities activityRankingService
     \<lparr>date = ''2025-01-01'', maxTemp = 18, minTemp = 15, day_conditions = ''Heavy rain'',
      day_precipitation = 15, day_windSpeed = 10\<rparr> =
   [\<lparr>act_name = ''skiing'', reasoning = ''too warm, rain not ideal'', suitabilityScore = 2\<rparr>,
    \<lparr>act_name = ''surfing'', reasoning = ''too cold'', suitabilityScore = 37\<rparr>,
    \<lparr>act_name = ''indoor_sightseeing'', reasoning = ''ideal temperature, rain makes it more appealing'',
       suitabilityScore = 90\<rparr>,
    \<lparr>act_name = ''outdoor_sightseeing'', reasoning = ''ideal temperature, rain not ideal'',
       suitabilityScore = 62\<rparr>]"
  by (simp add: day_activities_eval ACTIVITY_CONFIGS_def score_eval activityRankingService_def)

lemmas rank_eval = rankActivitiesForDay_def js_slice_def js_rel_index_def js_sort_def activity_compare_def

subsection \<open>The top-1 ranking\<close>

lemma rank_top1:
  "\<exists>a. rankActivitiesForDay this fc 1 = [a] \<and> a \<in> set (day_activities this fc)
       \<and> (\<forall>b\<in>set (day_activities this fc). suitabilityScore b \<le> suitabilityScore a)"
proof -
  let ?s = "Sorting_Algorithms.sort by_score_desc (day_activities this fc)"
  have "length ?s = 4"
    by (metis length_day_activities mset_sort size_mset)
  then obtain a rest where s: "?s = a # rest"
    by (cases ?s) auto
  have r: "rankActivitiesForDay this fc 1 = [a]"
    using s by (simp add: rank_eq_take_sort js_rel_index_def)
  have st: "set ?s = set (day_activities this fc)"
    by (metis mset_sort set_mset_mset)
  have "sorted_wrt (\<ge>) (map suitabilityScore ?s)"
    by (rule sorted_sort_by_score)
  then show ?thesis
    using r st s by auto
qed

lemma length_rank_top1: "length (rankActivitiesForDay this fc 1) = 1"
  using rank_top1 [of this fc] by auto

subsection \<open>Upper bound of a score\<close>

text \<open>Each stage adds at most a fixed amount to the running score of a shipped profile; the
  indoor bonus only fires when the temperature stage has not added its bonus.\<close>

lemma activityRankingService_fields:
  "BASE_SCORE activityRankingService = 50" "IDEAL_TEMP_BONUS activityRankingService = 30"
  "COLD_PENALTY_MULTIPLIER activityRankingService = 5" "WARM_PENALTY_MULTIPLIER activityRankingService = 5"
  "MAX_TEMP_PENALTY activityRankingService = 30" "RAIN_IMPACT_MULTIPLIER activityRankingService = 20"
  "HIGH_TOLERANCE_BONUS activityRankingService = 10" "LOW_TOLERANCE_BONUS activityRankingService = 10"
  "HIGH_TOLERANCE_THRESHOLD activityRankingService = 0.8" "LOW_TOLERANCE_THRESHOLD activityRankingService = 0.3"
  "WIND_IMPACT_MULTIPLIER activityRankingService = 15" "WIND_OFFSET activityRankingService = 7.5"
  "EXTREME_WEATHER_BONUS activityRankingService = 15" "COLD_THRESHOLD activityRankingService = 10"
  "HOT_THRESHOLD activityRankingService = 30"
  by (simp_all add: activityRankingService_def)

lemma temperature_term_fst_le:
  "fst (temperature_term activityRankingService config t (s, r)) \<le> s + 30"
  "\<not> (idealTempMin config \<le> t \<and> t \<le> idealTempMax config) \<Longrightarrow>
     fst (temperature_term activityRankingService config t (s, r)) \<le> s"
  unfolding temperature_term_def Let_def activityRankingService_fields
  by (auto simp: min_def)

lemma rain_term_fst_le:
  "rainTolerance config \<le> 1 \<Longrightarrow> fst (rain_term activityRankingService config h st) \<le> fst st + 10"
  "0.3 \<le> rainTolerance config \<Longrightarrow> rainTolerance config \<le> 0.8 \<Longrightarrow>
     fst (rain_term activityRankingService config h st) \<le> fst st"
  unfolding rain_term_def Let_def activityRankingService_fields
  by (cases st; simp)+

lemma wind_term_fst_le:
  "fst (wind_term activityRankingService config w st) \<le> fst st + max 0 (windPreference config * 15 - 7.5)"
  unfolding wind_term_def Let_def activityRankingService_fields
  by (cases st; simp)

lemma indoor_term_fst_le:
  "fst (indoor_term activityRankingService config t st) \<le>
     fst st + (if js_includes (cfg_name config) ''indoor'' \<and> (t < 10 \<or> t > 30) then 15 else 0)"
  unfolding indoor_term_def activityRankingService_fields
  by (cases st; simp)

lemma js_includes_profiles [simp]:
  "js_includes ''indoor_sightseeing'' ''indoor''" "\<not> js_includes ''outdoor_sightseeing'' ''indoor''"
  "\<not> js_includes ''skiing'' ''indoor''" "\<not> js_includes ''surfing'' ''indoor''"
  by simp_all

lemma score_stages_le_90:
  assumes "config \<in> set ACTIVITY_CONFIGS"
  shows "fst (score_stages activityRankingService config t h w) \<le> 90"
proof -
  let ?s1 = "temperature_term activityRankingService config t (50, [])"
  let ?s2 = "rain_term activityRankingService config h ?s1"
  let ?s3 = "wind_term activityRankingService config w ?s2"
  have e: "score_stages activityRankingService config t h w = indoor_term activityRankingService config t ?s3"
    by (simp add: score_stages_def activityRankingService_fields)
  have t: "fst ?s1 \<le> 80" "\<not> (idealTempMin config \<le> t \<and> t \<le> idealTempMax config) \<Longrightarrow> fst ?s1 \<le> 50"
    using temperature_term_fst_le [of config t 50 "[]"] by simp_all
  have w: "fst ?s3 \<le> fst ?s2 + max 0 (windPreference config * 15 - 7.5)"
    by (rule wind_term_fst_le)
  have i: "fst (indoor_term activityRankingService config t ?s3) \<le>
     fst ?s3 + (if js_includes (cfg_name config) ''indoor'' \<and> (t < 10 \<or> t > 30) then 15 else 0)"
    by (rule indoor_term_fst_le)
  have r: "fst ?s2 \<le> fst ?s1 + 10" if "rainTolerance config \<le> 1"
    using rain_term_fst_le(1) [OF that] .
  have r': "fst ?s2 \<le> fst ?s1" if "0.3 \<le> rainTolerance config" "rainTolerance config \<le> 0.8"
    using rain_term_fst_le(2) [OF that] .
  consider "config = ACTIVITY_CONFIGS ! 0" | "config = ACTIVITY_CONFIGS ! 1"
    | "config = ACTIVITY_CONFIGS ! 2" | "config = ACTIVITY_CONFIGS ! 3"
    using assms by (auto simp: ACTIVITY_CONFIGS_def)
  then show ?thesis
  proof cases
    case 1
    then show ?thesis
      using e t w i r by (simp add: ACTIVITY_CONFIGS_def)
  next
    case 2
    then show ?thesis
      using e t w i r' by (simp add: ACTIVITY_CONFIGS_def)
  next
    case 3
    then have c: "config = ACTIVITY_CONFIGS ! 2" .
    show ?thesis
    proof (cases "t < 10 \<or> t > 30")
      case True
      then have "fst ?s1 \<le> 50"
        using t(2) c by (auto simp: ACTIVITY_CONFIGS_def)
      then show ?thesis
        using e w i r c True by (simp add: ACTIVITY_CONFIGS_def)
    next
      case False
      then show ?thesis
        using e t w i r c by (simp add: ACTIVITY_CONFIGS_def)
    qed
  next
    case 4
    then show ?thesis
      using e t w i r by (simp add: ACTIVITY_CONFIGS_def)
  qed
qed

lemma js_round_le: "x \<le> (90::real) \<Longrightarrow> js_round x \<le> 90"
  by (simp add: js_round_def floor_le_iff)

lemma scoreActivity_wf:
  "config \<in> set ACTIVITY_CONFIGS \<Longrightarrow> wf_activity (scoreActivity activityRankingService config avgTemp hasRain isWindy p w)"
  by (auto simp: wf_activity_def scoreActivity_fields Let_def)

lemma day_activities_wf:
  "a \<in> set (day_activities activityRankingService fc) \<Longrightarrow> wf_activity a"
  by (auto simp: day_activities_def Let_def intro: scoreActivity_wf)

section \<open>Properties of the scoring engine\<close>

text \<open>C3: For every shipped profile and every weather the suitability score is exactly the rounded stage score raised to 0 when negative: it lies in [0, 100], the upper clamp never cuts a score, and the lower clamp is live (skiing on the hot, rainy, windy day of the test suite scores 0 from a rounded stage score of -2).\<close>

theorem suitabilityScore_bounds:
  assumes "config \<in> set ACTIVITY_CONFIGS"
  shows "suitabilityScore (scoreActivity activityRankingService config avgTemp hasRain isWindy p w) =
           max 0 (js_round (fst (score_stages activityRankingService config avgTemp hasRain isWindy)))
         \<and> 0 \<le> suitabilityScore (scoreActivity activityRankingService config avgTemp hasRain isWindy p w)
         \<and> suitabilityScore (scoreActivity activityRankingService config avgTemp hasRain isWindy p w) \<le> 100
         \<and> js_round (fst (score_stages activityRankingService (ACTIVITY_CONFIGS ! 0) 42.5 True True)) = -2
         \<and> suitabilityScore (scoreActivity activityRankingService (ACTIVITY_CONFIGS ! 0) 42.5 True True 50 80) = 0"
proof -
  have "js_round (fst (score_stages activityRankingService config avgTemp hasRain isWindy)) \<le> 90"
    using js_round_le score_stages_le_90 [OF assms] by blast
  moreover have "js_round (fst (score_stages activityRankingService (ACTIVITY_CONFIGS ! 0) 42.5 True True)) = -2"
    by (simp add: ACTIVITY_CONFIGS_def score_eval activityRankingService_def)
  moreover have "suitabilityScore (scoreActivity activityRankingService (ACTIVITY_CONFIGS ! 0) 42.5 True True 50 80) = 0"
    by (simp add: ACTIVITY_CONFIGS_def score_eval activityRankingService_def)
  ultimately show ?thesis
    by (simp add: scoreActivity_fields)
qed

text \<open>C4: rankActivitiesForDay returns its activities ordered by non-increasing suitability score, for every day and every requested count.\<close>

theorem rank_sorted:
  "sorted_wrt (\<ge>) (map suitabilityScore (rankActivitiesForDay this forecast n))"
  by (simp add: rank_eq_take_sort take_map [symmetric] sorted_wrt_take sorted_sort_by_score)

text \<open>C13: rankActivitiesForDay returns min(top, 4) activities for a non-negative top; a negative top counts from the end of the sorted table, as Array.prototype.slice does.\<close>

theorem rank_length:
  "length (rankActivitiesForDay this forecast n) =
     (if 0 \<le> n then min (nat n) 4 else nat (max (4 + n) 0))"
  by (simp add: rank_eq_take_sort js_rel_index_def)

text \<open>C24: The reasoning of a scored activity is never empty, and the fallback text standard conditions is never produced: the temperature stage always contributes a tag.\<close>

theorem reasoning_never_fallback:
  "reasoning (scoreActivity this config avgTemp hasRain isWindy p w) \<noteq> []
   \<and> reasoning (scoreActivity this config avgTemp hasRain isWindy p w) \<noteq> ''standard conditions''"
proof -
  obtain t ts where rs: "snd (score_stages this config avgTemp hasRain isWindy) = t # ts"
    and t: "t \<in> temperature_tags"
    using score_stages_reasons by blast
  let ?j = "js_join '', '' (t # ts)"
  have pre: "take (length t) ?j = t"
    by (rule js_join_prefix)
  have "t \<noteq> []" "take (length t) ''standard conditions'' \<noteq> t"
    using t by (auto simp: temperature_tags_def)
  with pre have "?j \<noteq> []" "?j \<noteq> ''standard conditions''"
    by auto
  then show ?thesis
    by (simp add: scoreActivity_fields rs Let_def)
qed

text \<open>C14: When at least one activity is requested, the first activity returned has the highest score among all the scored profiles of that day.\<close>

theorem rank_head_is_best:
  assumes "0 < n" and "a \<in> set (day_activities this forecast)"
  shows "suitabilityScore a \<le> suitabilityScore (hd (rankActivitiesForDay this forecast n))"
proof -
  let ?all = "rankActivitiesForDay this forecast 4"
  have "length ?all = 4"
    by (simp add: rank_all_eq_sort)
  then have ne: "?all \<noteq> []"
    by auto
  have hd_eq: "hd (rankActivitiesForDay this forecast n) = hd ?all"
    using assms(1) ne by (simp add: rank_eq_take_sort rank_all_eq_sort js_rel_index_def hd_take)
  have "a \<in> set ?all"
    using assms(2) by (simp add: set_rank_all)
  moreover have "sorted_wrt (\<ge>) (map suitabilityScore ?all)"
    by (simp add: rank_all_eq_sort sorted_sort_by_score)
  ultimately have "suitabilityScore a \<le> suitabilityScore (hd ?all)"
    using ne by (cases ?all) auto
  then show ?thesis
    by (simp add: hd_eq)
qed

text \<open>C23: Ties keep the profile table order: among the activities of equal score, the full ranking lists them in the order of ACTIVITY_CONFIGS (the sort is stable).\<close>

theorem rank_stable:
  "filter (\<lambda>b. suitabilityScore b = s) (rankActivitiesForDay this forecast 4) =
   filter (\<lambda>b. suitabilityScore b = s) (day_activities this forecast)"
proof -
  let ?x = "\<lparr>act_name = [], reasoning = [], suitabilityScore = s\<rparr>"
  have "\<And>y. compare by_score_desc ?x y = Equiv \<longleftrightarrow> suitabilityScore y = s"
    by auto
  then show ?thesis
    using stable_sort [of by_score_desc ?x "day_activities this forecast"]
    by (simp add: rank_all_eq_sort)
qed

lemma rank_clear_day:
  "rankActivitiesForDay activityRankingService
     \<lparr>date = ''2025-01-01'', maxTemp = 22, minTemp = 18, day_conditions = ''Clear sky'',
      day_precipitation = 0, day_windSpeed = 5\<rparr> 4 =
   [\<lparr>act_name = ''outdoor_sightseeing'', reasoning = ''ideal temperature, no rain'',
       suitabilityScore = 90\<rparr>,
    \<lparr>act_name = ''surfing'', reasoning = ''ideal temperature'', suitabilityScore = 80\<rparr>,
    \<lparr>act_name = ''indoor_sightseeing'', reasoning = ''ideal temperature'', suitabilityScore = 80\<rparr>,
    \<lparr>act_name = ''skiing'', reasoning = ''too warm, no rain'', suitabilityScore = 30\<rparr>]"
  by (simp add: rank_eval day_activities_clear_day)

lemma rank_rainy_day:
  "rankActivitiesForDay activityRankingService
     \<lparr>date = ''2025-01-01'', maxTemp = 18, minTemp = 15, day_conditions = ''Heavy rain'',
      day_precipitation = 15, day_windSpeed = 10\<rparr> 2 =
   [\<lparr>act_name = ''indoor_sightseeing'', reasoning = ''ideal temperature, rain makes it more appealing'',
       suitabilityScore = 90\<rparr>,
    \<lparr>act_name = ''outdoor_sightseeing'', reasoning = ''ideal temperature, rain not ideal'',
       suitabilityScore = 62\<rparr>]"
  by (simp add: rank_eval day_activities_rainy_day)

text \<open>C12: No shipped profile ever scores above 90, so the upper clamp to MAX_SCORE = 100 never fires; 90 is reached (outdoor sightseeing on a mild dry calm day).\<close>

theorem suitabilityScore_max:
  assumes "config \<in> set ACTIVITY_CONFIGS"
  shows "suitabilityScore (scoreActivity activityRankingService config avgTemp hasRain isWindy p w) \<le> 90
         \<and> suitabilityScore (scoreActivity activityRankingService (ACTIVITY_CONFIGS ! 3) 20 False False 0 5) = 90"
proof -
  have "js_round (fst (score_stages activityRankingService config avgTemp hasRain isWindy)) \<le> 90"
    using js_round_le score_stages_le_90 [OF assms] by blast
  moreover have "suitabilityScore (scoreActivity activityRankingService (ACTIVITY_CONFIGS ! 3) 20 False False 0 5) = 90"
    by (simp add: ACTIVITY_CONFIGS_def score_eval activityRankingService_def)
  ultimately show ?thesis
    by (simp add: scoreActivity_fields)
qed

theorem rank_head_is_best_witness:
  "0 < (1::int)
   \<and> \<lparr>act_name = ''skiing'', reasoning = ''too warm, no rain'', suitabilityScore = 30\<rparr>
       \<in> set (day_activities activityRankingService
            \<lparr>date = ''2025-01-01'', maxTemp = 22, minTemp = 18, day_conditions = ''Clear sky'',
             day_precipitation = 0, day_windSpeed = 5\<rparr>)
   \<and> suitabilityScore \<lparr>act_name = ''skiing'', reasoning = ''too warm, no rain'', suitabilityScore = 30\<rparr>
       \<le> suitabilityScore (hd (rankActivitiesForDay activityRankingService
            \<lparr>date = ''2025-01-01'', maxTemp = 22, minTemp = 18, day_conditions = ''Clear sky'',
             day_precipitation = 0, day_windSpeed = 5\<rparr> 1))"
  using rank_head_is_best [of 1 "\<lparr>act_name = ''skiing'', reasoning = ''too warm, no rain'', suitabilityScore = 30\<rparr>"
      activityRankingService
      "\<lparr>date = ''2025-01-01'', maxTemp = 22, minTemp = 18, day_conditions = ''Clear sky'',
        day_precipitation = 0, day_windSpeed = 5\<rparr>"]
  by (simp add: day_activities_clear_day)

theorem suitabilityScore_max_witness:
  "ACTIVITY_CONFIGS ! 0 \<in> set ACTIVITY_CONFIGS
   \<and> suitabilityScore (scoreActivity activityRankingService (ACTIVITY_CONFIGS ! 0) (-5) True False 3 8) \<le> 90"
proof -
  have h: "ACTIVITY_CONFIGS ! 0 \<in> set ACTIVITY_CONFIGS"
    by (simp add: ACTIVITY_CONFIGS_def)
  show ?thesis
    using h suitabilityScore_max [OF h, of "-5" True False 3 8] by blast
qed

theorem suitabilityScore_bounds_witness:
  "ACTIVITY_CONFIGS ! 2 \<in> set ACTIVITY_CONFIGS
   \<and> suitabilityScore (scoreActivity activityRankingService (ACTIVITY_CONFIGS ! 2) 16.5 True False 15 10) =
       max 0 (js_round (fst (score_stages activityRankingService (ACTIVITY_CONFIGS ! 2) 16.5 True False)))"
proof -
  have h: "ACTIVITY_CONFIGS ! 2 \<in> set ACTIVITY_CONFIGS"
    by (simp add: ACTIVITY_CONFIGS_def)
  show ?thesis
    using h suitabilityScore_bounds [OF h, of "16.5" True False 15 10] by blast
qed

end
