(* ===== verification/JsNumber.thy ===== *)
theory JsNumber
  imports Prelude
begin

text \<open>
  JavaScript numbers where the codec prints and reads them. A coordinate reaches the program
  as a JSON number literal, a finite decimal \<open>m / 10 ^ e\<close>; the program prints it with the
  default \<open>Number::toString\<close> (template literal) and reads it back with \<open>parseFloat\<close>.
  \<open>number_to_string\<close> is ECMA-262's \<open>Number::toString(x, 10)\<close> with \<open>s\<close> the decimal's
  own digits: for a double this is the shortest round-tripping digit string, and it is the
  decimal's digits whenever the literal has at most 15 significant digits. \<open>parse_float\<close> is
  ECMA-262's \<open>parseFloat\<close>: leading white space, then the longest prefix that is a
  \<open>StrDecimalLiteral\<close>, read exactly (no rounding to a double). The main result is the
  roundtrip \<open>parse_float (number_to_string d) = JsNum (dec_val d)\<close>.
\<close>

datatype js_number = JsNum real | JsInfinity | JsNegInfinity | JsNaN

datatype decimal = Decimal int nat

fun dec_val :: "decimal \<Rightarrow> real" where
  "dec_val (Decimal m e) = of_int m / 10 ^ e"

subsection \<open>Digits\<close>

definition digit_char :: "nat \<Rightarrow> char" where
  "digit_char d = char_of (48 + d)"

definition is_digit :: "char \<Rightarrow> bool" where
  "is_digit c \<longleftrightarrow> (48::nat) \<le> of_char c \<and> of_char c \<le> (57::nat)"

definition char_digit :: "char \<Rightarrow> nat" where
  "char_digit c = of_char c - 48"

fun nat_str :: "nat \<Rightarrow> string" where
  "nat_str n = (if n < 10 then [digit_char n] else nat_str (n div 10) @ [digit_char (n mod 10)])"

definition digits_val :: "string \<Rightarrow> nat" where
  "digits_val ds = foldl (\<lambda>acc c. 10 * acc + char_digit c) 0 ds"

subsection \<open>Number::toString\<close>

definition strip_zeros :: "string \<Rightarrow> string" where
  "strip_zeros ds = rev (dropWhile (\<lambda>c. c = CHR ''0'') (rev ds))"

text \<open>The exponent part \<open>e+x\<close> / \<open>e-x\<close> of the scientific notation.\<close>

definition exp_str :: "int \<Rightarrow> string" where
  "exp_str x = CHR ''e'' # (if 0 < x then CHR ''+'' else CHR ''-'') # nat_str (nat \<bar>x\<bar>)"

text \<open>Steps 6 to 10 of \<open>Number::toString\<close> for a positive number with digits \<open>s\<close>
  (no trailing zero) and decimal point position \<open>n\<close>, that is \<open>s \<times> 10 ^ (n - k)\<close>.\<close>

definition pos_to_string :: "string \<Rightarrow> int \<Rightarrow> string" where
  "pos_to_string s n =
    (let k = int (length s) in
     if k \<le> n \<and> n \<le> 21 then s @ replicate (nat (n - k)) (CHR ''0'')
     else if 0 < n \<and> n \<le> 21 then take (nat n) s @ CHR ''.'' # drop (nat n) s
     else if -6 < n \<and> n \<le> 0 then CHR ''0'' # CHR ''.'' # replicate (nat (- n)) (CHR ''0'') @ s
     else if k = 1 then s @ exp_str (n - 1)
     else hd s # CHR ''.'' # tl s @ exp_str (n - 1))"

fun number_to_string :: "decimal \<Rightarrow> string" where
  "number_to_string (Decimal m e) =
    (if m = 0 then ''0''
     else (let ds = nat_str (nat \<bar>m\<bar>);
               body = pos_to_string (strip_zeros ds) (int (length ds) - int e)
           in if m < 0 then CHR ''-'' # body else body))"

subsection \<open>parseFloat\<close>

text \<open>An optional sign, as \<open>StrDecimalLiteral\<close> and \<open>ExponentPart\<close> both allow.\<close>

definition sign_prefix :: "string \<Rightarrow> int \<times> string" where
  "sign_prefix r =
    (if r \<noteq> [] \<and> hd r = CHR ''+'' then (1, tl r)
     else if r \<noteq> [] \<and> hd r = CHR ''-'' then (-1, tl r)
     else (1, r))"

text \<open>The value of the \<open>ExponentPart\<close> that starts the string, 0 when there is none (an
  \<open>e\<close> without digits is not part of the longest numeric prefix).\<close>

definition parse_exponent :: "string \<Rightarrow> int" where
  "parse_exponent r =
    (if r \<noteq> [] \<and> (hd r = CHR ''e'' \<or> hd r = CHR ''E'')
     then (case sign_prefix (tl r) of (sg, r2) \<Rightarrow>
            let ds = takeWhile is_digit r2 in if ds = [] then 0 else sg * int (digits_val ds))
     else 0)"

definition parse_unsigned :: "string \<Rightarrow> js_number" where
  "parse_unsigned r =
    (if take 8 r = ''Infinity'' then JsInfinity
     else (let d1 = takeWhile is_digit r;
               r1 = dropWhile is_digit r;
               frac = r1 \<noteq> [] \<and> hd r1 = CHR ''.'';
               d2 = (if frac then takeWhile is_digit (tl r1) else []);
               r2 = (if frac then dropWhile is_digit (tl r1) else r1)
           in if d1 = [] \<and> d2 = [] then JsNaN
              else JsNum (of_nat (digits_val (d1 @ d2)) / 10 ^ length d2
                          * 10 powi parse_exponent r2)))"

fun js_negate :: "js_number \<Rightarrow> js_number" where
  "js_negate (JsNum x) = JsNum (- x)"
| "js_negate JsInfinity = JsNegInfinity"
| "js_negate JsNegInfinity = JsInfinity"
| "js_negate JsNaN = JsNaN"

definition parse_float :: "string \<Rightarrow> js_number" where
  "parse_float str =
    (case sign_prefix (dropWhile is_js_ws str) of (sg, r) \<Rightarrow>
       if sg < 0 then js_negate (parse_unsigned r) else parse_unsigned r)"

subsection \<open>Comparisons\<close>

text \<open>\<open>isNaN(x)\<close>, \<open>x >= r\<close> and \<open>x <= r\<close> against a finite bound: every comparison
  with NaN is false, and the infinities compare as the extended reals do.\<close>

fun js_isNaN :: "js_number \<Rightarrow> bool" where
  "js_isNaN JsNaN = True"
| "js_isNaN _ = False"

fun js_ge :: "js_number \<Rightarrow> real \<Rightarrow> bool" where
  "js_ge (JsNum a) r \<longleftrightarrow> r \<le> a"
| "js_ge JsInfinity r \<longleftrightarrow> True"
| "js_ge JsNegInfinity r \<longleftrightarrow> False"
| "js_ge JsNaN r \<longleftrightarrow> False"

fun js_le :: "js_number \<Rightarrow> real \<Rightarrow> bool" where
  "js_le (JsNum a) r \<longleftrightarrow> a \<le> r"
| "js_le JsInfinity r \<longleftrightarrow> False"
| "js_le JsNegInfinity r \<longleftrightarrow> True"
| "js_le JsNaN r \<longleftrightarrow> False"

subsection \<open>Digit strings\<close>

lemma is_digit_digit_char [simp]: "d < 10 \<Longrightarrow> is_digit (digit_char d)"
  by (simp add: is_digit_def digit_char_def)

lemma char_digit_digit_char [simp]: "d < 10 \<Longrightarrow> char_digit (digit_char d) = d"
  by (simp add: char_digit_def digit_char_def)

lemma not_digit_chars [simp]:
  "\<not> is_digit CHR ''.''" "\<not> is_digit CHR ''e''" "\<not> is_digit CHR ''+''" "\<not> is_digit CHR ''-''"
  "\<not> is_digit CHR ''I''" "\<not> is_js_ws CHR ''-''"
  by (simp_all add: is_digit_def is_js_ws_def)

lemma is_digit_zero [simp]: "is_digit CHR ''0''"
  by (simp add: is_digit_def)

lemma is_digit_not_ws: "is_digit c \<Longrightarrow> \<not> is_js_ws c"
  by (auto simp: is_digit_def is_js_ws_def)

lemma is_digit_not_sign: "is_digit c \<Longrightarrow> c \<noteq> CHR ''+'' \<and> c \<noteq> CHR ''-''"
  by (auto simp: is_digit_def)

declare nat_str.simps [simp del]

lemma nat_str_not_Nil [simp]: "nat_str n \<noteq> []"
  by (subst nat_str.simps) simp

lemma nat_str_digits: "c \<in> set (nat_str n) \<Longrightarrow> is_digit c"
proof (induction n rule: nat_str.induct)
  case (1 n)
  then show ?case
    by (subst (asm) nat_str.simps) (auto split: if_splits)
qed

lemma foldl_digits_acc:
  "foldl (\<lambda>acc c. 10 * acc + char_digit c) a ys =
     a * 10 ^ length ys + foldl (\<lambda>acc c. 10 * acc + char_digit c) 0 ys"
proof (induction ys arbitrary: a)
  case (Cons y ys)
  let ?f = "\<lambda>acc c. 10 * acc + char_digit c"
  have "foldl ?f a (y # ys) = (10 * a + char_digit y) * 10 ^ length ys + foldl ?f 0 ys"
    using Cons.IH [of "10 * a + char_digit y"] by simp
  moreover have "foldl ?f 0 (y # ys) = char_digit y * 10 ^ length ys + foldl ?f 0 ys"
    using Cons.IH [of "char_digit y"] by simp
  ultimately show ?case
    by (simp add: algebra_simps)
qed simp

lemma digits_val_foldl: "foldl (\<lambda>acc c. 10 * acc + char_digit c) a ys = a * 10 ^ length ys + digits_val ys"
  by (subst foldl_digits_acc) (simp add: digits_val_def)

lemma digits_val_append: "digits_val (xs @ ys) = digits_val xs * 10 ^ length ys + digits_val ys"
proof -
  have "digits_val (xs @ ys) = foldl (\<lambda>acc c. 10 * acc + char_digit c) (digits_val xs) ys"
    by (simp only: digits_val_def foldl_append)
  then show ?thesis
    by (simp only: digits_val_foldl)
qed

lemma digits_val_Nil [simp]: "digits_val [] = 0"
  by (simp add: digits_val_def)

lemma digits_val_zeros [simp]: "digits_val (replicate k CHR ''0'') = 0"
  by (induction k) (simp_all add: digits_val_append [of "[_]" "replicate _ _", simplified] replicate_app_Cons_same [symmetric] digits_val_def char_digit_def)

lemma nat_str_val: "digits_val (nat_str n) = n"
proof (induction n rule: nat_str.induct)
  case (1 n)
  show ?case
  proof (cases "n < 10")
    case True
    then show ?thesis by (simp add: nat_str.simps [of n] digits_val_def)
  next
    case False
    with "1.IH" show ?thesis
      by (simp add: nat_str.simps [of n] digits_val_append digits_val_def [of "[_]"])
  qed
qed

subsection \<open>Reading back what Number::toString prints\<close>

lemma takeWhile_eq_replicate: "takeWhile (\<lambda>c. c = x) xs = replicate (length (takeWhile (\<lambda>c. c = x) xs)) x"
  by (induction xs) auto

lemma strip_zeros_app: "\<exists>z. ds = strip_zeros ds @ replicate z CHR ''0''"
proof -
  let ?P = "\<lambda>c. c = CHR ''0''"
  let ?t = "takeWhile ?P (rev ds)"
  have "rev ds = ?t @ dropWhile ?P (rev ds)"
    by simp
  then have "ds = strip_zeros ds @ rev ?t"
    unfolding strip_zeros_def by (metis rev_append rev_rev_ident)
  also have "rev ?t = replicate (length ?t) CHR ''0''"
    by (subst takeWhile_eq_replicate) simp
  finally show ?thesis by blast
qed

lemma strip_zeros_subset: "c \<in> set (strip_zeros ds) \<Longrightarrow> c \<in> set ds"
  by (auto simp: strip_zeros_def dest: set_dropWhileD)

lemma digits_val_leading_zeros [simp]: "digits_val (replicate k CHR ''0'' @ s) = digits_val s"
  by (simp add: digits_val_append)

lemma not_Infinity: "w \<noteq> [] \<Longrightarrow> is_digit (hd w) \<Longrightarrow> take 8 w \<noteq> ''Infinity''"
  by (cases w) auto

lemma parse_exponent_exp_str [simp]: "parse_exponent (exp_str x) = x"
proof -
  have dig: "\<And>k. takeWhile is_digit (nat_str k) = nat_str k"
    by (simp add: nat_str_digits)
  show ?thesis
    by (simp add: exp_str_def parse_exponent_def sign_prefix_def dig nat_str_val Let_def)
qed

lemma exp_str_hd: "exp_str x = CHR ''e'' # tl (exp_str x)"
  by (simp add: exp_str_def)

text \<open>Reading a numeral with no fraction part, then with one.\<close>

lemma parse_unsigned_int_part:
  assumes "d1 \<noteq> []" and "\<And>c. c \<in> set d1 \<Longrightarrow> is_digit c"
    and "r = [] \<or> (\<not> is_digit (hd r) \<and> hd r \<noteq> CHR ''.'')"
  shows "parse_unsigned (d1 @ r) = JsNum (of_nat (digits_val d1) * 10 powi parse_exponent r)"
proof -
  have "takeWhile is_digit (d1 @ r) = d1" "dropWhile is_digit (d1 @ r) = r"
    using assms(2,3) by (cases r; auto)+
  moreover have "take 8 (d1 @ r) \<noteq> ''Infinity''"
    using assms(1,2) by (intro not_Infinity) auto
  ultimately show ?thesis
    using assms(1,3) by (auto simp: parse_unsigned_def Let_def)
qed

lemma parse_unsigned_frac_part:
  assumes "d1 \<noteq> []" and "\<And>c. c \<in> set d1 \<Longrightarrow> is_digit c" and "\<And>c. c \<in> set d2 \<Longrightarrow> is_digit c"
    and "r = [] \<or> \<not> is_digit (hd r)"
  shows "parse_unsigned (d1 @ CHR ''.'' # d2 @ r) =
           JsNum (of_nat (digits_val (d1 @ d2)) / 10 ^ length d2 * 10 powi parse_exponent r)"
proof -
  have "takeWhile is_digit (d1 @ CHR ''.'' # d2 @ r) = d1" "dropWhile is_digit (d1 @ CHR ''.'' # d2 @ r) = CHR ''.'' # d2 @ r"
    using assms(2) by auto
  moreover have "takeWhile is_digit (d2 @ r) = d2" "dropWhile is_digit (d2 @ r) = r"
    using assms(3,4) by (cases r; auto)+
  moreover have "take 8 (d1 @ CHR ''.'' # d2 @ r) \<noteq> ''Infinity''"
    using assms(1,2) by (intro not_Infinity) auto
  ultimately show ?thesis
    using assms(1) by (simp add: parse_unsigned_def Let_def)
qed

lemma parse_exponent_Nil [simp]: "parse_exponent [] = 0"
  by (simp add: parse_exponent_def)

lemma pow10_shift: "(a::real) / 10 ^ j * 10 powi x = a * 10 powi (x - int j)"
  by (simp add: power_int_diff)

lemma parse_unsigned_pos_to_string:
  assumes ne: "s \<noteq> []" and dig: "\<And>c. c \<in> set s \<Longrightarrow> is_digit c"
  shows "parse_unsigned (pos_to_string s n) =
           JsNum (of_nat (digits_val s) * 10 powi (n - int (length s)))"
proof -
  let ?k = "int (length s)"
  have zeros: "\<And>c j. c \<in> set (replicate j CHR ''0'') \<Longrightarrow> is_digit c"
    by simp
  have e_r: "exp_str (n - 1) = [] \<or> (\<not> is_digit (hd (exp_str (n - 1))) \<and> hd (exp_str (n - 1)) \<noteq> CHR ''.'')"
    by (simp add: exp_str_def)
  consider (A) "?k \<le> n \<and> n \<le> 21"
    | (B) "\<not> (?k \<le> n \<and> n \<le> 21)" "0 < n \<and> n \<le> 21"
    | (C) "\<not> (?k \<le> n \<and> n \<le> 21)" "\<not> (0 < n \<and> n \<le> 21)" "-6 < n \<and> n \<le> 0"
    | (D) "\<not> (?k \<le> n \<and> n \<le> 21)" "\<not> (0 < n \<and> n \<le> 21)" "\<not> (-6 < n \<and> n \<le> 0)" "?k = 1"
    | (E) "\<not> (?k \<le> n \<and> n \<le> 21)" "\<not> (0 < n \<and> n \<le> 21)" "\<not> (-6 < n \<and> n \<le> 0)" "?k \<noteq> 1"
    by blast
  then show ?thesis
  proof cases
    case A
    let ?w = "s @ replicate (nat (n - ?k)) CHR ''0''"
    have "pos_to_string s n = ?w @ []"
      using A by (simp add: pos_to_string_def)
    moreover have "parse_unsigned (?w @ []) = JsNum (of_nat (digits_val ?w) * 10 powi parse_exponent [])"
      using ne dig by (intro parse_unsigned_int_part) auto
    moreover have "(10::real) powi (n - ?k) = 10 ^ nat (n - ?k)"
    proof -
      have "(10::real) powi (n - ?k) = 10 powi int (nat (n - ?k))"
        using A by simp
      then show ?thesis
        by (simp only: power_int_of_nat)
    qed
    ultimately show ?thesis
      by (simp add: digits_val_append parse_exponent_def)
  next
    case B
    let ?j = "nat n"
    have j: "0 < ?j" "?j < length s"
      using B by auto
    have str: "pos_to_string s n = take ?j s @ CHR ''.'' # drop ?j s @ []"
      using B by (simp add: pos_to_string_def)
    have "parse_unsigned (take ?j s @ CHR ''.'' # drop ?j s @ []) =
        JsNum (of_nat (digits_val (take ?j s @ drop ?j s)) / 10 ^ length (drop ?j s) * 10 powi parse_exponent [])"
      using ne dig j by (intro parse_unsigned_frac_part) (auto dest: in_set_takeD in_set_dropD)
    then have v: "parse_unsigned (take ?j s @ CHR ''.'' # drop ?j s @ []) =
        JsNum (of_nat (digits_val s) * 10 powi (0 - int (length (drop ?j s))))"
      by (simp only: append_take_drop_id pow10_shift parse_exponent_Nil)
    have e: "0 - int (length (drop ?j s)) = n - ?k"
      using j by simp
    show ?thesis
      by (simp only: str v e)
  next
    case C
    let ?j = "nat (- n)"
    let ?d2 = "replicate ?j CHR ''0'' @ s"
    have str: "pos_to_string s n = ''0'' @ CHR ''.'' # ?d2 @ []"
      using C by (simp add: pos_to_string_def)
    have "parse_unsigned (''0'' @ CHR ''.'' # ?d2 @ []) =
        JsNum (of_nat (digits_val (''0'' @ ?d2)) / 10 ^ length ?d2 * 10 powi parse_exponent [])"
      using dig by (intro parse_unsigned_frac_part) auto
    moreover have "digits_val (''0'' @ ?d2) = digits_val s"
      using digits_val_leading_zeros [of "Suc ?j" s] by simp
    ultimately have v: "parse_unsigned (''0'' @ CHR ''.'' # ?d2 @ []) =
        JsNum (of_nat (digits_val s) * 10 powi (0 - int (length ?d2)))"
      by (simp only: pow10_shift parse_exponent_Nil)
    have e: "0 - int (length ?d2) = n - ?k"
      using C by simp
    show ?thesis
      by (simp only: str v e)
  next
    case D
    have "pos_to_string s n = s @ exp_str (n - 1)"
      unfolding pos_to_string_def Let_def
      by (simp only: if_not_P [OF D(1)] if_not_P [OF D(2)] if_not_P [OF D(3)] if_P [OF D(4)])
    moreover have "parse_unsigned (s @ exp_str (n - 1)) =
        JsNum (of_nat (digits_val s) * 10 powi parse_exponent (exp_str (n - 1)))"
      using ne dig e_r by (rule parse_unsigned_int_part)
    ultimately show ?thesis
      using D by simp
  next
    case E
    have s_eq: "s = [hd s] @ tl s"
      using ne by simp
    have "pos_to_string s n = [hd s] @ CHR ''.'' # tl s @ exp_str (n - 1)"
      unfolding pos_to_string_def Let_def
      by (simp only: if_not_P [OF E(1)] if_not_P [OF E(2)] if_not_P [OF E(3)] if_not_P [OF E(4)]
          append_Cons append_Nil)
    moreover have "parse_unsigned ([hd s] @ CHR ''.'' # tl s @ exp_str (n - 1)) =
        JsNum (of_nat (digits_val ([hd s] @ tl s)) / 10 ^ length (tl s) * 10 powi parse_exponent (exp_str (n - 1)))"
      using ne dig e_r by (intro parse_unsigned_frac_part) (auto dest: list.set_sel)
    moreover have "n - 1 - int (length (tl s)) = n - ?k"
      using ne by (cases s) auto
    ultimately show ?thesis
      by (simp only: pow10_shift s_eq [symmetric] parse_exponent_exp_str)
  qed
qed

lemma pos_to_string_hd:
  assumes "s \<noteq> []" and "\<And>c. c \<in> set s \<Longrightarrow> is_digit c"
  shows "pos_to_string s n \<noteq> [] \<and> is_digit (hd (pos_to_string s n))"
proof -
  have "is_digit (hd s)"
    using assms by simp
  moreover have "0 < nat n \<Longrightarrow> hd (take (nat n) s) = hd s"
    using assms(1) by (cases s) auto
  ultimately show ?thesis
    using assms(1) by (auto simp: pos_to_string_def Let_def hd_append)
qed

lemma number_value:
  assumes "0 < a"
  defines "s \<equiv> strip_zeros (nat_str a)"
  shows "s \<noteq> []" and "\<And>c. c \<in> set s \<Longrightarrow> is_digit c"
    and "of_nat (digits_val s) * (10::real) powi (int (length (nat_str a)) - int e - int (length s))
           = of_nat a / 10 ^ e"
proof -
  obtain z where D: "nat_str a = s @ replicate z CHR ''0''"
    using strip_zeros_app [of "nat_str a"] unfolding s_def by blast
  have a: "a = digits_val s * 10 ^ z"
    using nat_str_val [of a] D by (simp add: digits_val_append)
  show "s \<noteq> []"
    using a assms(1) by auto
  show "\<And>c. c \<in> set s \<Longrightarrow> is_digit c"
    unfolding s_def by (auto dest: strip_zeros_subset nat_str_digits)
  have eq: "int (length (nat_str a)) - int e - int (length s) = int z - int e"
    using D by simp
  have "(10::real) powi (int z - int e) = 10 ^ z / 10 ^ e"
    by (subst power_int_diff) simp_all
  then have "(10::real) powi (int (length (nat_str a)) - int e - int (length s)) = 10 ^ z / 10 ^ e"
    by (simp only: eq)
  then show "of_nat (digits_val s) * (10::real) powi (int (length (nat_str a)) - int e - int (length s))
           = of_nat a / 10 ^ e"
    by (subst a) simp
qed

lemma parse_float_zero: "parse_float ''0'' = JsNum 0"
  by (simp add: parse_float_def sign_prefix_def is_js_ws_def parse_unsigned_def
      is_digit_def digits_val_def char_digit_def)

lemma parse_float_body:
  assumes "w \<noteq> []" "is_digit (hd w)"
  shows "parse_float w = parse_unsigned w" "parse_float (CHR ''-'' # w) = js_negate (parse_unsigned w)"
proof -
  have "dropWhile is_js_ws w = w" "sign_prefix w = (1, w)"
    using assms is_digit_not_ws is_digit_not_sign by (cases w; auto simp: sign_prefix_def)+
  then show "parse_float w = parse_unsigned w" "parse_float (CHR ''-'' # w) = js_negate (parse_unsigned w)"
    by (simp_all add: parse_float_def sign_prefix_def)
qed

lemma pos_body:
  fixes a e :: nat
  assumes "0 < a"
  defines "w \<equiv> pos_to_string (strip_zeros (nat_str a)) (int (length (nat_str a)) - int e)"
  shows "w \<noteq> [] \<and> is_digit (hd w) \<and> parse_unsigned w = JsNum (of_nat a / 10 ^ e)"
proof -
  note v1 = number_value(1) [OF assms(1)] and v2 = number_value(2) [OF assms(1)]
    and v3 = number_value(3) [OF assms(1), of e]
  have "parse_unsigned w = JsNum (of_nat a / 10 ^ e)"
    unfolding w_def using parse_unsigned_pos_to_string [OF v1 v2] v3 by simp
  moreover have "w \<noteq> []" "is_digit (hd w)"
    unfolding w_def using pos_to_string_hd [OF v1 v2] by auto
  ultimately show ?thesis
    by simp
qed

theorem parse_float_number_to_string: "parse_float (number_to_string d) = JsNum (dec_val d)"
proof (cases d)
  case (Decimal m e)
  let ?w = "pos_to_string (strip_zeros (nat_str (nat \<bar>m\<bar>))) (int (length (nat_str (nat \<bar>m\<bar>))) - int e)"
  consider "m = 0" | "0 < m" | "m < 0"
    by linarith
  then show ?thesis
  proof cases
    case 1
    then show ?thesis
      using Decimal by (simp add: parse_float_zero)
  next
    case 2
    then have "?w \<noteq> [] \<and> is_digit (hd ?w) \<and> parse_unsigned ?w = JsNum (of_nat (nat \<bar>m\<bar>) / 10 ^ e)"
      by (intro pos_body) simp
    with 2 Decimal show ?thesis
      by (simp add: parse_float_body Let_def)
  next
    case 3
    then have "?w \<noteq> [] \<and> is_digit (hd ?w) \<and> parse_unsigned ?w = JsNum (of_nat (nat \<bar>m\<bar>) / 10 ^ e)"
      by (intro pos_body) simp
    with 3 Decimal show ?thesis
      by (simp add: parse_float_body Let_def)
  qed
qed

lemma exp_str_chars: "c \<in> set (exp_str x) \<Longrightarrow> is_digit c \<or> c \<in> {CHR ''e'', CHR ''+'', CHR ''-''}"
  by (auto simp: exp_str_def dest: nat_str_digits split: if_splits)

lemma pos_to_string_chars:
  assumes "c \<in> set (pos_to_string s n)" and "s \<noteq> []"
  shows "c \<in> set s \<or> c = CHR ''0'' \<or> c = CHR ''.'' \<or> c \<in> set (exp_str (n - 1))"
proof -
  have tl: "c \<in> set (tl s) \<Longrightarrow> c \<in> set s"
    by (cases s) auto
  have hd: "s \<noteq> [] \<Longrightarrow> hd s \<in> set s"
    by simp
  show ?thesis
    using assms unfolding pos_to_string_def Let_def
    by (auto split: if_splits dest: in_set_takeD in_set_dropD tl intro: hd_in_set)
qed

lemma number_to_string_chars:
  "c \<in> set (number_to_string d) \<Longrightarrow> is_digit c \<or> c \<in> {CHR ''.'', CHR ''e'', CHR ''+'', CHR ''-''}"
proof (cases d)
  case (Decimal m e)
  let ?ds = "nat_str (nat \<bar>m\<bar>)"
  let ?w = "pos_to_string (strip_zeros ?ds) (int (length ?ds) - int e)"
  assume c: "c \<in> set (number_to_string d)"
  show ?thesis
  proof (cases "m = 0")
    case True
    with c Decimal show ?thesis
      by (simp add: is_digit_def)
  next
    case False
    have ne: "strip_zeros ?ds \<noteq> []"
      using number_value(1) [of "nat \<bar>m\<bar>"] False by simp
    have w: "is_digit c \<or> c \<in> {CHR ''.'', CHR ''e'', CHR ''+'', CHR ''-''}" if cw: "c \<in> set ?w"
    proof -
      have "c \<in> set (strip_zeros ?ds) \<or> c = CHR ''0'' \<or> c = CHR ''.''
          \<or> c \<in> set (exp_str (int (length ?ds) - int e - 1))"
        using pos_to_string_chars [OF cw ne] .
      then show ?thesis
        using exp_str_chars [of c "int (length ?ds) - int e - 1"] strip_zeros_subset [of c ?ds]
          nat_str_digits [of c "nat \<bar>m\<bar>"]
        by auto
    qed
    have "number_to_string d = (if m < 0 then CHR ''-'' # ?w else ?w)"
      using False Decimal by (simp add: Let_def)
    then have "c = CHR ''-'' \<or> c \<in> set ?w"
      using c by (cases "m < 0") auto
    with w show ?thesis
      by auto
  qed
qed


lemma number_to_string_no_sep: "CHR '':'' \<notin> set (number_to_string d)" "CHR '','' \<notin> set (number_to_string d)"
  using number_to_string_chars [of "CHR '':''" d] number_to_string_chars [of "CHR '',''" d]
  by (auto simp: is_digit_def)

lemma number_to_string_not_Nil [simp]: "number_to_string d \<noteq> []"
proof (cases d)
  case (Decimal m e)
  show ?thesis
  proof (cases "m = 0")
    case False
    then have "0 < nat \<bar>m\<bar>" by simp
    from pos_body [OF this, of e] False Decimal show ?thesis
      by (auto simp: Let_def)
  qed (simp add: Decimal)
qed

lemmas parse_eval = parse_float_def sign_prefix_def is_js_ws_def parse_unsigned_def is_digit_def
  digits_val_def char_digit_def parse_exponent_def

lemmas print_eval = nat_str.simps digit_char_def char_of_eq_iff strip_zeros_def pos_to_string_def

end
