(* ===== verification/ApiTypes.thy ===== *)
theory ApiTypes
  imports ActivityRanking JsNumber
begin

text \<open>
  The data the Open-Meteo adapter (\<open>src/unnamed/part_001\<close>, \<open>services/openMeteoAPI.ts\<close>)
  exchanges: the provider's payload types, the adapter's error class, the requests it issues,
  and the GraphQL output types it builds (\<open>City\<close>, \<open>Weather\<close>, \<open>CityWeather\<close> of the
  generated types). Coordinates that flow through the program are JavaScript numbers
  (\<open>js_number\<close>); a coordinate of a geocoding result is the JSON literal the provider sent
  (\<open>decimal\<close>). The HTTP collaborator is a function from a request to the response or to
  the value the rejected promise carries.
\<close>

subsection \<open>Provider payloads\<close>

record GeocodingResult =
  gr_id :: int
  gr_name :: string
  gr_latitude :: decimal
  gr_longitude :: decimal
  gr_elevation :: real
  feature_code :: string
  country_code :: string
  admin1 :: "string option"
  admin2 :: "string option"
  admin3 :: "string option"
  admin4 :: "string option"
  gr_timezone :: string
  population :: "int option"
  country_id :: int
  gr_country :: string
  admin1_id :: "int option"
  admin2_id :: "int option"
  admin3_id :: "int option"
  admin4_id :: "int option"

record GeocodingResponse =
  results :: "GeocodingResult list option"
  generationtime_ms :: real

record CurrentWeather =
  cw_time :: string
  interval :: int
  temperature_2m :: real
  relative_humidity_2m :: real
  apparent_temperature :: real
  is_day :: int
  cw_precipitation :: real
  rain :: real
  showers :: real
  snowfall :: real
  cw_weather_code :: int
  cloud_cover :: real
  pressure_msl :: real
  surface_pressure :: real
  wind_speed_10m :: real
  wind_direction_10m :: real
  wind_gusts_10m :: real

record DailyWeather =
  time :: "string list"
  weather_code :: "int list"
  temperature_2m_max :: "real list"
  temperature_2m_min :: "real list"
  apparent_temperature_max :: "real list"
  apparent_temperature_min :: "real list"
  sunrise :: "string list"
  sunset :: "string list"
  daylight_duration :: "real list"
  sunshine_duration :: "real list"
  uv_index_max :: "real list"
  uv_index_clear_sky_max :: "real list"
  precipitation_sum :: "real list"
  rain_sum :: "real list"
  showers_sum :: "real list"
  snowfall_sum :: "real list"
  precipitation_hours :: "real list"
  precipitation_probability_max :: "real list"
  wind_speed_10m_max :: "real list"
  wind_gusts_10m_max :: "real list"
  wind_direction_10m_dominant :: "real list"
  shortwave_radiation_sum :: "real list"

record WeatherResponse =
  wr_latitude :: real
  wr_longitude :: real
  wr_generationtime_ms :: real
  utc_offset_seconds :: int
  wr_timezone :: string
  timezone_abbreviation :: string
  wr_elevation :: real
  current_units :: "(string \<times> string) list"
  current :: CurrentWeather
  daily_units :: "(string \<times> string) list"
  daily :: DailyWeather

subsection \<open>Failures\<close>

text \<open>What a rejected request carries: an axios error (\<open>error.code\<close>,
  \<open>error.response?.status\<close>, \<open>error.response?.statusText\<close>, \<open>error.message\<close>) or any
  other exception value.\<close>

record axios_error =
  ax_code :: "string option"
  ax_status :: "int option"
  ax_statusText :: "string option"
  ax_message :: string

datatype thrown = AxiosError axios_error | OtherError string

record OpenMeteoAPIError =
  err_message :: string
  err_code :: "error_code option"
  err_cause :: "thrown option"

subsection \<open>Requests\<close>

record GeoRequest =
  geo_url :: string
  geo_name :: string
  geo_count :: int
  geo_language :: string
  geo_format :: string
  geo_timeout :: int

record ForecastRequest =
  fc_url :: string
  fc_latitude :: js_number
  fc_longitude :: js_number
  fc_current :: string
  fc_daily :: string
  fc_timezone :: string
  fc_forecast_days :: int
  fc_timeout :: int

type_synonym ('req, 'resp) http_get = "'req \<Rightarrow> thrown + 'resp"

subsection \<open>GraphQL output types\<close>

text \<open>\<open>Omit<City, 'id'>\<close> (the \<open>cityInfo\<close> of \<open>getWeatherByCityId\<close>) and \<open>City\<close>.\<close>

record CityInfo =
  name :: string
  country :: string
  latitude :: js_number
  longitude :: js_number

record City = CityInfo +
  city_id :: string

record Weather =
  temperature :: real
  conditions :: string
  humidity :: real
  windSpeed :: real
  precipitation :: real
  forecast :: "DailyForecast list"

record CityWeather =
  city :: City
  weather :: Weather

end
