(* ===== verification/CityId.thy ===== *)
theory CityId
  imports ApiTypes
begin

text \<open>
  The rich city identifier codec of \<open>src/unnamed/part_001\<close>: the identifier
  \<open>lat,lon:name:country\<close> built in \<open>searchCities\<close> (encoder), \<open>parseCityId\<close> (decoder,
  with its three error exits) and \<open>isValidCoordinate\<close>, the guard both the decoder and
  \<open>getWeatherData\<close> call. The identifier is built from the provider's coordinate literals
  printed by \<open>Number::toString\<close> and read back by \<open>parseFloat\<close> (theory \<open>JsNumber\<close>).
\<close>

definition isValidCoordinate :: "js_number \<Rightarrow> js_number \<Rightarrow> bool" where
  "isValidCoordinate lat lon \<longleftrightarrow>
     \<not> js_isNaN lat \<and> \<not> js_isNaN lon \<and> js_ge lat (-90) \<and> js_le lat 90
     \<and> js_ge lon (-180) \<and> js_le lon 180"

text \<open>The template \<open>`${lat},${lon}:${name}:${country}`\<close>.\<close>

definition city_id_of :: "decimal \<Rightarrow> decimal \<Rightarrow> string \<Rightarrow> string \<Rightarrow> string" where
  "city_id_of lat lon nm ctry =
     number_to_string lat @ '','' @ number_to_string lon @ '':'' @ nm @ '':'' @ ctry"

definition invalid_id_format_error :: OpenMeteoAPIError where
  \<open>invalid_id_format_error =
    \<lparr>err_message = ''Invalid city ID format. Expected format: "lat,lon:name:country"'',
     err_code = Some INVALID_COORDINATES, err_cause = None\<rparr>\<close>

definition invalid_coords_format_error :: OpenMeteoAPIError where
  \<open>invalid_coords_format_error =
    \<lparr>err_message = ''Invalid coordinates in city ID. Expected format: "lat,lon"'',
     err_code = Some INVALID_COORDINATES, err_cause = None\<rparr>\<close>

definition invalid_coords_error :: OpenMeteoAPIError where
  \<open>invalid_coords_error =
    \<lparr>err_message = ''Invalid coordinates in city ID. Expected valid coordinates in the format: "lat,lon"'',
     err_code = Some INVALID_COORDINATES, err_cause = None\<rparr>\<close>

text \<open>\<open>const [latStr, lonStr] = coords.split(',')\<close> reads the first two parts (further
  parts are ignored); \<open>!latStr || !lonStr\<close> rejects a missing or empty one.\<close>

definition parseCityId :: "string \<Rightarrow> OpenMeteoAPIError + CityInfo" where
  "parseCityId cityId =
    (let parts = js_split CHR '':'' cityId in
     if length parts \<noteq> 3 then Inl invalid_id_format_error
     else
       (let coords = parts ! 0; nm = parts ! 1; ctry = parts ! 2;
            cs = js_split CHR '','' coords
        in case (js_index cs 0, js_index cs 1) of
             (Some latStr, Some lonStr) \<Rightarrow>
               if latStr = [] \<or> lonStr = [] then Inl invalid_coords_format_error
               else
                 (let lat = parse_float latStr; lon = parse_float lonStr
                  in if \<not> isValidCoordinate lat lon then Inl invalid_coords_error
                     else Inr \<lparr>name = nm, country = ctry, latitude = lat, longitude = lon\<rparr>)
           | _ \<Rightarrow> Inl invalid_coords_format_error))"

subsection \<open>Encoder and decoder\<close>

text \<open>The rules that decode a concrete identifier.\<close>

lemmas parseCityId_eval = parseCityId_def js_index_def parse_eval isValidCoordinate_def

lemma coords_no_colon: "CHR '':'' \<notin> set (number_to_string lat @ '','' @ number_to_string lon)"
  using number_to_string_no_sep by auto

lemma city_id_of_join: "city_id_of lat lon nm ctry = js_join '':'' [number_to_string lat @ '','' @ number_to_string lon, nm, ctry]"
  by (simp add: city_id_of_def)

lemma split_city_id:
  assumes "CHR '':'' \<notin> set nm" and "CHR '':'' \<notin> set ctry"
  shows "js_split CHR '':'' (city_id_of lat lon nm ctry) =
           [number_to_string lat @ '','' @ number_to_string lon, nm, ctry]"
  unfolding city_id_of_join using assms coords_no_colon by (intro js_split_join) auto

lemma split_coords:
  "js_split CHR '','' (number_to_string lat @ CHR '','' # number_to_string lon) =
     [number_to_string lat, number_to_string lon]"
proof -
  have "number_to_string lat @ CHR '','' # number_to_string lon = js_join '','' [number_to_string lat, number_to_string lon]"
    by simp
  then show ?thesis
    using number_to_string_no_sep by (simp only:) (intro js_split_join, auto)
qed

text \<open>C2: Decoding an identifier built by searchCities from coordinate literals within range and a name and country without a colon gives back that name, country and the exact values of the literals.\<close>

theorem parseCityId_city_id_of:
  assumes "CHR '':'' \<notin> set nm" and "CHR '':'' \<notin> set ctry"
    and "isValidCoordinate (JsNum (dec_val lat)) (JsNum (dec_val lon))"
  shows "parseCityId (city_id_of lat lon nm ctry) =
           Inr \<lparr>name = nm, country = ctry, latitude = JsNum (dec_val lat), longitude = JsNum (dec_val lon)\<rparr>"
  using assms by (simp add: parseCityId_def split_city_id split_coords js_index_def parse_float_number_to_string)

theorem parseCityId_city_id_of_witness:
  "CHR '':'' \<notin> set ''London'' \<and> CHR '':'' \<notin> set ''United Kingdom''
   \<and> isValidCoordinate (JsNum (dec_val (Decimal 515074 4))) (JsNum (dec_val (Decimal (-1278) 4)))
   \<and> parseCityId (city_id_of (Decimal 515074 4) (Decimal (-1278) 4) ''London'' ''United Kingdom'') =
       Inr \<lparr>name = ''London'', country = ''United Kingdom'',
            latitude = JsNum (dec_val (Decimal 515074 4)), longitude = JsNum (dec_val (Decimal (-1278) 4))\<rparr>"
proof -
  have v: "isValidCoordinate (JsNum (dec_val (Decimal 515074 4))) (JsNum (dec_val (Decimal (-1278) 4)))"
    by (simp add: isValidCoordinate_def)
  have "CHR '':'' \<notin> set ''London''" "CHR '':'' \<notin> set ''United Kingdom''"
    by simp_all
  with v show ?thesis
    using parseCityId_city_id_of [of "''London''" "''United Kingdom''" "Decimal 515074 4" "Decimal (-1278) 4"]
    by simp
qed

lemma parseCityId_colon_in_name:
  assumes "CHR '':'' \<in> set nm \<or> CHR '':'' \<in> set ctry"
  shows "parseCityId (city_id_of lat lon nm ctry) = Inl invalid_id_format_error"
proof -
  have "count_list (number_to_string lat @ '','' @ number_to_string lon) CHR '':'' = 0"
    using coords_no_colon by (simp add: count_list_0_iff)
  moreover have "0 < count_list nm CHR '':'' \<or> 0 < count_list ctry CHR '':''"
    using assms count_list_0_iff [of nm] count_list_0_iff [of ctry] by auto
  ultimately have "length (js_split CHR '':'' (city_id_of lat lon nm ctry)) \<noteq> 3"
    by (auto simp: length_js_split city_id_of_def)
  then show ?thesis
    by (simp add: parseCityId_def)
qed

lemma parseCityId_error_code: "parseCityId s = Inl e \<Longrightarrow> err_code e = Some INVALID_COORDINATES"
  by (auto simp: parseCityId_def Let_def invalid_id_format_error_def invalid_coords_format_error_def
      invalid_coords_error_def split: if_splits option.splits prod.splits)

lemma parseCityId_valid: "parseCityId s = Inr c \<Longrightarrow> isValidCoordinate (latitude c) (longitude c)"
  by (auto simp: parseCityId_def Let_def split: if_splits option.splits prod.splits)

text \<open>C21: isValidCoordinate holds exactly of two finite numbers with latitude in [-90, 90] and longitude in [-180, 180]; in particular it rejects NaN and both infinities.\<close>

theorem isValidCoordinate_iff:
  "isValidCoordinate lat lon \<longleftrightarrow>
     (\<exists>x y. lat = JsNum x \<and> lon = JsNum y \<and> -90 \<le> x \<and> x \<le> 90 \<and> -180 \<le> y \<and> y \<le> 180)"
  by (cases lat; cases lon) (auto simp: isValidCoordinate_def)


lemma js_split_append_nosep:
  "c \<notin> set x \<Longrightarrow> js_split c (x @ y) = (x @ hd (js_split c y)) # tl (js_split c y)"
  by (induction x) (auto simp: Let_def)

text \<open>C28: Every identifier in the searchCities template whose coordinates fail isValidCoordinate (out of range, like the test suite's 999,999) is rejected with the invalid-coordinates error, whatever the colon-free name and country: it is never decoded to a city.\<close>

theorem parseCityId_out_of_range:
  assumes "CHR '':'' \<notin> set nm" and "CHR '':'' \<notin> set ctry"
    and "\<not> isValidCoordinate (JsNum (dec_val lat)) (JsNum (dec_val lon))"
  shows "parseCityId (city_id_of lat lon nm ctry) = Inl invalid_coords_error"
  using assms by (simp add: parseCityId_def split_city_id split_coords js_index_def parse_float_number_to_string)

theorem parseCityId_out_of_range_witness:
  "CHR '':'' \<notin> set ''Atlantis'' \<and> CHR '':'' \<notin> set ''Ocean''
   \<and> \<not> isValidCoordinate (JsNum (dec_val (Decimal 999 0))) (JsNum (dec_val (Decimal 999 0)))
   \<and> city_id_of (Decimal 999 0) (Decimal 999 0) ''Atlantis'' ''Ocean'' = ''999,999:Atlantis:Ocean''
   \<and> parseCityId (city_id_of (Decimal 999 0) (Decimal 999 0) ''Atlantis'' ''Ocean'') = Inl invalid_coords_error"
proof -
  have v: "\<not> isValidCoordinate (JsNum (dec_val (Decimal 999 0))) (JsNum (dec_val (Decimal 999 0)))"
    by (simp add: isValidCoordinate_def)
  have c: "city_id_of (Decimal 999 0) (Decimal 999 0) ''Atlantis'' ''Ocean'' = ''999,999:Atlantis:Ocean''"
    by (simp add: city_id_of_def print_eval)
  show ?thesis
    using parseCityId_out_of_range [where nm = "''Atlantis''" and ctry = "''Ocean''"
        and lat = "Decimal 999 0" and lon = "Decimal 999 0"] v c by simp
qed

lemma parseCityId_no_parts:
  "parseCityId ''invalid-format'' = Inl invalid_id_format_error"
  by (simp add: parseCityId_def)

text \<open>C29: The coordinate part is split on commas and only the first two parts are read: an identifier with any colon-free extra comma part decodes exactly as the identifier without it.\<close>

theorem parseCityId_extra_coordinate:
  assumes "CHR '':'' \<notin> set nm" and "CHR '':'' \<notin> set ctry" and "CHR '':'' \<notin> set extra"
  shows "parseCityId (number_to_string lat @ '','' @ number_to_string lon @ '','' @ extra @ '':'' @ nm @ '':'' @ ctry) =
         parseCityId (city_id_of lat lon nm ctry)"
  using assms number_to_string_no_sep [of lat] number_to_string_no_sep [of lon]
  by (simp add: parseCityId_def city_id_of_def js_split_append_nosep js_split_no_sep js_index_def Let_def)

theorem parseCityId_extra_coordinate_witness:
  "CHR '':'' \<notin> set ''A'' \<and> CHR '':'' \<notin> set ''B'' \<and> CHR '':'' \<notin> set ''3''
   \<and> number_to_string (Decimal 1 0) @ '','' @ number_to_string (Decimal 2 0) @ '','' @ ''3'' @ '':'' @ ''A''
       @ '':'' @ ''B'' = ''1,2,3:A:B''
   \<and> parseCityId ''1,2,3:A:B'' = parseCityId (city_id_of (Decimal 1 0) (Decimal 2 0) ''A'' ''B'')
   \<and> parseCityId ''1,2,3:A:B'' = Inr \<lparr>name = ''A'', country = ''B'', latitude = JsNum 1, longitude = JsNum 2\<rparr>"
proof -
  have s: "number_to_string (Decimal 1 0) @ '','' @ number_to_string (Decimal 2 0) @ '','' @ ''3'' @ '':'' @ ''A''
       @ '':'' @ ''B'' = ''1,2,3:A:B''"
    by (simp add: print_eval)
  have r: "parseCityId ''1,2,3:A:B'' = Inr \<lparr>name = ''A'', country = ''B'', latitude = JsNum 1, longitude = JsNum 2\<rparr>"
    by (simp add: parseCityId_eval)
  have e: "parseCityId ''1,2,3:A:B'' = parseCityId (city_id_of (Decimal 1 0) (Decimal 2 0) ''A'' ''B'')"
    by (rule parseCityId_extra_coordinate [where nm = "''A''" and ctry = "''B''" and extra = "''3''"
        and lat = "Decimal 1 0" and lon = "Decimal 2 0", unfolded s]) simp_all
  show ?thesis
    by (intro conjI) (simp, simp, simp, rule s, rule e, rule r)
qed

text \<open>parseFloat reads the longest numeric prefix, so coordinates followed by garbage are accepted.\<close>

lemma parseCityId_numeric_prefix:
  "parseCityId ''12abc,3xyz:A:B'' = Inr \<lparr>name = ''A'', country = ''B'', latitude = JsNum 12, longitude = JsNum 3\<rparr>"
  by (simp add: parseCityId_eval)

lemma city_id_of_london:
  "city_id_of (Decimal 515074 4) (Decimal (-1278) 4) ''London'' ''United Kingdom'' =
     ''51.5074,-0.1278:London:United Kingdom''"
  by (simp add: city_id_of_def print_eval)

end
