(* ===== verification/OpenMeteoAPI.thy ===== *)
theory OpenMeteoAPI
  imports CityId
begin

text \<open>
  The Open-Meteo adapter, class \<open>OpenMeteoAPI\<close> of \<open>src/unnamed/part_001\<close>
  (\<open>services/openMeteoAPI.ts\<close>). Its read-only fields are a record and the exported singleton
  a constant. Each asynchronous method is a function of the HTTP collaborator (\<open>axios.get\<close>,
  a function from the request to the response or to what the rejected promise carries) and
  of its arguments; it returns the outcome, an \<open>OpenMeteoAPIError\<close> thrown (\<open>Inl\<close>) or the
  value returned (\<open>Inr\<close>), paired with the list of requests it issued, so that a theorem can
  say that a guard stops the method before the network is touched.
\<close>

record OpenMeteoAPI =
  GEOCODING_BASE_URL :: string
  WEATHER_BASE_URL :: string
  REQUEST_TIMEOUT_MS :: int
  MAX_RESULTS :: int

text \<open>\<open>export const openMeteoAPI = OpenMeteoAPI.getInstance()\<close>.\<close>

definition openMeteoAPI :: OpenMeteoAPI where
  "openMeteoAPI =
    \<lparr>GEOCODING_BASE_URL = ''https://geocoding-api.open-meteo.com/v1'',
     WEATHER_BASE_URL = ''https://api.open-meteo.com/v1'',
     REQUEST_TIMEOUT_MS = 10000, MAX_RESULTS = 10\<rparr>"

subsection \<open>Error classification of the two catch blocks\<close>

text \<open>\<open>error.response?.statusText || error.message\<close>.\<close>

definition status_or_message :: "axios_error \<Rightarrow> string" where
  "status_or_message ax =
    (case ax_statusText ax of
       Some s \<Rightarrow> if s = [] then ax_message ax else s
     | None \<Rightarrow> ax_message ax)"

text \<open>The catch block both methods share, up to their messages: \<open>doing\<close> completes
  \<open>Request timeout while\<close> and \<open>Unknown error occurred while\<close>, \<open>failed\<close> completes
  \<open>Failed to\<close>.\<close>

definition api_error_of :: "string \<Rightarrow> string \<Rightarrow> thrown \<Rightarrow> OpenMeteoAPIError" where
  "api_error_of doing failed error =
    (case error of
       AxiosError ax \<Rightarrow>
         if ax_code ax = Some ''ECONNABORTED'' then
           \<lparr>err_message = ''Request timeout while '' @ doing, err_code = Some TIMEOUT, err_cause = None\<rparr>
         else if ax_status ax = Some 429 then
           \<lparr>err_message = ''Rate limit exceeded. Please try again later.'',
            err_code = Some RATE_LIMIT_EXCEEDED, err_cause = None\<rparr>
         else
           \<lparr>err_message = ''Failed to '' @ failed @ '': '' @ status_or_message ax,
            err_code = Some UNKNOWN_ERROR, err_cause = Some error\<rparr>
     | OtherError _ \<Rightarrow>
         \<lparr>err_message = ''Unknown error occurred while '' @ doing,
          err_code = Some UNKNOWN_ERROR, err_cause = Some error\<rparr>)"

definition searchCities_catch :: "thrown \<Rightarrow> OpenMeteoAPIError" where
  "searchCities_catch = api_error_of ''searching cities'' ''search cities''"

definition getWeatherData_catch :: "thrown \<Rightarrow> OpenMeteoAPIError" where
  "getWeatherData_catch = api_error_of ''fetching weather data'' ''fetch weather data''"

subsection \<open>searchCities\<close>

definition short_query_error :: OpenMeteoAPIError where
  "short_query_error =
    \<lparr>err_message = ''Query must be at least 2 characters long'',
     err_code = Some BAD_USER_INPUT, err_cause = None\<rparr>"

definition geocoding_request :: "OpenMeteoAPI \<Rightarrow> string \<Rightarrow> GeoRequest" where
  "geocoding_request this query =
    \<lparr>geo_url = GEOCODING_BASE_URL this @ ''/search'', geo_name = js_trim query,
     geo_count = MAX_RESULTS this, geo_language = ''en'', geo_format = ''json'',
     geo_timeout = REQUEST_TIMEOUT_MS this\<rparr>"

text \<open>The feature codes the filter keeps, in the order the disjunction tests them.\<close>

definition populated_place_codes :: "string list" where
  "populated_place_codes =
    [''PPLA'', ''PPLA2'', ''PPLA3'', ''PPLA4'', ''PPLC'', ''PPL'', ''PPLF'', ''PPLG'', ''PPLL'',
     ''PPLR'', ''PPLS'', ''PPLW'']"

definition is_populated_place :: "GeocodingResult \<Rightarrow> bool" where
  "is_populated_place result \<longleftrightarrow> list_ex (\<lambda>c. feature_code result = c) populated_place_codes"

definition city_of_result :: "GeocodingResult \<Rightarrow> City" where
  "city_of_result result =
    \<lparr>name = gr_name result, country = gr_country result,
     latitude = JsNum (dec_val (gr_latitude result)), longitude = JsNum (dec_val (gr_longitude result)),
     city_id = city_id_of (gr_latitude result) (gr_longitude result) (gr_name result) (gr_country result)\<rparr>"

definition searchCities ::
  "OpenMeteoAPI \<Rightarrow> (GeoRequest, GeocodingResponse) http_get \<Rightarrow> string
   \<Rightarrow> (OpenMeteoAPIError + City list) \<times> GeoRequest list" where
  "searchCities this http query =
    (if query = [] \<or> length (js_trim query) < 2 then (Inl short_query_error, [])
     else
       (let req = geocoding_request this query in
        (case http req of
           Inl error \<Rightarrow> Inl (searchCities_catch error)
         | Inr response \<Rightarrow>
             (case results response of
                None \<Rightarrow> Inr []
              | Some rs \<Rightarrow> Inr (map city_of_result (filter is_populated_place rs))),
         [req])))"

subsection \<open>getWeatherCondition\<close>

text \<open>\<open>WEATHER_CODES[code] || `Unknown condition (${code})`\<close>.\<close>

definition getWeatherCondition :: "int \<Rightarrow> string" where
  "getWeatherCondition code =
    (let fallback = ''Unknown condition ('' @ number_to_string (Decimal code 0) @ '')'' in
     case map_of WEATHER_CODES code of
       Some s \<Rightarrow> if s = [] then fallback else s
     | None \<Rightarrow> fallback)"

subsection \<open>getWeatherData\<close>

definition invalid_coordinates_provided_error :: OpenMeteoAPIError where
  "invalid_coordinates_provided_error =
    \<lparr>err_message = ''Invalid coordinates provided'', err_code = Some INVALID_COORDINATES,
     err_cause = None\<rparr>"

definition forecast_request :: "OpenMeteoAPI \<Rightarrow> js_number \<Rightarrow> js_number \<Rightarrow> ForecastRequest" where
  "forecast_request this lat lon =
    \<lparr>fc_url = WEATHER_BASE_URL this @ ''/forecast'', fc_latitude = lat, fc_longitude = lon,
     fc_current = js_join '','' [''temperature_2m'', ''relative_humidity_2m'', ''precipitation'',
                               ''weather_code'', ''wind_speed_10m''],
     fc_daily = js_join '','' [''weather_code'', ''temperature_2m_max'', ''temperature_2m_min'',
                             ''precipitation_sum'', ''wind_speed_10m_max''],
     fc_timezone = ''auto'', fc_forecast_days = 7, fc_timeout = REQUEST_TIMEOUT_MS this\<rparr>"

text \<open>The body of \<open>daily.time.map((date, index) => ...)\<close>: the day's summary read at
  \<open>index\<close> from the parallel arrays, ranked with \<open>top = 1\<close>, and the spread of the summary
  with its activities.\<close>

definition forecast_day :: "DailyWeather \<Rightarrow> nat \<Rightarrow> string \<Rightarrow> DayForecast" where
  "forecast_day dly index dt =
    \<lparr>date = dt, maxTemp = temperature_2m_max dly ! index,
     minTemp = temperature_2m_min dly ! index,
     day_conditions = getWeatherCondition (weather_code dly ! index),
     day_precipitation = precipitation_sum dly ! index,
     day_windSpeed = wind_speed_10m_max dly ! index\<rparr>"

definition daily_forecast :: "DailyWeather \<Rightarrow> nat \<Rightarrow> string \<Rightarrow> DailyForecast" where
  "daily_forecast dly index dt =
    (let forecastDay = forecast_day dly index dt;
         acts = rankActivitiesForDay activityRankingService forecastDay 1
     in \<lparr>date = date forecastDay, maxTemp = maxTemp forecastDay, minTemp = minTemp forecastDay,
         day_conditions = day_conditions forecastDay,
         day_precipitation = day_precipitation forecastDay,
         day_windSpeed = day_windSpeed forecastDay, activities = acts\<rparr>)"

definition weather_of_response :: "WeatherResponse \<Rightarrow> Weather" where
  "weather_of_response response =
    (let cur = current response; dly = daily response in
     \<lparr>temperature = temperature_2m cur, conditions = getWeatherCondition (cw_weather_code cur),
      humidity = relative_humidity_2m cur, windSpeed = wind_speed_10m cur,
      precipitation = cw_precipitation cur,
      forecast = map (\<lambda>(index, dt). daily_forecast dly index dt) (enumerate 0 (time dly))\<rparr>)"

definition getWeatherData ::
  "OpenMeteoAPI \<Rightarrow> (ForecastRequest, WeatherResponse) http_get \<Rightarrow> js_number \<Rightarrow> js_number
   \<Rightarrow> (OpenMeteoAPIError + Weather) \<times> ForecastRequest list" where
  "getWeatherData this http lat lon =
    (if \<not> isValidCoordinate lat lon then (Inl invalid_coordinates_provided_error, [])
     else
       (let req = forecast_request this lat lon in
        (case http req of
           Inl error \<Rightarrow> Inl (getWeatherData_catch error)
         | Inr response \<Rightarrow> Inr (weather_of_response response),
         [req])))"

subsection \<open>getWeatherByCityId\<close>

text \<open>A failure of \<open>parseCityId\<close> is thrown before \<open>getWeatherData\<close> runs; the city
  information returned is the one the identifier decodes to.\<close>

definition getWeatherByCityId ::
  "OpenMeteoAPI \<Rightarrow> (ForecastRequest, WeatherResponse) http_get \<Rightarrow> string
   \<Rightarrow> (OpenMeteoAPIError + Weather \<times> CityInfo) \<times> ForecastRequest list" where
  "getWeatherByCityId this http cityId =
    (case parseCityId cityId of
       Inl error \<Rightarrow> (Inl error, [])
     | Inr cityInfo \<Rightarrow>
         (let (r, reqs) = getWeatherData this http (latitude cityInfo) (longitude cityInfo) in
          (case r of Inl error \<Rightarrow> Inl error | Inr w \<Rightarrow> Inr (w, cityInfo), reqs)))"

subsection \<open>Fixtures of the test suite\<close>

text \<open>The mocked provider responses of \<open>openMeteoAPI.test.ts\<close>: the fields a mock leaves
  out are zero or empty; the day is a fixed date in place of \<open>today\<close>.\<close>

definition test_daily :: "int \<Rightarrow> real \<Rightarrow> DailyWeather" where
  "test_daily code precip =
    \<lparr>time = [''2025-01-01''], weather_code = [code], temperature_2m_max = [22],
     temperature_2m_min = [18], apparent_temperature_max = [], apparent_temperature_min = [],
     sunrise = [], sunset = [], daylight_duration = [], sunshine_duration = [], uv_index_max = [],
     uv_index_clear_sky_max = [], precipitation_sum = [precip], rain_sum = [], showers_sum = [],
     snowfall_sum = [], precipitation_hours = [], precipitation_probability_max = [],
     wind_speed_10m_max = [12], wind_gusts_10m_max = [], wind_direction_10m_dominant = [],
     shortwave_radiation_sum = []\<rparr>"

definition test_current :: "int \<Rightarrow> CurrentWeather" where
  "test_current code =
    \<lparr>cw_time = [], interval = 0, temperature_2m = 20, relative_humidity_2m = 65,
     apparent_temperature = 0, is_day = 0, cw_precipitation = 0, rain = 0, showers = 0,
     snowfall = 0, cw_weather_code = code, cloud_cover = 0, pressure_msl = 0,
     surface_pressure = 0, wind_speed_10m = 10, wind_direction_10m = 0, wind_gusts_10m = 0\<rparr>"

definition test_weather_response :: "int \<Rightarrow> int \<Rightarrow> real \<Rightarrow> WeatherResponse" where
  "test_weather_response code day_code precip =
    \<lparr>wr_latitude = 0, wr_longitude = 0, wr_generationtime_ms = 0, utc_offset_seconds = 0,
     wr_timezone = [], timezone_abbreviation = [], wr_elevation = 0, current_units = [],
     current = test_current code, daily_units = [], daily = test_daily day_code precip\<rparr>"

definition test_geocoding_result :: "string \<Rightarrow> decimal \<Rightarrow> decimal \<Rightarrow> string \<Rightarrow> string \<Rightarrow> GeocodingResult" where
  "test_geocoding_result nm lat lon ctry code =
    \<lparr>gr_id = 0, gr_name = nm, gr_latitude = lat, gr_longitude = lon, gr_elevation = 0,
     feature_code = code, country_code = [], admin1 = None, admin2 = None, admin3 = None,
     admin4 = None, gr_timezone = [], population = None, country_id = 0, gr_country = ctry,
     admin1_id = None, admin2_id = None, admin3_id = None, admin4_id = None\<rparr>"

definition timeout_error :: thrown where
  "timeout_error = AxiosError \<lparr>ax_code = Some ''ECONNABORTED'', ax_status = None,
     ax_statusText = None, ax_message = ''timeout''\<rparr>"

definition cape_town_search :: GeocodingResponse where
  "cape_town_search =
    \<lparr>results = Some [test_geocoding_result ''Cape Town'' (Decimal (-3392584) 5) (Decimal 1842322 5)
                       ''South Africa'' ''PPLL'',
                     test_geocoding_result ''Western Cape'' (Decimal (-33) 0) (Decimal 20 0)
                       ''South Africa'' ''ADM1''],
     generationtime_ms = 0\<rparr>"

section \<open>Properties of the adapter\<close>

subsection \<open>Calls and results\<close>

lemma searchCities_call:
  assumes "2 \<le> length (js_trim query)"
  shows "searchCities this http query =
    (case http (geocoding_request this query) of
       Inl error \<Rightarrow> Inl (searchCities_catch error)
     | Inr response \<Rightarrow>
         (case results response of
            None \<Rightarrow> Inr []
          | Some rs \<Rightarrow> Inr (map city_of_result (filter is_populated_place rs))),
     [geocoding_request this query])"
  using assms by (auto simp: searchCities_def Let_def js_trim_def)

lemma api_error_of_code:
  "err_code (api_error_of doing failed e) \<in> {Some TIMEOUT, Some RATE_LIMIT_EXCEEDED, Some UNKNOWN_ERROR}"
  by (simp add: api_error_of_def split: thrown.split)

lemma getWeatherData_call:
  assumes "isValidCoordinate lat lon"
  shows "getWeatherData this http lat lon =
    (case http (forecast_request this lat lon) of
       Inl error \<Rightarrow> Inl (getWeatherData_catch error)
     | Inr response \<Rightarrow> Inr (weather_of_response response),
     [forecast_request this lat lon])"
  using assms by (simp add: getWeatherData_def Let_def)

lemma forecast_nth:
  assumes "i < length (time (daily response))"
  shows "forecast (weather_of_response response) ! i =
           daily_forecast (daily response) i (time (daily response) ! i)"
  using assms by (simp add: weather_of_response_def Let_def nth_enumerate_eq)

lemma activities_daily_forecast:
  "activities (daily_forecast dly index dt) = rankActivitiesForDay activityRankingService (forecast_day dly index dt) 1"
  by (simp add: daily_forecast_def Let_def)

lemma date_daily_forecast:
  "date (daily_forecast dly index dt) = dt"
  by (simp add: daily_forecast_def forecast_day_def Let_def)

lemma map_date_forecast:
  "map date (forecast (weather_of_response response)) = time (daily response)"
proof -
  have "map date (map (\<lambda>(index, dt). daily_forecast (daily response) index dt) (enumerate 0 xs)) = xs" for xs
    by (simp add: date_daily_forecast list_eq_iff_nth_eq nth_enumerate_eq split_beta)
  then show ?thesis
    by (simp add: weather_of_response_def Let_def)
qed

lemma getWeatherByCityId_parsed:
  assumes "parseCityId cityId = Inr cityInfo"
  shows "getWeatherByCityId this http cityId =
     (case http (forecast_request this (latitude cityInfo) (longitude cityInfo)) of
        Inl error \<Rightarrow> Inl (getWeatherData_catch error)
      | Inr response \<Rightarrow> Inr (weather_of_response response, cityInfo),
      [forecast_request this (latitude cityInfo) (longitude cityInfo)])"
  using assms parseCityId_valid [OF assms]
  by (simp add: getWeatherByCityId_def getWeatherData_call split: sum.split)


lemma forecast_set:
  assumes "d \<in> set (forecast (weather_of_response response))"
  shows "\<exists>i<length (time (daily response)).
           d = daily_forecast (daily response) i (time (daily response) ! i)"
  using assms by (auto simp: weather_of_response_def Let_def in_set_enumerate_eq)

lemma forecast_activities_one:
  "d \<in> set (forecast (weather_of_response response)) \<Longrightarrow> length (activities d) = 1"
  using forecast_set [of d response] by (auto simp: activities_daily_forecast length_rank_top1)

lemma temperature_weather_of_response:
  "temperature (weather_of_response response) = temperature_2m (current response)"
  by (simp add: weather_of_response_def Let_def)

lemmas trim_eval = js_trim_def is_js_ws_def

text \<open>C6: An empty query, or one with fewer than two characters once trimmed, is rejected with BAD_USER_INPUT before any request is sent.\<close>

theorem searchCities_short_query:
  assumes "query = [] \<or> length (js_trim query) < 2"
  shows "\<exists>e. searchCities this http query = (Inl e, []) \<and> err_code e = Some BAD_USER_INPUT"
  using assms by (simp add: searchCities_def short_query_error_def)

text \<open>C22: A query of at least two characters after trimming sends exactly one geocoding request: the search endpoint, the trimmed name, at most 10 results, English, JSON, a 10 second timeout.\<close>

theorem searchCities_request:
  assumes "2 \<le> length (js_trim query)"
  shows "snd (searchCities openMeteoAPI http query) =
    [\<lparr>geo_url = ''https://geocoding-api.open-meteo.com/v1/search'', geo_name = js_trim query,
      geo_count = 10, geo_language = ''en'', geo_format = ''json'', geo_timeout = 10000\<rparr>]"
  using searchCities_call [OF assms] by (simp add: geocoding_request_def openMeteoAPI_def)

text \<open>C8: Every city searchCities returns is the City built from a result of the provider whose feature code is one of the twelve populated-place codes.\<close>

theorem searchCities_cities:
  assumes "fst (searchCities this http query) = Inr cs" and "c \<in> set cs"
  shows "\<exists>response rs r. http (geocoding_request this query) = Inr response
           \<and> results response = Some rs \<and> r \<in> set rs
           \<and> feature_code r \<in> set populated_place_codes \<and> c = city_of_result r"
  using assms
  by (auto simp: searchCities_def Let_def is_populated_place_def list_ex_iff
      split: if_splits sum.splits option.splits)

text \<open>C26: A response without a results field gives the empty list of cities.\<close>

theorem searchCities_no_results:
  assumes "2 \<le> length (js_trim query)" and "http (geocoding_request this query) = Inr response"
    and "results response = None"
  shows "searchCities this http query = (Inr [], [geocoding_request this query])"
  using assms by (simp add: searchCities_call)

text \<open>C20: Every error searchCities raises carries BAD_USER_INPUT, TIMEOUT, RATE_LIMIT_EXCEEDED or UNKNOWN_ERROR, and it carries BAD_USER_INPUT exactly when no request was sent.\<close>

theorem searchCities_error_codes:
  assumes "fst (searchCities this http query) = Inl e"
  shows "err_code e \<in> {Some BAD_USER_INPUT, Some TIMEOUT, Some RATE_LIMIT_EXCEEDED, Some UNKNOWN_ERROR}
         \<and> (err_code e = Some BAD_USER_INPUT \<longleftrightarrow> snd (searchCities this http query) = [])"
proof (cases "query = [] \<or> length (js_trim query) < 2")
  case True
  then show ?thesis
    using assms by (auto simp: searchCities_def short_query_error_def)
next
  case False
  then have q: "2 \<le> length (js_trim query)"
    by simp
  then obtain error where "http (geocoding_request this query) = Inl error"
    and e: "e = searchCities_catch error"
    using assms by (auto simp: searchCities_call split: sum.splits option.splits)
  then show ?thesis
    using api_error_of_code [of "''searching cities''" "''search cities''" error] q
    by (auto simp: searchCities_call searchCities_catch_def)
qed

text \<open>C19: The catch block classifies a failure as TIMEOUT exactly for an axios error with code ECONNABORTED, as RATE_LIMIT_EXCEEDED exactly for any other axios error with status 429, and keeps the cause exactly when the code is UNKNOWN_ERROR.\<close>

theorem api_error_classification:
  "(err_code (api_error_of doing failed e) = Some TIMEOUT \<longleftrightarrow>
      (\<exists>ax. e = AxiosError ax \<and> ax_code ax = Some ''ECONNABORTED''))
   \<and> (err_code (api_error_of doing failed e) = Some RATE_LIMIT_EXCEEDED \<longleftrightarrow>
      (\<exists>ax. e = AxiosError ax \<and> ax_code ax \<noteq> Some ''ECONNABORTED'' \<and> ax_status ax = Some 429))
   \<and> (err_cause (api_error_of doing failed e) = None \<longleftrightarrow>
      err_code (api_error_of doing failed e) \<noteq> Some UNKNOWN_ERROR)"
  by (cases e) (auto simp: api_error_of_def)

lemma searchCities_timeout:
  "searchCities openMeteoAPI (\<lambda>_. Inl timeout_error) ''Paris'' =
     (Inl \<lparr>err_message = ''Request timeout while searching cities'', err_code = Some TIMEOUT,
           err_cause = None\<rparr>,
      [geocoding_request openMeteoAPI ''Paris''])"
  by (simp add: searchCities_def trim_eval timeout_error_def searchCities_catch_def api_error_of_def)

text \<open>C5: getWeatherData rejects invalid coordinates with INVALID_COORDINATES before any request is sent.\<close>

theorem getWeatherData_invalid:
  assumes "\<not> isValidCoordinate lat lon"
  shows "\<exists>e. getWeatherData this http lat lon = (Inl e, []) \<and> err_code e = Some INVALID_COORDINATES"
  using assms by (simp add: getWeatherData_def invalid_coordinates_provided_error_def)

text \<open>C9: For valid coordinates and a response of the provider, getWeatherData sends one forecast request and returns the current temperature and one forecast day per date of the response, in order, each with exactly one activity.\<close>

theorem getWeatherData_forecast:
  assumes "isValidCoordinate lat lon" and "http (forecast_request this lat lon) = Inr response"
  shows "\<exists>w. getWeatherData this http lat lon = (Inr w, [forecast_request this lat lon])
           \<and> temperature w = temperature_2m (current response)
           \<and> map date (forecast w) = time (daily response)
           \<and> (\<forall>d\<in>set (forecast w). length (activities d) = 1)"
proof -
  have "getWeatherData this http lat lon = (Inr (weather_of_response response), [forecast_request this lat lon])"
    using assms by (simp add: getWeatherData_call)
  then show ?thesis
    using temperature_weather_of_response map_date_forecast forecast_activities_one by blast
qed

text \<open>C10: The activity of each forecast day is a best-scoring activity profile for that day's summary.\<close>

theorem getWeatherData_best_activity:
  assumes "fst (getWeatherData this http lat lon) = Inr w" and "i < length (forecast w)"
  shows "\<exists>response a. http (forecast_request this lat lon) = Inr response
           \<and> activities (forecast w ! i) = [a]
           \<and> a \<in> set (day_activities activityRankingService
                        (forecast_day (daily response) i (time (daily response) ! i)))
           \<and> (\<forall>b\<in>set (day_activities activityRankingService
                        (forecast_day (daily response) i (time (daily response) ! i))).
                 suitabilityScore b \<le> suitabilityScore a)"
proof -
  obtain response where v: "isValidCoordinate lat lon"
    and h: "http (forecast_request this lat lon) = Inr response"
    and w: "w = weather_of_response response"
    using assms(1) by (auto simp: getWeatherData_def Let_def split: if_splits sum.splits)
  have i: "i < length (time (daily response))"
    using assms(2) map_date_forecast [of response] w by (metis length_map)
  show ?thesis
    using h rank_top1 [of activityRankingService "forecast_day (daily response) i (time (daily response) ! i)"]
    by (simp add: w forecast_nth [OF i] activities_daily_forecast)
qed

text \<open>C11: Every activity of every forecast day that getWeatherData returns is well-formed: the name of a shipped profile, a score in [0, 100] and a non-empty reasoning.\<close>

theorem getWeatherData_activities_wf:
  assumes "fst (getWeatherData this http lat lon) = Inr w" and "d \<in> set (forecast w)"
    and "a \<in> set (activities d)"
  shows "wf_activity a"
proof -
  obtain response where w: "w = weather_of_response response"
    using assms(1) by (auto simp: getWeatherData_def Let_def split: if_splits sum.splits)
  obtain i where "d = daily_forecast (daily response) i (time (daily response) ! i)"
    using forecast_set [of d response] assms(2) w by blast
  then have "a \<in> set (rankActivitiesForDay activityRankingService
               (forecast_day (daily response) i (time (daily response) ! i)) 1)"
    using assms(3) by (simp add: activities_daily_forecast)
  then show ?thesis
    using rank_top1 [of activityRankingService "forecast_day (daily response) i (time (daily response) ! i)"]
    by (auto intro: day_activities_wf)
qed

text \<open>C27: A city identifier that does not decode is rejected with the decoder's error and no request is sent.\<close>

theorem getWeatherByCityId_parse_error:
  assumes "parseCityId cityId = Inl e"
  shows "getWeatherByCityId this http cityId = (Inl e, [])"
  using assms by (simp add: getWeatherByCityId_def)

lemma getWeatherByCityId_result:
  assumes "fst (getWeatherByCityId this http cityId) = Inr (w, info)"
  shows "\<exists>response. parseCityId cityId = Inr info
           \<and> http (forecast_request this (latitude info) (longitude info)) = Inr response
           \<and> w = weather_of_response response
           \<and> snd (getWeatherByCityId this http cityId) = [forecast_request this (latitude info) (longitude info)]"
proof (cases "parseCityId cityId")
  case (Inl e)
  then show ?thesis
    using assms by (simp add: getWeatherByCityId_def)
next
  case (Inr info')
  then show ?thesis
    using assms by (auto simp: getWeatherByCityId_parsed split: sum.splits)
qed

text \<open>C7: getWeatherByCityId sends at most one request, and never one with invalid coordinates.\<close>

theorem getWeatherByCityId_requests:
  "length (snd (getWeatherByCityId this http cityId)) \<le> 1
   \<and> (\<forall>r\<in>set (snd (getWeatherByCityId this http cityId)).
         isValidCoordinate (fc_latitude r) (fc_longitude r))"
proof (cases "parseCityId cityId")
  case (Inl e)
  then show ?thesis
    by (simp add: getWeatherByCityId_def)
next
  case (Inr info)
  then show ?thesis
    using parseCityId_valid [OF Inr] by (simp add: getWeatherByCityId_parsed forecast_request_def)
qed

lemma searchCities_london:
  "searchCities openMeteoAPI
     (\<lambda>_. Inr \<lparr>results = Some [test_geocoding_result ''London'' (Decimal 515074 4) (Decimal (-1278) 4)
                                 ''United Kingdom'' ''PPLC''], generationtime_ms = 0\<rparr>) ''London'' =
   (Inr [\<lparr>name = ''London'', country = ''United Kingdom'', latitude = JsNum 51.5074,
          longitude = JsNum (-0.1278), city_id = ''51.5074,-0.1278:London:United Kingdom''\<rparr>],
    [geocoding_request openMeteoAPI ''London''])"
proof -
  have "2 \<le> length (js_trim ''London'')"
    by (simp add: trim_eval)
  then show ?thesis
    by (simp add: searchCities_call city_of_result_def is_populated_place_def populated_place_codes_def
        test_geocoding_result_def city_id_of_london)
qed

lemma getWeatherData_codes:
  "\<exists>w. fst (getWeatherData openMeteoAPI (\<lambda>_. Inr (test_weather_response 0 61 3))
            (JsNum 51.5074) (JsNum (-0.1278))) = Inr w
       \<and> conditions w = ''Clear sky'' \<and> map day_conditions (forecast w) = [''Slight rain'']"
proof -
  have v: "isValidCoordinate (JsNum 51.5074) (JsNum (-0.1278))"
    by (simp add: isValidCoordinate_def)
  show ?thesis
    unfolding getWeatherData_call [OF v]
    by (simp add: weather_of_response_def Let_def test_weather_response_def
        test_current_def test_daily_def daily_forecast_def forecast_day_def getWeatherCondition_def
        WEATHER_CODES_def)
qed

lemma getWeatherByCityId_london:
  "\<exists>w. getWeatherByCityId openMeteoAPI (\<lambda>_. Inr (test_weather_response 1 1 0))
          ''51.5074,-0.1278:London:United Kingdom'' =
        (Inr (w, \<lparr>name = ''London'', country = ''United Kingdom'', latitude = JsNum 51.5074,
                  longitude = JsNum (-0.1278)\<rparr>),
         [forecast_request openMeteoAPI (JsNum 51.5074) (JsNum (-0.1278))])
     \<and> temperature w = 20
     \<and> map activities (forecast w) =
         [[\<lparr>act_name = ''outdoor_sightseeing'', reasoning = ''ideal temperature, no rain'',
            suitabilityScore = 90\<rparr>]]"
proof -
  have p: "parseCityId ''51.5074,-0.1278:London:United Kingdom'' =
      Inr \<lparr>name = ''London'', country = ''United Kingdom'', latitude = JsNum 51.5074,
           longitude = JsNum (-0.1278)\<rparr>"
    by (simp add: parseCityId_eval)
  have d: "day_activities activityRankingService
      (forecast_day (test_daily 1 0) 0 ''2025-01-01'') =
   [\<lparr>act_name = ''skiing'', reasoning = ''too warm, no rain'', suitabilityScore = 30\<rparr>,
    \<lparr>act_name = ''surfing'', reasoning = ''ideal temperature'', suitabilityScore = 80\<rparr>,
    \<lparr>act_name = ''indoor_sightseeing'', reasoning = ''ideal temperature'', suitabilityScore = 80\<rparr>,
    \<lparr>act_name = ''outdoor_sightseeing'', reasoning = ''ideal temperature, no rain'',
       suitabilityScore = 90\<rparr>]"
    by (simp add: forecast_day_def test_daily_def day_activities_eval ACTIVITY_CONFIGS_def score_eval
        activityRankingService_def)
  have "forecast (weather_of_response (test_weather_response 1 1 0)) =
      [daily_forecast (test_daily 1 0) 0 ''2025-01-01'']"
    by (simp add: weather_of_response_def Let_def test_weather_response_def test_daily_def)
  moreover have "activities (daily_forecast (test_daily 1 0) 0 ''2025-01-01'') =
      [\<lparr>act_name = ''outdoor_sightseeing'', reasoning = ''ideal temperature, no rain'',
            suitabilityScore = 90\<rparr>]"
    by (simp add: activities_daily_forecast rank_eval d)
  moreover have "temperature (weather_of_response (test_weather_response 1 1 0)) = 20"
    by (simp add: temperature_weather_of_response test_weather_response_def test_current_def)
  ultimately show ?thesis
    unfolding getWeatherByCityId_parsed [OF p] by simp
qed

subsection \<open>Witnesses\<close>

lemma cape_town_id:
  "parseCityId ''-33.92584,18.42322:Cape Town:South Africa'' =
     Inr \<lparr>name = ''Cape Town'', country = ''South Africa'', latitude = JsNum (-33.92584),
          longitude = JsNum 18.42322\<rparr>"
  by (simp add: parseCityId_eval)

lemma paris_valid: "isValidCoordinate (JsNum 48.8566) (JsNum 2.3522)"
  by (simp add: isValidCoordinate_def)

theorem searchCities_short_query_witness:
  "(CHR '' '' # ''a '' = [] \<or> length (js_trim (CHR '' '' # ''a '')) < 2)
   \<and> (\<exists>e. searchCities openMeteoAPI (\<lambda>_. Inr cape_town_search) (CHR '' '' # ''a '') = (Inl e, [])
          \<and> err_code e = Some BAD_USER_INPUT)"
proof -
  have h: "CHR '' '' # ''a '' = [] \<or> length (js_trim (CHR '' '' # ''a '')) < 2"
    by (simp add: trim_eval)
  show ?thesis
    using h searchCities_short_query [OF h, of openMeteoAPI "\<lambda>_. Inr cape_town_search"] by blast
qed

theorem searchCities_request_witness:
  "2 \<le> length (js_trim '' Paris '')
   \<and> snd (searchCities openMeteoAPI (\<lambda>_. Inl timeout_error) '' Paris '') =
       [\<lparr>geo_url = ''https://geocoding-api.open-meteo.com/v1/search'', geo_name = ''Paris'',
         geo_count = 10, geo_language = ''en'', geo_format = ''json'', geo_timeout = 10000\<rparr>]"
proof -
  have h: "2 \<le> length (js_trim '' Paris '')" and t: "js_trim '' Paris '' = ''Paris''"
    by (simp_all add: trim_eval)
  show ?thesis
    using searchCities_request [OF h, of "\<lambda>_. Inl timeout_error"] h by (simp only: t)
qed

theorem searchCities_cities_witness:
  "fst (searchCities openMeteoAPI (\<lambda>_. Inr cape_town_search) ''Cape'') =
     Inr [city_of_result (hd (the (results cape_town_search)))]
   \<and> (\<exists>rs r. results cape_town_search = Some rs \<and> r \<in> set rs
          \<and> feature_code r \<in> set populated_place_codes
          \<and> city_of_result (hd (the (results cape_town_search))) = city_of_result r)"
proof -
  have h: "2 \<le> length (js_trim ''Cape'')"
    by (simp add: trim_eval)
  have s: "fst (searchCities openMeteoAPI (\<lambda>_. Inr cape_town_search) ''Cape'') =
     Inr [city_of_result (hd (the (results cape_town_search)))]"
    by (simp add: searchCities_call [OF h] cape_town_search_def test_geocoding_result_def
        is_populated_place_def populated_place_codes_def)
  show ?thesis
    using s searchCities_cities [OF s, of "city_of_result (hd (the (results cape_town_search)))"]
    by auto
qed

theorem searchCities_no_results_witness:
  "2 \<le> length (js_trim ''Nowhere'')
   \<and> searchCities openMeteoAPI (\<lambda>_. Inr \<lparr>results = None, generationtime_ms = 0\<rparr>) ''Nowhere'' =
       (Inr [], [geocoding_request openMeteoAPI ''Nowhere''])"
proof -
  have h: "2 \<le> length (js_trim ''Nowhere'')"
    by (simp add: trim_eval)
  show ?thesis
    using h searchCities_no_results [OF h, of "\<lambda>_. Inr \<lparr>results = None, generationtime_ms = 0\<rparr>"]
    by simp
qed

theorem searchCities_error_codes_witness:
  "fst (searchCities openMeteoAPI (\<lambda>_. Inl timeout_error) ''Paris'') = Inl (searchCities_catch timeout_error)
   \<and> err_code (searchCities_catch timeout_error) = Some TIMEOUT
   \<and> snd (searchCities openMeteoAPI (\<lambda>_. Inl timeout_error) ''Paris'') \<noteq> []"
proof -
  have h: "2 \<le> length (js_trim ''Paris'')"
    by (simp add: trim_eval)
  have f: "fst (searchCities openMeteoAPI (\<lambda>_. Inl timeout_error) ''Paris'') = Inl (searchCities_catch timeout_error)"
    by (simp add: searchCities_call [OF h])
  have c: "err_code (searchCities_catch timeout_error) = Some TIMEOUT"
    by (simp add: searchCities_catch_def api_error_of_def timeout_error_def)
  show ?thesis
    using searchCities_error_codes [OF f] f c by auto
qed

theorem getWeatherData_invalid_witness:
  "\<not> isValidCoordinate (JsNum 120) JsNaN
   \<and> (\<exists>e. getWeatherData openMeteoAPI (\<lambda>_. Inl timeout_error) (JsNum 120) JsNaN = (Inl e, [])
          \<and> err_code e = Some INVALID_COORDINATES)"
proof -
  have h: "\<not> isValidCoordinate (JsNum 120) JsNaN"
    by (simp add: isValidCoordinate_def)
  show ?thesis
    using h getWeatherData_invalid [OF h, of openMeteoAPI "\<lambda>_. Inl timeout_error"] by blast
qed

theorem getWeatherData_forecast_witness:
  "isValidCoordinate (JsNum 48.8566) (JsNum 2.3522)
   \<and> (\<exists>w. getWeatherData openMeteoAPI (\<lambda>_. Inr (test_weather_response 0 61 3)) (JsNum 48.8566) (JsNum 2.3522) =
            (Inr w, [forecast_request openMeteoAPI (JsNum 48.8566) (JsNum 2.3522)])
          \<and> temperature w = 20 \<and> map date (forecast w) = [''2025-01-01'']
          \<and> (\<forall>d\<in>set (forecast w). length (activities d) = 1))"
  using paris_valid getWeatherData_forecast [OF paris_valid, of "\<lambda>_. Inr (test_weather_response 0 61 3)"
      openMeteoAPI "test_weather_response 0 61 3"]
  by (simp add: test_weather_response_def test_current_def test_daily_def)

theorem getWeatherData_best_activity_witness:
  "fst (getWeatherData openMeteoAPI (\<lambda>_. Inr (test_weather_response 0 61 3)) (JsNum 48.8566) (JsNum 2.3522)) =
     Inr (weather_of_response (test_weather_response 0 61 3))
   \<and> 0 < length (forecast (weather_of_response (test_weather_response 0 61 3)))
   \<and> (\<exists>response a. (\<lambda>_. Inr (test_weather_response 0 61 3))
            (forecast_request openMeteoAPI (JsNum 48.8566) (JsNum 2.3522)) = Inr response
          \<and> activities (forecast (weather_of_response (test_weather_response 0 61 3)) ! 0) = [a]
          \<and> a \<in> set (day_activities activityRankingService
                      (forecast_day (daily response) 0 (time (daily response) ! 0)))
          \<and> (\<forall>b\<in>set (day_activities activityRankingService
                      (forecast_day (daily response) 0 (time (daily response) ! 0))).
                suitabilityScore b \<le> suitabilityScore a))"
proof -
  have f: "fst (getWeatherData openMeteoAPI (\<lambda>_. Inr (test_weather_response 0 61 3)) (JsNum 48.8566) (JsNum 2.3522)) =
     Inr (weather_of_response (test_weather_response 0 61 3))"
    unfolding getWeatherData_call [OF paris_valid] by simp
  have l: "0 < length (forecast (weather_of_response (test_weather_response 0 61 3)))"
    by (simp add: weather_of_response_def Let_def test_weather_response_def test_daily_def)
  show ?thesis
    using f l getWeatherData_best_activity [OF f l] by blast
qed

theorem getWeatherByCityId_parse_error_witness:
  "parseCityId ''invalid-format'' = Inl invalid_id_format_error
   \<and> getWeatherByCityId openMeteoAPI (\<lambda>_. Inl timeout_error) ''invalid-format'' =
       (Inl invalid_id_format_error, [])"
proof -
  have p: "parseCityId ''invalid-format'' = Inl invalid_id_format_error"
    by (simp add: parseCityId_def)
  show ?thesis
    using p getWeatherByCityId_parse_error [OF p] by simp
qed

theorem getWeatherByCityId_requests_witness:
  "snd (getWeatherByCityId openMeteoAPI (\<lambda>_. Inl timeout_error) ''-33.92584,18.42322:Cape Town:South Africa'') =
     [forecast_request openMeteoAPI (JsNum (-33.92584)) (JsNum 18.42322)]
   \<and> isValidCoordinate (JsNum (-33.92584)) (JsNum 18.42322)"
proof -
  have s: "snd (getWeatherByCityId openMeteoAPI (\<lambda>_. Inl timeout_error) ''-33.92584,18.42322:Cape Town:South Africa'') =
     [forecast_request openMeteoAPI (JsNum (-33.92584)) (JsNum 18.42322)]"
    unfolding getWeatherByCityId_parsed [OF cape_town_id] by simp
  show ?thesis
    using s getWeatherByCityId_requests [of openMeteoAPI "\<lambda>_. Inl timeout_error"
        "''-33.92584,18.42322:Cape Town:South Africa''"]
    by (simp add: forecast_request_def)
qed

theorem getWeatherData_activities_wf_witness:
  "fst (getWeatherData openMeteoAPI (\<lambda>_. Inr (test_weather_response 0 61 3)) (JsNum 48.8566) (JsNum 2.3522)) =
     Inr (weather_of_response (test_weather_response 0 61 3))
   \<and> daily_forecast (test_daily 61 3) 0 ''2025-01-01''
       \<in> set (forecast (weather_of_response (test_weather_response 0 61 3)))
   \<and> \<lparr>act_name = ''indoor_sightseeing'', reasoning = ''ideal temperature, rain makes it more appealing'',
       suitabilityScore = 90\<rparr> \<in> set (activities (daily_forecast (test_daily 61 3) 0 ''2025-01-01''))
   \<and> wf_activity \<lparr>act_name = ''indoor_sightseeing'',
       reasoning = ''ideal temperature, rain makes it more appealing'', suitabilityScore = 90\<rparr>"
proof -
  have f: "fst (getWeatherData openMeteoAPI (\<lambda>_. Inr (test_weather_response 0 61 3)) (JsNum 48.8566) (JsNum 2.3522)) =
     Inr (weather_of_response (test_weather_response 0 61 3))"
    unfolding getWeatherData_call [OF paris_valid] by simp
  have d: "daily_forecast (test_daily 61 3) 0 ''2025-01-01''
       \<in> set (forecast (weather_of_response (test_weather_response 0 61 3)))"
    by (simp add: weather_of_response_def Let_def test_weather_response_def test_daily_def)
  have s: "day_activities activityRankingService (forecast_day (test_daily 61 3) 0 ''2025-01-01'') =
   [\<lparr>act_name = ''skiing'', reasoning = ''too warm, rain not ideal'', suitabilityScore = 2\<rparr>,
    \<lparr>act_name = ''surfing'', reasoning = ''ideal temperature'', suitabilityScore = 74\<rparr>,
    \<lparr>act_name = ''indoor_sightseeing'', reasoning = ''ideal temperature, rain makes it more appealing'',
       suitabilityScore = 90\<rparr>,
    \<lparr>act_name = ''outdoor_sightseeing'', reasoning = ''ideal temperature, rain not ideal'',
       suitabilityScore = 62\<rparr>]"
    by (simp add: forecast_day_def test_daily_def day_activities_eval ACTIVITY_CONFIGS_def score_eval
        activityRankingService_def)
  have a: "\<lparr>act_name = ''indoor_sightseeing'', reasoning = ''ideal temperature, rain makes it more appealing'',
       suitabilityScore = 90\<rparr> \<in> set (activities (daily_forecast (test_daily 61 3) 0 ''2025-01-01''))"
    by (simp add: activities_daily_forecast rank_eval s)
  show ?thesis
    using f d a getWeatherData_activities_wf [OF f d a] by blast
qed

end
