(* ===== verification/Resolvers.thy ===== *)
theory Resolvers
  imports OpenMeteoAPI
begin

text \<open>
  The aggregation pipeline, \<open>src/src/schema/resolvers.ts\<close>: the two query resolvers
  \<open>searchCities\<close> and \<open>getCityWeather\<close> call the adapter's singleton and translate what it
  throws into a \<open>GraphQLError\<close> in their catch blocks. What reaches a catch block is an
  exception value: an \<open>OpenMeteoAPIError\<close>, a \<open>GraphQLError\<close> or any other value. The
  adapter model throws only \<open>OpenMeteoAPIError\<close>s, so the resolvers wrap them with
  \<open>MeteoExn\<close>; the catch blocks are defined on every exception value, as in the source.
  Logging (\<open>console.log\<close>, \<open>console.error\<close>) is output only and is not modelled.
\<close>

record GraphQLError =
  gql_message :: string
  gql_code :: "error_code option"
  gql_service :: "string option"

datatype exn = MeteoExn OpenMeteoAPIError | GqlExn GraphQLError | OtherExn string

definition searchCities_resolver_catch :: "exn \<Rightarrow> GraphQLError" where
  "searchCities_resolver_catch error =
    (case error of
       MeteoExn e \<Rightarrow>
         \<lparr>gql_message = err_message e, gql_code = err_code e,
          gql_service = Some ''OpenMeteo Geocoding API''\<rparr>
     | _ \<Rightarrow>
         \<lparr>gql_message = ''Failed to search cities'', gql_code = Some INTERNAL_SERVER_ERROR,
          gql_service = None\<rparr>)"

definition searchCities_resolver ::
  "(GeoRequest, GeocodingResponse) http_get \<Rightarrow> string
   \<Rightarrow> (GraphQLError + City list) \<times> GeoRequest list" where
  "searchCities_resolver http input =
    (let (r, reqs) = searchCities openMeteoAPI http input in
     (case r of
        Inl e \<Rightarrow> Inl (searchCities_resolver_catch (MeteoExn e))
      | Inr cities \<Rightarrow> Inr cities,
      reqs))"

definition getCityWeather_catch :: "exn \<Rightarrow> GraphQLError" where
  "getCityWeather_catch error =
    (case error of
       GqlExn g \<Rightarrow> g
     | MeteoExn e \<Rightarrow>
         \<lparr>gql_message = err_message e, gql_code = err_code e,
          gql_service = Some ''OpenMeteo Weather API''\<rparr>
     | OtherExn _ \<Rightarrow>
         \<lparr>gql_message = ''Failed to get weather data'', gql_code = Some INTERNAL_SERVER_ERROR,
          gql_service = None\<rparr>)"

text \<open>\<open>const city = { id: cityId, ...cityInfo }\<close>: the identifier is the argument itself.\<close>

definition getCityWeather_resolver ::
  "(ForecastRequest, WeatherResponse) http_get \<Rightarrow> string
   \<Rightarrow> (GraphQLError + CityWeather) \<times> ForecastRequest list" where
  "getCityWeather_resolver http cityId =
    (let (r, reqs) = getWeatherByCityId openMeteoAPI http cityId in
     (case r of
        Inl e \<Rightarrow> Inl (getCityWeather_catch (MeteoExn e))
      | Inr (w, cityInfo) \<Rightarrow>
          Inr \<lparr>city = \<lparr>name = name cityInfo, country = country cityInfo,
                        latitude = latitude cityInfo, longitude = longitude cityInfo,
                        city_id = cityId\<rparr>,
               weather = w\<rparr>,
      reqs))"

section \<open>Properties of the resolvers\<close>

lemma searchCities_resolver_split:
  "searchCities_resolver http input =
     (map_sum (\<lambda>e. searchCities_resolver_catch (MeteoExn e)) id (fst (searchCities openMeteoAPI http input)),
      snd (searchCities openMeteoAPI http input))"
  by (simp add: searchCities_resolver_def split: prod.split sum.split)

lemma getCityWeather_resolver_split:
  "getCityWeather_resolver http cityId =
     (map_sum (\<lambda>e. getCityWeather_catch (MeteoExn e))
        (\<lambda>(w, cityInfo). \<lparr>city = \<lparr>name = name cityInfo, country = country cityInfo,
                        latitude = latitude cityInfo, longitude = longitude cityInfo,
                        city_id = cityId\<rparr>, weather = w\<rparr>)
        (fst (getWeatherByCityId openMeteoAPI http cityId)),
      snd (getWeatherByCityId openMeteoAPI http cityId))"
  by (simp add: getCityWeather_resolver_def split: prod.split sum.split)

lemma getWeatherByCityId_error_codes:
  "fst (getWeatherByCityId this http cityId) = Inl e \<Longrightarrow>
     err_code e \<in> {Some INVALID_COORDINATES, Some TIMEOUT, Some RATE_LIMIT_EXCEEDED, Some UNKNOWN_ERROR}"
proof (cases "parseCityId cityId")
  case (Inl e')
  assume "fst (getWeatherByCityId this http cityId) = Inl e"
  then show ?thesis
    using Inl parseCityId_error_code [of cityId e'] by (simp add: getWeatherByCityId_def)
next
  case (Inr info)
  assume "fst (getWeatherByCityId this http cityId) = Inl e"
  then show ?thesis
    using Inr api_error_of_code
    by (auto simp: getWeatherByCityId_parsed getWeatherData_catch_def split: sum.splits)
qed



lemma searchCities_Inr_city:
  assumes "fst (searchCities this http query) = Inr cs" and "c \<in> set cs"
  shows "\<exists>r. c = city_of_result r"
  using assms by (auto simp: searchCities_def Let_def split: if_splits sum.splits option.splits)

lemma searchCities_resolver_Inr:
  "fst (searchCities_resolver http input) = Inr cs \<Longrightarrow> fst (searchCities openMeteoAPI http input) = Inr cs"
  by (cases "fst (searchCities openMeteoAPI http input)") (auto simp: searchCities_resolver_split)

lemma city_of_result_roundtrip:
  assumes "CHR '':'' \<notin> set (name (city_of_result r))" and "CHR '':'' \<notin> set (country (city_of_result r))"
    and "isValidCoordinate (latitude (city_of_result r)) (longitude (city_of_result r))"
  shows "parseCityId (city_id (city_of_result r)) =
           Inr \<lparr>name = name (city_of_result r), country = country (city_of_result r),
                latitude = latitude (city_of_result r), longitude = longitude (city_of_result r)\<rparr>"
  using assms
  by (simp add: city_of_result_def parseCityId_def split_city_id split_coords js_index_def
      parse_float_number_to_string)

lemma city_of_result_colon:
  assumes "CHR '':'' \<in> set (name (city_of_result r)) \<or> CHR '':'' \<in> set (country (city_of_result r))"
  shows "parseCityId (city_id (city_of_result r)) = Inl invalid_id_format_error"
  using assms parseCityId_colon_in_name by (simp add: city_of_result_def)

text \<open>C15: Every error the searchCities resolver reports carries one of the adapter's codes BAD_USER_INPUT, TIMEOUT, RATE_LIMIT_EXCEEDED or UNKNOWN_ERROR, never INTERNAL_SERVER_ERROR, and names the geocoding service.\<close>

theorem searchCities_resolver_errors:
  assumes "fst (searchCities_resolver http input) = Inl g"
  shows "gql_code g \<in> {Some BAD_USER_INPUT, Some TIMEOUT, Some RATE_LIMIT_EXCEEDED, Some UNKNOWN_ERROR}
         \<and> gql_service g = Some ''OpenMeteo Geocoding API''"
proof -
  obtain e where e: "fst (searchCities openMeteoAPI http input) = Inl e"
    and g: "g = searchCities_resolver_catch (MeteoExn e)"
    using assms by (cases "fst (searchCities openMeteoAPI http input)") (auto simp: searchCities_resolver_split)
  have "err_code e \<in> {Some BAD_USER_INPUT, Some TIMEOUT, Some RATE_LIMIT_EXCEEDED, Some UNKNOWN_ERROR}"
  proof (cases "input = [] \<or> length (js_trim input) < 2")
    case True
    then show ?thesis
      using e by (auto simp: searchCities_def short_query_error_def)
  next
    case False
    then show ?thesis
      using e api_error_of_code
      by (auto simp: searchCities_call searchCities_catch_def split: sum.splits option.splits)
  qed
  then show ?thesis
    by (simp add: g searchCities_resolver_catch_def)
qed

text \<open>C16: Every error the getCityWeather resolver reports carries INVALID_COORDINATES, TIMEOUT, RATE_LIMIT_EXCEEDED or UNKNOWN_ERROR, never INTERNAL_SERVER_ERROR, and names the weather service, also for an identifier that does not decode.\<close>

theorem getCityWeather_errors:
  assumes "fst (getCityWeather_resolver http cityId) = Inl g"
  shows "gql_code g \<in> {Some INVALID_COORDINATES, Some TIMEOUT, Some RATE_LIMIT_EXCEEDED, Some UNKNOWN_ERROR}
         \<and> gql_service g = Some ''OpenMeteo Weather API''"
proof -
  obtain e where e: "fst (getWeatherByCityId openMeteoAPI http cityId) = Inl e"
    and g: "g = getCityWeather_catch (MeteoExn e)"
    using assms by (cases "fst (getWeatherByCityId openMeteoAPI http cityId)") (auto simp: getCityWeather_resolver_split)
  show ?thesis
    using getWeatherByCityId_error_codes [OF e] by (simp add: g getCityWeather_catch_def)
qed

text \<open>C17: A city the getCityWeather resolver returns has the argument as its identifier and the name, country and coordinates the identifier decodes to, and the one request sent is for those coordinates.\<close>

theorem getCityWeather_city:
  assumes "fst (getCityWeather_resolver http cityId) = Inr cw"
  shows "city_id (city cw) = cityId
         \<and> parseCityId cityId = Inr \<lparr>name = name (city cw), country = country (city cw),
                                   latitude = latitude (city cw), longitude = longitude (city cw)\<rparr>
         \<and> snd (getCityWeather_resolver http cityId) =
             [forecast_request openMeteoAPI (latitude (city cw)) (longitude (city cw))]"
proof -
  obtain w info where r: "fst (getWeatherByCityId openMeteoAPI http cityId) = Inr (w, info)"
    and cw: "cw = \<lparr>city = \<lparr>name = name info, country = country info,
                        latitude = latitude info, longitude = longitude info,
                        city_id = cityId\<rparr>, weather = w\<rparr>"
    using assms by (cases "fst (getWeatherByCityId openMeteoAPI http cityId)") (auto simp: getCityWeather_resolver_split)
  obtain response where "parseCityId cityId = Inr info"
    and "snd (getWeatherByCityId openMeteoAPI http cityId) = [forecast_request openMeteoAPI (latitude info) (longitude info)]"
    using getWeatherByCityId_result [OF r] by blast
  then show ?thesis
    by (simp add: cw getCityWeather_resolver_split)
qed

subsection \<open>Witnesses\<close>

lemma cape_town_found:
  "fst (searchCities_resolver (\<lambda>_. Inr cape_town_search) ''Cape'') =
     Inr [city_of_result (hd (the (results cape_town_search)))]"
proof -
  have h: "2 \<le> length (js_trim ''Cape'')"
    by (simp add: trim_eval)
  show ?thesis
    by (simp add: searchCities_resolver_split searchCities_call [OF h] cape_town_search_def
        test_geocoding_result_def is_populated_place_def populated_place_codes_def)
qed

theorem searchCities_resolver_errors_witness:
  "fst (searchCities_resolver (\<lambda>_. Inr cape_town_search) ''a'') =
     Inl (searchCities_resolver_catch (MeteoExn short_query_error))
   \<and> gql_code (searchCities_resolver_catch (MeteoExn short_query_error)) = Some BAD_USER_INPUT
   \<and> gql_service (searchCities_resolver_catch (MeteoExn short_query_error)) = Some ''OpenMeteo Geocoding API''"
proof -
  have f: "fst (searchCities_resolver (\<lambda>_. Inr cape_town_search) ''a'') =
     Inl (searchCities_resolver_catch (MeteoExn short_query_error))"
    by (simp add: searchCities_resolver_split searchCities_def trim_eval)
  show ?thesis
    using f searchCities_resolver_errors [OF f]
    by (simp add: searchCities_resolver_catch_def short_query_error_def)
qed

theorem getCityWeather_errors_witness:
  "fst (getCityWeather_resolver (\<lambda>_. Inl timeout_error) ''invalid-format'') =
     Inl (getCityWeather_catch (MeteoExn invalid_id_format_error))
   \<and> gql_code (getCityWeather_catch (MeteoExn invalid_id_format_error)) = Some INVALID_COORDINATES
   \<and> gql_service (getCityWeather_catch (MeteoExn invalid_id_format_error)) = Some ''OpenMeteo Weather API''"
proof -
  have f: "fst (getCityWeather_resolver (\<lambda>_. Inl timeout_error) ''invalid-format'') =
     Inl (getCityWeather_catch (MeteoExn invalid_id_format_error))"
    by (simp add: getCityWeather_resolver_split getWeatherByCityId_def parseCityId_def)
  show ?thesis
    using f getCityWeather_errors [OF f]
    by (simp add: getCityWeather_catch_def invalid_id_format_error_def)
qed

theorem getCityWeather_city_witness:
  "fst (getCityWeather_resolver (\<lambda>_. Inr (test_weather_response 0 61 3))
          ''-33.92584,18.42322:Cape Town:South Africa'') =
     Inr \<lparr>city = \<lparr>name = ''Cape Town'', country = ''South Africa'', latitude = JsNum (-33.92584),
                   longitude = JsNum 18.42322, city_id = ''-33.92584,18.42322:Cape Town:South Africa''\<rparr>,
          weather = weather_of_response (test_weather_response 0 61 3)\<rparr>
   \<and> snd (getCityWeather_resolver (\<lambda>_. Inr (test_weather_response 0 61 3))
          ''-33.92584,18.42322:Cape Town:South Africa'') =
       [forecast_request openMeteoAPI (JsNum (-33.92584)) (JsNum 18.42322)]"
proof -
  have f: "fst (getCityWeather_resolver (\<lambda>_. Inr (test_weather_response 0 61 3))
          ''-33.92584,18.42322:Cape Town:South Africa'') =
     Inr \<lparr>city = \<lparr>name = ''Cape Town'', country = ''South Africa'', latitude = JsNum (-33.92584),
                   longitude = JsNum 18.42322, city_id = ''-33.92584,18.42322:Cape Town:South Africa''\<rparr>,
          weather = weather_of_response (test_weather_response 0 61 3)\<rparr>"
    unfolding getCityWeather_resolver_split getWeatherByCityId_parsed [OF cape_town_id] by simp
  show ?thesis
    using f getCityWeather_city [OF f] by simp
qed

end
