(* ===== verification/ApiTests.thy ===== *)
theory ApiTests
  imports Resolvers
begin

text \<open>
  The adapter and resolver test suites of \<open>src/src/__tests__/openMeteoAPI.test.ts\<close>:
  \<open>describe('OpenMeteoAPI')\<close>, which calls the adapter's methods, and
  \<open>describe('GraphQL Resolvers Integration Tests')\<close>, which runs GraphQL operations
  through Apollo against the resolvers. Each \<open>it\<close> block is a bool-valued definition;
  an \<open>expect\<close> is a conjunct.
  \<^item> \<open>jest.mock('axios')\<close> replaces the HTTP collaborator. A mocked \<open>get\<close> is the
    constant function \<open>resolves data\<close> or \<open>rejects error\<close>. A \<open>mockResolvedValueOnce\<close>
    queue of two responses answers the first request with the first response and the
    second request with the second, and each resolver issues at most one request
    (\<open>Resolvers\<close>). An unmocked \<open>get\<close> resolves to \<open>undefined\<close>, and reading \<open>.data\<close>
    of it throws a \<open>TypeError\<close>; the tests that leave \<open>get\<close> unmocked are rejected by
    a guard before the call.
  \<^item> \<open>mockAxios.isAxiosError.mockReturnValueOnce(true)\<close> makes the rejected value an
    axios error, so it is an \<open>AxiosError\<close>. A field the mock leaves out is absent,
    and an absent \<open>message\<close> is the empty string: the rate-limit branch that such an
    error takes never reads it.
  \<^item> A payload field the mock leaves out is zero or empty, as in the fixtures of
    \<open>OpenMeteoAPI\<close>. \<open>today\<close> and \<open>tomorrow\<close> are fixed dates; the tests compare
    them only with themselves.
  \<^item> Apollo's \<open>executeOperation\<close> is the resolver applied to the operation's variable.
    \<open>result.errors\<close> is the \<open>Inl\<close> branch, holding the resolver's \<open>GraphQLError\<close>, and
    \<open>extensions.code\<close> is its code as a string. A selection set returns the fields
    it names, and the tests read only those.
\<close>

section \<open>Mocks and fixtures\<close>

definition resolves :: "'resp \<Rightarrow> ('req, 'resp) http_get" where
  "resolves data = (\<lambda>_. Inr data)"

definition rejects :: "thrown \<Rightarrow> ('req, 'resp) http_get" where
  "rejects error = (\<lambda>_. Inl error)"

definition unmocked :: "('req, 'resp) http_get" where
  "unmocked = (\<lambda>_. Inl (OtherError ''TypeError: Cannot read properties of undefined''))"

definition api_today :: string where
  "api_today = ''2025-01-01''"

definition api_tomorrow :: string where
  "api_tomorrow = ''2025-01-02''"

definition mock_current :: "real \<Rightarrow> real \<Rightarrow> real \<Rightarrow> int \<Rightarrow> real \<Rightarrow> CurrentWeather" where
  "mock_current t hum p code w =
    \<lparr>cw_time = [], interval = 0, temperature_2m = t, relative_humidity_2m = hum,
     apparent_temperature = 0, is_day = 0, cw_precipitation = p, rain = 0, showers = 0,
     snowfall = 0, cw_weather_code = code, cloud_cover = 0, pressure_msl = 0,
     surface_pressure = 0, wind_speed_10m = w, wind_direction_10m = 0, wind_gusts_10m = 0\<rparr>"

definition mock_daily ::
  "string list \<Rightarrow> int list \<Rightarrow> real list \<Rightarrow> real list \<Rightarrow> real list \<Rightarrow> real list \<Rightarrow> DailyWeather" where
  "mock_daily ts codes maxs mins precs winds =
    \<lparr>time = ts, weather_code = codes, temperature_2m_max = maxs,
     temperature_2m_min = mins, apparent_temperature_max = [], apparent_temperature_min = [],
     sunrise = [], sunset = [], daylight_duration = [], sunshine_duration = [], uv_index_max = [],
     uv_index_clear_sky_max = [], precipitation_sum = precs, rain_sum = [], showers_sum = [],
     snowfall_sum = [], precipitation_hours = [], precipitation_probability_max = [],
     wind_speed_10m_max = winds, wind_gusts_10m_max = [], wind_direction_10m_dominant = [],
     shortwave_radiation_sum = []\<rparr>"

definition mock_weather ::
  "real \<Rightarrow> real \<Rightarrow> string \<Rightarrow> CurrentWeather \<Rightarrow> DailyWeather \<Rightarrow> WeatherResponse" where
  "mock_weather lat lon tz cur dly =
    \<lparr>wr_latitude = lat, wr_longitude = lon, wr_generationtime_ms = 0, utc_offset_seconds = 0,
     wr_timezone = tz, timezone_abbreviation = [], wr_elevation = 0, current_units = [],
     current = cur, daily_units = [], daily = dly\<rparr>"

definition mock_place ::
  "int \<Rightarrow> string \<Rightarrow> decimal \<Rightarrow> decimal \<Rightarrow> string \<Rightarrow> string \<Rightarrow> real \<Rightarrow> string \<Rightarrow> int
   \<Rightarrow> string \<Rightarrow> int \<Rightarrow> GeocodingResult" where
  "mock_place i nm lat lon ctry code elev tz pop cc cid =
    (test_geocoding_result nm lat lon ctry code)
      \<lparr>gr_id := i, gr_elevation := elev, gr_timezone := tz, population := Some pop,
       country_code := cc, country_id := cid\<rparr>"

definition code_of :: "GraphQLError \<Rightarrow> string option" where
  "code_of e = map_option error_code_str (gql_code e)"

text \<open>\<open>result.errors?.[0].message\<close> contains \<open>s\<close>.\<close>

definition message_contains :: "GraphQLError \<Rightarrow> string \<Rightarrow> bool" where
  "message_contains e s = js_includes (gql_message e) s"

section \<open>describe('OpenMeteoAPI')\<close>

definition it_search_rich_id :: bool where
  "it_search_rich_id =
    (let mockResponse = \<lparr>results = Some [test_geocoding_result ''London'' (Decimal 515074 4)
                           (Decimal (-1278) 4) ''United Kingdom'' ''PPLC''], generationtime_ms = 0\<rparr>
     in case fst (searchCities openMeteoAPI (resolves mockResponse) ''London'') of
          Inl _ \<Rightarrow> False
        | Inr cities \<Rightarrow>
            js_index cities 0 =
              Some \<lparr>name = ''London'', country = ''United Kingdom'', latitude = JsNum 51.5074,
                    longitude = JsNum (-0.1278), city_id = ''51.5074,-0.1278:London:United Kingdom''\<rparr>)"

definition it_search_validate_length :: bool where
  "it_search_validate_length = isl (fst (searchCities openMeteoAPI unmocked ''a''))"

definition it_weather_by_id_core :: bool where
  "it_weather_by_id_core =
    (let mockWeatherResponse =
           mock_weather 0 0 [] (mock_current 20 65 0 1 10)
             (mock_daily [api_today] [1] [22] [18] [0] [12])
     in case fst (getWeatherByCityId openMeteoAPI (resolves mockWeatherResponse)
                    ''51.5074,-0.1278:London:United Kingdom'') of
          Inl _ \<Rightarrow> False
        | Inr (w, cityInfo) \<Rightarrow>
            cityInfo = \<lparr>name = ''London'', country = ''United Kingdom'', latitude = JsNum 51.5074,
                        longitude = JsNum (-0.1278)\<rparr>
            \<and> temperature w = 20 \<and> length (forecast w) = 1
            \<and> length (activities (forecast w ! 0)) > 0)"

definition it_weather_by_id_invalid_format :: bool where
  "it_weather_by_id_invalid_format =
    (case fst (getWeatherByCityId openMeteoAPI unmocked ''invalid-format'') of
       Inl e \<Rightarrow> js_includes (err_message e) ''Invalid city ID format''
     | Inr _ \<Rightarrow> False)"

definition it_weather_code_mapping :: bool where
  "it_weather_code_mapping =
    (let mockResponse =
           mock_weather 0 0 [] (mock_current 20 65 0 0 10)
             (mock_daily [api_today] [61] [22] [18] [3] [12])
     in case fst (getWeatherData openMeteoAPI (resolves mockResponse)
                    (JsNum 51.5074) (JsNum (-0.1278))) of
          Inl _ \<Rightarrow> False
        | Inr w \<Rightarrow> conditions w = ''Clear sky'' \<and> day_conditions (forecast w ! 0) = ''Slight rain'')"

definition it_search_no_results :: bool where
  "it_search_no_results =
    (case fst (searchCities openMeteoAPI (resolves \<lparr>results = None, generationtime_ms = 0\<rparr>) ''Nowhere'') of
       Inl _ \<Rightarrow> False
     | Inr cities \<Rightarrow> length cities = 0)"

definition it_search_timeout :: bool where
  "it_search_timeout =
    (case fst (searchCities openMeteoAPI (rejects timeout_error) ''Paris'') of
       Inl e \<Rightarrow> map_option error_code_str (err_code e) = Some ''TIMEOUT''
     | Inr _ \<Rightarrow> False)"

definition it_weather_invalid_coordinates :: bool where
  "it_weather_invalid_coordinates =
    (case fst (getWeatherData openMeteoAPI unmocked (JsNum 120) JsNaN) of
       Inl e \<Rightarrow> map_option error_code_str (err_code e) = Some ''INVALID_COORDINATES''
     | Inr _ \<Rightarrow> False)"

definition it_weather_timeout :: bool where
  "it_weather_timeout =
    (case fst (getWeatherData openMeteoAPI (rejects timeout_error) (JsNum 48.8566) (JsNum 2.3522)) of
       Inl e \<Rightarrow> map_option error_code_str (err_code e) = Some ''TIMEOUT''
     | Inr _ \<Rightarrow> False)"

definition it_weather_by_id_invalid_range :: bool where
  "it_weather_by_id_invalid_range =
    (case fst (getWeatherByCityId openMeteoAPI unmocked ''999,999:Atlantis:Ocean'') of
       Inl e \<Rightarrow> map_option error_code_str (err_code e) = Some ''INVALID_COORDINATES''
     | Inr _ \<Rightarrow> False)"

definition adapter_test_suite :: bool where
  "adapter_test_suite \<longleftrightarrow>
     it_search_rich_id \<and> it_search_validate_length \<and> it_weather_by_id_core
     \<and> it_weather_by_id_invalid_format \<and> it_weather_code_mapping \<and> it_search_no_results
     \<and> it_search_timeout \<and> it_weather_invalid_coordinates \<and> it_weather_timeout
     \<and> it_weather_by_id_invalid_range"

section \<open>describe('GraphQL Resolvers Integration Tests')\<close>

definition it_resolver_search_cities :: bool where
  "it_resolver_search_cities =
    (let mockGeocodingResponse =
           \<lparr>results = Some
              [mock_place 1 ''London'' (Decimal 515074 4) (Decimal (-1278) 4) ''United Kingdom'' ''PPLC''
                 35 ''Europe/London'' 8982000 ''GB'' 1,
               mock_place 2 ''London'' (Decimal 429834 4) (Decimal (-812330) 4) ''Canada'' ''PPLA''
                 251 ''America/Toronto'' 383000 ''CA'' 2],
            generationtime_ms = 1.2\<rparr>
     in case fst (searchCities_resolver (resolves mockGeocodingResponse) ''London'') of
          Inl _ \<Rightarrow> False
        | Inr cities \<Rightarrow>
            length cities = 2
            \<and> js_index cities 0 =
                Some \<lparr>name = ''London'', country = ''United Kingdom'', latitude = JsNum 51.5074,
                      longitude = JsNum (-0.1278), city_id = ''51.5074,-0.1278:London:United Kingdom''\<rparr>
            \<and> js_index cities 1 =
                Some \<lparr>name = ''London'', country = ''Canada'', latitude = JsNum 42.9834,
                      longitude = JsNum (-81.233), city_id = ''42.9834,-81.233:London:Canada''\<rparr>)"

definition it_resolver_search_empty :: bool where
  "it_resolver_search_empty =
    (case fst (searchCities_resolver (resolves \<lparr>results = None, generationtime_ms = 0.5\<rparr>)
                 ''NonExistentCity'') of
       Inl _ \<Rightarrow> False
     | Inr cities \<Rightarrow> cities = [])"

definition it_resolver_search_api_error :: bool where
  "it_resolver_search_api_error =
    (case fst (searchCities_resolver (rejects timeout_error) ''Paris'') of
       Inl e \<Rightarrow> message_contains e ''Request timeout'' \<and> code_of e = Some ''TIMEOUT''
     | Inr _ \<Rightarrow> False)"

definition it_resolver_search_min_length :: bool where
  "it_resolver_search_min_length =
    (case fst (searchCities_resolver unmocked ''a'') of
       Inl e \<Rightarrow> message_contains e ''at least 2 characters''
     | Inr _ \<Rightarrow> False)"

definition it_resolver_weather_complete :: bool where
  "it_resolver_weather_complete =
    (let mockWeatherResponse =
           mock_weather 51.5074 (-0.1278) ''Europe/London'' (mock_current 20.5 65 0 1 12)
             (mock_daily [api_today, api_tomorrow] [1, 3] [22, 24] [18, 20] [0, 2] [15, 18])
     in case fst (getCityWeather_resolver (resolves mockWeatherResponse)
                    ''51.5074,-0.1278:London:United Kingdom'') of
          Inl _ \<Rightarrow> False
        | Inr weatherData \<Rightarrow>
            city weatherData =
              \<lparr>name = ''London'', country = ''United Kingdom'', latitude = JsNum 51.5074,
               longitude = JsNum (-0.1278), city_id = ''51.5074,-0.1278:London:United Kingdom''\<rparr>
            \<and> temperature (weather weatherData) = 20.5
            \<and> conditions (weather weatherData) = ''Mainly clear''
            \<and> humidity (weather weatherData) = 65 \<and> windSpeed (weather weatherData) = 12
            \<and> precipitation (weather weatherData) = 0
            \<and> length (forecast (weather weatherData)) = 2
            \<and> (let firstDay = forecast (weather weatherData) ! 0 in
               date firstDay = api_today \<and> maxTemp firstDay = 22 \<and> minTemp firstDay = 18
               \<and> day_conditions firstDay = ''Mainly clear'' \<and> day_precipitation firstDay = 0
               \<and> day_windSpeed firstDay = 15 \<and> length (activities firstDay) = 1
               \<and> suitabilityScore (activities firstDay ! 0) > 0
               \<and> suitabilityScore (activities firstDay ! 0) \<le> 100
               \<and> reasoning (activities firstDay ! 0) \<noteq> []))"

definition it_resolver_weather_invalid_format :: bool where
  "it_resolver_weather_invalid_format =
    (case fst (getCityWeather_resolver unmocked ''invalid-format'') of
       Inl e \<Rightarrow> message_contains e ''Invalid city ID format''
     | Inr _ \<Rightarrow> False)"

definition it_resolver_weather_invalid_coordinates :: bool where
  "it_resolver_weather_invalid_coordinates =
    (case fst (getCityWeather_resolver unmocked ''999,999:InvalidCity:InvalidCountry'') of
       Inl e \<Rightarrow> message_contains e ''Invalid coordinates''
     | Inr _ \<Rightarrow> False)"

definition it_resolver_weather_rate_limit :: bool where
  "it_resolver_weather_rate_limit =
    (let apiError = AxiosError \<lparr>ax_code = None, ax_status = Some 429,
                                ax_statusText = Some ''Too Many Requests'', ax_message = []\<rparr>
     in case fst (getCityWeather_resolver (rejects apiError) ''51.5074,-0.1278:London:United Kingdom'') of
          Inl e \<Rightarrow> message_contains e ''Rate limit exceeded'' \<and> code_of e = Some ''RATE_LIMIT_EXCEEDED''
        | Inr _ \<Rightarrow> False)"

definition it_resolver_weather_timeout :: bool where
  "it_resolver_weather_timeout =
    (case fst (getCityWeather_resolver (rejects timeout_error) ''51.5074,-0.1278:London:United Kingdom'') of
       Inl e \<Rightarrow> message_contains e ''Request timeout'' \<and> code_of e = Some ''TIMEOUT''
     | Inr _ \<Rightarrow> False)"

text \<open>The identifier of the second operation is the one the first returned.\<close>

definition it_resolver_sequence :: bool where
  "it_resolver_sequence =
    (let mockSearchResponse =
           \<lparr>results = Some [mock_place 1 ''Paris'' (Decimal 488566 4) (Decimal 23522 4) ''France'' ''PPLC''
                             35 ''Europe/Paris'' 2161000 ''FR'' 1],
            generationtime_ms = 1.0\<rparr>;
         mockWeatherResponse =
           mock_weather 48.8566 2.3522 ''Europe/Paris'' (mock_current 18.5 70 0 1 8)
             (mock_daily [api_today] [1] [20] [16] [0] [10])
     in case fst (searchCities_resolver (resolves mockSearchResponse) ''Paris'') of
          Inl _ \<Rightarrow> False
        | Inr cities \<Rightarrow>
            (case js_index cities 0 of
               None \<Rightarrow> False
             | Some c \<Rightarrow>
                 (case fst (getCityWeather_resolver (resolves mockWeatherResponse) (city_id c)) of
                    Inl _ \<Rightarrow> False
                  | Inr weatherResult \<Rightarrow>
                      name (city weatherResult) = ''Paris''
                      \<and> temperature (weather weatherResult) = 18.5)))"

definition resolver_test_suite :: bool where
  "resolver_test_suite \<longleftrightarrow>
     it_resolver_search_cities \<and> it_resolver_search_empty \<and> it_resolver_search_api_error
     \<and> it_resolver_search_min_length \<and> it_resolver_weather_complete
     \<and> it_resolver_weather_invalid_format \<and> it_resolver_weather_invalid_coordinates
     \<and> it_resolver_weather_rate_limit \<and> it_resolver_weather_timeout \<and> it_resolver_sequence"

section \<open>Running the suites\<close>

lemma mock_weather_fixture:
  "mock_weather 0 0 [] (mock_current 20 65 0 code 10) (mock_daily [api_today] [day_code] [22] [18] [p] [12]) =
   test_weather_response code day_code p"
  by (simp add: mock_weather_def mock_current_def mock_daily_def test_weather_response_def
      test_current_def test_daily_def api_today_def)

lemma london_parsed:
  "parseCityId ''51.5074,-0.1278:London:United Kingdom'' =
      Inr \<lparr>name = ''London'', country = ''United Kingdom'', latitude = JsNum 51.5074,
           longitude = JsNum (-0.1278)\<rparr>"
  by (simp add: parseCityId_eval)

lemma length_forecast_weather_of_response:
  "length (forecast (weather_of_response response)) = length (time (daily response))"
  using arg_cong [OF map_date_forecast, of length] by simp

lemma day_activities_mild_clear:
  "day_activities activityRankingService
     \<lparr>date = dt, maxTemp = 22, minTemp = 18, day_conditions = c,
      day_precipitation = p, day_windSpeed = w\<rparr> =
   [\<lparr>act_name = ''skiing'', reasoning = ''too warm, no rain'', suitabilityScore = 30\<rparr>,
    \<lparr>act_name = ''surfing'', reasoning = ''ideal temperature'', suitabilityScore = 80\<rparr>,
    \<lparr>act_name = ''indoor_sightseeing'', reasoning = ''ideal temperature'', suitabilityScore = 80\<rparr>,
    \<lparr>act_name = ''outdoor_sightseeing'', reasoning = ''ideal temperature, no rain'',
       suitabilityScore = 90\<rparr>]" if "p \<le> 1" "w \<le> 20"
  using that by (simp add: day_activities_eval ACTIVITY_CONFIGS_def score_eval activityRankingService_def)

subsection \<open>The adapter tests\<close>

lemma it_search_rich_id_holds: "it_search_rich_id"
  using searchCities_london by (simp add: it_search_rich_id_def resolves_def js_index_def)

lemma it_search_validate_length_holds: "it_search_validate_length"
  by (simp add: it_search_validate_length_def searchCities_def trim_eval)

lemma it_weather_by_id_core_holds: "it_weather_by_id_core"
  using getWeatherByCityId_london
  by (auto simp add: it_weather_by_id_core_def mock_weather_fixture resolves_def)

lemma it_weather_by_id_invalid_format_holds: "it_weather_by_id_invalid_format"
  by (simp add: it_weather_by_id_invalid_format_def getWeatherByCityId_def parseCityId_eval
    invalid_id_format_error_def)

lemma it_weather_code_mapping_holds: "it_weather_code_mapping"
  using getWeatherData_codes
  by (auto simp add: it_weather_code_mapping_def mock_weather_fixture resolves_def)

lemma it_search_no_results_holds: "it_search_no_results"
proof -
  have h: "2 \<le> length (js_trim ''Nowhere'')" by (simp add: trim_eval)
  show ?thesis by (simp add: it_search_no_results_def searchCities_call [OF h] resolves_def)
qed

lemma it_search_timeout_holds: "it_search_timeout"
proof -
  have h: "2 \<le> length (js_trim ''Paris'')" by (simp add: trim_eval)
  show ?thesis by (simp add: it_search_timeout_def searchCities_call [OF h] rejects_def
    searchCities_catch_def api_error_of_def timeout_error_def)
qed

lemma it_weather_invalid_coordinates_holds: "it_weather_invalid_coordinates"
  by (simp add: it_weather_invalid_coordinates_def getWeatherData_def isValidCoordinate_def
    invalid_coordinates_provided_error_def)

lemma it_weather_timeout_holds: "it_weather_timeout"
  unfolding it_weather_timeout_def getWeatherData_call [OF paris_valid]
  by (simp add: rejects_def getWeatherData_catch_def api_error_of_def timeout_error_def)

lemma it_weather_by_id_invalid_range_holds: "it_weather_by_id_invalid_range"
  by (simp add: it_weather_by_id_invalid_range_def getWeatherByCityId_def parseCityId_eval
    invalid_coords_error_def)

subsection \<open>The resolver tests\<close>

lemma it_resolver_search_cities_holds: "it_resolver_search_cities"
proof -
  have h: "2 \<le> length (js_trim ''London'')" by (simp add: trim_eval)
  have c: "city_id_of (Decimal 429834 4) (Decimal (-812330) 4) ''London'' ''Canada'' =
     ''42.9834,-81.233:London:Canada''"
    by (simp add: city_id_of_def print_eval)
  show ?thesis
    by (simp add: it_resolver_search_cities_def searchCities_resolver_split searchCities_call [OF h]
      resolves_def mock_place_def test_geocoding_result_def city_of_result_def is_populated_place_def
      populated_place_codes_def city_id_of_london c js_index_def)
qed

lemma it_resolver_search_empty_holds: "it_resolver_search_empty"
proof -
  have h: "2 \<le> length (js_trim ''NonExistentCity'')" by (simp add: trim_eval)
  show ?thesis by (simp add: it_resolver_search_empty_def searchCities_resolver_split
    searchCities_call [OF h] resolves_def)
qed

lemma it_resolver_search_api_error_holds: "it_resolver_search_api_error"
proof -
  have h: "2 \<le> length (js_trim ''Paris'')" by (simp add: trim_eval)
  show ?thesis by (simp add: it_resolver_search_api_error_def searchCities_resolver_split
    searchCities_call [OF h] rejects_def searchCities_resolver_catch_def searchCities_catch_def
    api_error_of_def timeout_error_def message_contains_def code_of_def)
qed

lemma it_resolver_search_min_length_holds: "it_resolver_search_min_length"
  by (simp add: it_resolver_search_min_length_def searchCities_resolver_split searchCities_def trim_eval
    searchCities_resolver_catch_def short_query_error_def message_contains_def)

lemma it_resolver_weather_complete_holds: "it_resolver_weather_complete"
proof -
  define R where "R = mock_weather 51.5074 (-0.1278) ''Europe/London'' (mock_current 20.5 65 0 1 12)
             (mock_daily [api_today, api_tomorrow] [1, 3] [22, 24] [18, 20] [0, 2] [15, 18])"
  have d: "daily R = mock_daily [api_today, api_tomorrow] [1, 3] [22, 24] [18, 20] [0, 2] [15, 18]"
    by (simp add: R_def mock_weather_def)
  have f0: "forecast (weather_of_response R) ! 0 = daily_forecast (daily R) 0 api_today"
    using forecast_nth [of 0 R] by (simp add: d mock_daily_def)
  have fd: "forecast_day (daily R) 0 api_today =
      \<lparr>date = api_today, maxTemp = 22, minTemp = 18, day_conditions = ''Mainly clear'',
       day_precipitation = 0, day_windSpeed = 15\<rparr>"
    by (simp add: d mock_daily_def forecast_day_def getWeatherCondition_def WEATHER_CODES_def)
  have acts: "activities (daily_forecast (daily R) 0 api_today) =
      [\<lparr>act_name = ''outdoor_sightseeing'', reasoning = ''ideal temperature, no rain'',
        suitabilityScore = 90\<rparr>]"
    by (simp add: activities_daily_forecast fd rank_eval day_activities_mild_clear)
  have cur: "temperature (weather_of_response R) = 20.5 \<and> conditions (weather_of_response R) = ''Mainly clear''
      \<and> humidity (weather_of_response R) = 65 \<and> windSpeed (weather_of_response R) = 12
      \<and> precipitation (weather_of_response R) = 0"
    by (simp add: weather_of_response_def Let_def R_def mock_weather_def mock_current_def
      getWeatherCondition_def WEATHER_CODES_def)
  have len: "length (forecast (weather_of_response R)) = 2"
    by (simp add: length_forecast_weather_of_response d mock_daily_def)
  have day0: "date (daily_forecast (daily R) 0 api_today) = api_today
      \<and> maxTemp (daily_forecast (daily R) 0 api_today) = 22
      \<and> minTemp (daily_forecast (daily R) 0 api_today) = 18
      \<and> day_conditions (daily_forecast (daily R) 0 api_today) = ''Mainly clear''
      \<and> day_precipitation (daily_forecast (daily R) 0 api_today) = 0
      \<and> day_windSpeed (daily_forecast (daily R) 0 api_today) = 15"
    by (simp add: daily_forecast_def Let_def fd)
  show ?thesis
    unfolding it_resolver_weather_complete_def R_def [symmetric]
    by (simp add: getCityWeather_resolver_split getWeatherByCityId_parsed [OF london_parsed]
      resolves_def cur len f0 day0 acts)
qed

lemma it_resolver_weather_invalid_format_holds: "it_resolver_weather_invalid_format"
  by (simp add: it_resolver_weather_invalid_format_def getCityWeather_resolver_split
    getWeatherByCityId_def parseCityId_eval invalid_id_format_error_def getCityWeather_catch_def
    message_contains_def)

lemma it_resolver_weather_invalid_coordinates_holds: "it_resolver_weather_invalid_coordinates"
  by (simp add: it_resolver_weather_invalid_coordinates_def getCityWeather_resolver_split
    getWeatherByCityId_def parseCityId_eval invalid_coords_error_def getCityWeather_catch_def
    message_contains_def)

lemma it_resolver_weather_rate_limit_holds: "it_resolver_weather_rate_limit"
  by (simp add: it_resolver_weather_rate_limit_def getCityWeather_resolver_split
    getWeatherByCityId_parsed [OF london_parsed] rejects_def getWeatherData_catch_def api_error_of_def
    getCityWeather_catch_def message_contains_def code_of_def)

lemma it_resolver_weather_timeout_holds: "it_resolver_weather_timeout"
  by (simp add: it_resolver_weather_timeout_def getCityWeather_resolver_split
    getWeatherByCityId_parsed [OF london_parsed] rejects_def getWeatherData_catch_def api_error_of_def
    timeout_error_def getCityWeather_catch_def message_contains_def code_of_def)

lemma it_resolver_sequence_holds: "it_resolver_sequence"
proof -
  define r where "r = mock_place 1 ''Paris'' (Decimal 488566 4) (Decimal 23522 4) ''France'' ''PPLC''
                             35 ''Europe/Paris'' 2161000 ''FR'' 1"
  have h: "2 \<le> length (js_trim ''Paris'')" by (simp add: trim_eval)
  have s: "fst (searchCities_resolver (resolves \<lparr>results = Some [r], generationtime_ms = 1.0\<rparr>) ''Paris'') =
      Inr [city_of_result r]"
    by (simp add: searchCities_resolver_split searchCities_call [OF h] resolves_def r_def mock_place_def
      test_geocoding_result_def is_populated_place_def populated_place_codes_def)
  have cr: "name (city_of_result r) = ''Paris'' \<and> country (city_of_result r) = ''France''
      \<and> latitude (city_of_result r) = JsNum 48.8566 \<and> longitude (city_of_result r) = JsNum 2.3522"
    by (simp add: city_of_result_def r_def mock_place_def test_geocoding_result_def)
  have p: "parseCityId (city_id (city_of_result r)) =
      Inr \<lparr>name = ''Paris'', country = ''France'', latitude = JsNum 48.8566, longitude = JsNum 2.3522\<rparr>"
    using city_of_result_roundtrip [of r] paris_valid by (simp add: cr)
  show ?thesis
    unfolding it_resolver_sequence_def Let_def r_def [symmetric] s
    by (simp add: js_index_def getCityWeather_resolver_split getWeatherByCityId_parsed [OF p] resolves_def
      temperature_weather_of_response mock_weather_def mock_current_def)
qed

lemma api_tests_pass: "adapter_test_suite \<and> resolver_test_suite"
proof
  show "adapter_test_suite"
    by (simp add: adapter_test_suite_def it_search_rich_id_holds it_search_validate_length_holds
      it_weather_by_id_core_holds it_weather_by_id_invalid_format_holds it_weather_code_mapping_holds
      it_search_no_results_holds it_search_timeout_holds it_weather_invalid_coordinates_holds
      it_weather_timeout_holds it_weather_by_id_invalid_range_holds)
  show "resolver_test_suite"
    by (simp add: resolver_test_suite_def it_resolver_search_cities_holds
      it_resolver_search_empty_holds it_resolver_search_api_error_holds
      it_resolver_search_min_length_holds it_resolver_weather_complete_holds
      it_resolver_weather_invalid_format_holds it_resolver_weather_invalid_coordinates_holds
      it_resolver_weather_rate_limit_holds it_resolver_weather_timeout_holds
      it_resolver_sequence_holds)
qed

end
