(* ===== verification/ActivityRankingLegacy.thy ===== *)
theory ActivityRankingLegacy
  imports ActivityRanking
begin

text \<open>
  The earlier scoring engine, \<open>src/src/utils/activityRanking.ts\<close>: the same algorithm as
  \<open>ActivityRankingService\<close> of \<open>src/unnamed/part_000\<close>, written with inline literals in
  place of the service's named constants and with a module-local copy of the profile table.
  \<open>scoreActivity\<close> is translated as the source writes it, one function whose mutable
  \<open>score\<close> and \<open>reasons\<close> are rebound after each block. The theorem of this theory is that
  the two engines rank every day identically, so every property of \<open>ActivityRanking\<close>
  holds of this one too.
\<close>

text \<open>The module-local \<open>ActivityConfig\<close> type has the fields of the one in
  \<open>constants.ts\<close>; the record \<open>ActivityConfig\<close> of \<open>Constants\<close> serves both.\<close>

definition LEGACY_ACTIVITY_CONFIGS :: "ActivityConfig list" where
  "LEGACY_ACTIVITY_CONFIGS =
    [\<lparr>cfg_name = ''skiing'', idealTempMin = -10, idealTempMax = 2,
       rainTolerance = 0.1, windPreference = 0.2\<rparr>,
     \<lparr>cfg_name = ''surfing'', idealTempMin = 18, idealTempMax = 28,
       rainTolerance = 0.7, windPreference = 0.8\<rparr>,
     \<lparr>cfg_name = ''indoor_sightseeing'', idealTempMin = 10, idealTempMax = 30,
       rainTolerance = 1.0, windPreference = 0.5\<rparr>,
     \<lparr>cfg_name = ''outdoor_sightseeing'', idealTempMin = 15, idealTempMax = 25,
       rainTolerance = 0.1, windPreference = 0.3\<rparr>]"

definition legacy_scoreActivity ::
  "ActivityConfig \<Rightarrow> real \<Rightarrow> bool \<Rightarrow> bool \<Rightarrow> real \<Rightarrow> real \<Rightarrow> Activity" where
  "legacy_scoreActivity config avgTemp hasRain isWindy precipitation windSpeed =
    (let score = (50::real); reasons = ([] :: string list);
         (score, reasons) =
           (if avgTemp \<ge> idealTempMin config \<and> avgTemp \<le> idealTempMax config
            then (score + 30, reasons @ [''ideal temperature''])
            else if avgTemp < idealTempMin config
            then (let penalty = min 30 ((idealTempMin config - avgTemp) * 5)
                  in (score - penalty, reasons @ [''too cold'']))
            else (let penalty = min 30 ((avgTemp - idealTempMax config) * 5)
                  in (score - penalty, reasons @ [''too warm''])));
         (score, reasons) =
           (if hasRain
            then (let rainImpact = (1 - rainTolerance config) * 20;
                      score = score - rainImpact
                  in if rainTolerance config > 0.8
                     then (score + 10, reasons @ [''rain makes it more appealing''])
                     else if rainTolerance config < 0.3
                     then (score, reasons @ [''rain not ideal''])
                     else (score, reasons))
            else if rainTolerance config < 0.3
            then (score + 10, reasons @ [''no rain''])
            else (score, reasons));
         (score, reasons) =
           (if isWindy
            then (let windImpact = windPreference config * 15 - 7.5;
                      score = score + windImpact
                  in if windPreference config > 0.6
                     then (score, reasons @ [''good wind conditions''])
                     else if windPreference config < 0.4
                     then (score, reasons @ [''windy conditions''])
                     else (score, reasons))
            else (score, reasons));
         (score, reasons) =
           (if js_includes (cfg_name config) ''indoor''
            then (if avgTemp < 10 \<or> avgTemp > 30
                  then (score + 15, reasons @ [''extreme weather favors indoor activities''])
                  else (score, reasons))
            else (score, reasons))
     in \<lparr>act_name = cfg_name config,
         reasoning = (let joined = js_join '', '' reasons
                      in if joined = [] then ''standard conditions'' else joined),
         suitabilityScore = max 0 (min 100 (js_round score))\<rparr>)"

definition legacy_rankActivitiesForDay :: "DayForecast \<Rightarrow> int \<Rightarrow> Activity list" where
  "legacy_rankActivitiesForDay forecast top_n =
    (let avgTemp = (maxTemp forecast + minTemp forecast) / 2;
         hasRain = day_precipitation forecast > 1;
         isWindy = day_windSpeed forecast > 20;
         activities = map (\<lambda>config. legacy_scoreActivity config avgTemp hasRain isWindy
                             (day_precipitation forecast) (day_windSpeed forecast))
                        LEGACY_ACTIVITY_CONFIGS
     in js_slice (js_sort (\<lambda>a b. suitabilityScore b - suitabilityScore a) activities) 0 top_n)"

section \<open>Equivalence with the current engine\<close>

lemma legacy_configs: "LEGACY_ACTIVITY_CONFIGS = ACTIVITY_CONFIGS"
  by (simp add: LEGACY_ACTIVITY_CONFIGS_def ACTIVITY_CONFIGS_def)

text \<open>Each block of the legacy method is the corresponding stage of the service instance.\<close>

lemma legacy_temperature_block:
  "(if avgTemp \<ge> idealTempMin config \<and> avgTemp \<le> idealTempMax config
    then (score + 30, reasons @ [''ideal temperature''])
    else if avgTemp < idealTempMin config
    then (score - min 30 ((idealTempMin config - avgTemp) * 5), reasons @ [''too cold''])
    else (score - min 30 ((avgTemp - idealTempMax config) * 5), reasons @ [''too warm''])) =
   temperature_term activityRankingService config avgTemp (score, reasons)"
  by (simp add: temperature_term_def activityRankingService_def Let_def)

lemma legacy_rain_block:
  "(if hasRain
    then (if rainTolerance config > 0.8
          then (score - (1 - rainTolerance config) * 20 + 10, reasons @ [''rain makes it more appealing''])
          else if rainTolerance config < 0.3
          then (score - (1 - rainTolerance config) * 20, reasons @ [''rain not ideal''])
          else (score - (1 - rainTolerance config) * 20, reasons))
    else if rainTolerance config < 0.3
    then (score + 10, reasons @ [''no rain''])
    else (score, reasons)) =
   rain_term activityRankingService config hasRain (score, reasons)"
  by (simp add: rain_term_def activityRankingService_def Let_def)

lemma legacy_wind_block:
  "(if isWindy
    then (if windPreference config > 0.6
          then (score + (windPreference config * 15 - 7.5), reasons @ [''good wind conditions''])
          else if windPreference config < 0.4
          then (score + (windPreference config * 15 - 7.5), reasons @ [''windy conditions''])
          else (score + (windPreference config * 15 - 7.5), reasons))
    else (score, reasons)) =
   wind_term activityRankingService config isWindy (score, reasons)"
  by (simp add: wind_term_def activityRankingService_def Let_def)

lemma legacy_indoor_block:
  "(if js_includes (cfg_name config) ''indoor''
    then (if avgTemp < 10 \<or> avgTemp > 30
          then (score + 15, reasons @ [''extreme weather favors indoor activities''])
          else (score, reasons))
    else (score, reasons)) =
   indoor_term activityRankingService config avgTemp (score, reasons)"
  by (simp add: indoor_term_def activityRankingService_def)

lemma legacy_scoreActivity_eq:
  "legacy_scoreActivity config avgTemp hasRain isWindy p w =
     scoreActivity activityRankingService config avgTemp hasRain isWindy p w"
  unfolding legacy_scoreActivity_def Let_def legacy_temperature_block legacy_rain_block
    legacy_wind_block legacy_indoor_block
  by (simp add: scoreActivity_def score_stages_def activityRankingService_def split_def)

lemma legacy_rankActivitiesForDay_fun:
  "legacy_rankActivitiesForDay = rankActivitiesForDay activityRankingService"
  by (intro ext) (simp add: legacy_rankActivitiesForDay_def rankActivitiesForDay_def day_activities_def
      legacy_configs legacy_scoreActivity_eq activity_compare_def [abs_def] Let_def)

text \<open>C25: The legacy engine of activityRanking.ts, with inline literals and its own profile table, ranks every day exactly as the ActivityRankingService instance does, for every requested count.\<close>

theorem legacy_rank_eq:
  "legacy_rankActivitiesForDay forecast top_n = rankActivitiesForDay activityRankingService forecast top_n"
  by (simp add: legacy_rankActivitiesForDay_fun)

end
