(* ===== verification/RankingTests.thy ===== *)
theory RankingTests
  imports ActivityRankingLegacy
begin

text \<open>
  The ranking test suite, the third part of \<open>src/src/utils/constants.ts\<close>
  (\<open>describe('ActivityRankingService')\<close>). Each \<open>it\<close> block is a bool-valued definition over
  the method under test, \<open>service.rankActivitiesForDay\<close>, with its fixtures written as the
  test writes them: an \<open>expect\<close> is a conjunct, \<open>find\<close> is \<open>List.find\<close>, \<open>forEach\<close> is
  \<open>list_all\<close>, and a dereference of what \<open>find\<close> did not find (\<open>skiing!\<close>) fails the test.
  \<open>today\<close> is the date the test computes at run time; no test reads it. The suite is then
  run, by evaluation, against both engines of the repository. The tests' local
  \<open>activities\<close> is \<open>acts\<close> here (\<open>activities\<close> is the field of \<open>DailyForecast\<close>).
\<close>

type_synonym ranker = "DayForecast \<Rightarrow> int \<Rightarrow> Activity list"

definition today :: string where
  "today = ''2025-01-01''"

definition test_top1_by_default :: "ranker \<Rightarrow> bool" where
  "test_top1_by_default rank =
    (let weather = \<lparr>date = today, maxTemp = 22, minTemp = 18, day_conditions = ''Clear sky'',
                    day_precipitation = 0, day_windSpeed = 5\<rparr>;
         acts = rank weather 1
     in length acts = 1 \<and> act_name (acts ! 0) = ''outdoor_sightseeing''
        \<and> suitabilityScore (acts ! 0) > 80)"

definition test_all_four :: "ranker \<Rightarrow> bool" where
  "test_all_four rank =
    (let weather = \<lparr>date = today, maxTemp = 22, minTemp = 18, day_conditions = ''Clear sky'',
                    day_precipitation = 0, day_windSpeed = 5\<rparr>;
         acts = rank weather 4;
         activityNames = map act_name acts
     in length acts = 4 \<and> act_name (acts ! 0) = ''outdoor_sightseeing''
        \<and> ''skiing'' \<in> set activityNames \<and> ''surfing'' \<in> set activityNames
        \<and> ''indoor_sightseeing'' \<in> set activityNames \<and> ''outdoor_sightseeing'' \<in> set activityNames)"

text \<open>The property the loop checks: each activity scores at least as much as the next.\<close>

definition successive_ge :: "Activity list \<Rightarrow> bool" where
  "successive_ge acts =
     list_all (\<lambda>(a, b). suitabilityScore a \<ge> suitabilityScore b) (zip acts (drop 1 acts))"

text \<open>The loop \<open>for (let i = 0; i < activities.length - 1; i++)\<close> as written: \<open>i\<close> is
  a JavaScript number, \<open>activities.length - 1\<close> is \<open>-1\<close> for an empty array, and an
  \<open>expect\<close> that fails throws, so the test ends with \<open>False\<close>. \<open>None\<close> would be a loop
  that never ends.\<close>

partial_function (option) sorted_loop :: "Activity list \<Rightarrow> int \<Rightarrow> bool option" where
  "sorted_loop acts i =
    (if i < int (length acts) - 1
     then (if suitabilityScore (acts ! nat i) \<ge> suitabilityScore (acts ! nat (i + 1))
           then sorted_loop acts (i + 1) else Some False)
     else Some True)"

definition test_sorted :: "ranker \<Rightarrow> bool" where
  "test_sorted rank =
    (let weather = \<lparr>date = today, maxTemp = 20, minTemp = 15, day_conditions = ''Clear sky'',
                    day_precipitation = 0, day_windSpeed = 10\<rparr>;
         acts = rank weather 4
     in sorted_loop acts 0 = Some True)"

definition test_rainy_indoor :: "ranker \<Rightarrow> bool" where
  "test_rainy_indoor rank =
    (let rainyWeather = \<lparr>date = today, maxTemp = 18, minTemp = 15, day_conditions = ''Heavy rain'',
                         day_precipitation = 15, day_windSpeed = 10\<rparr>;
         acts = rank rainyWeather 2
     in length acts = 2 \<and> act_name (acts ! 0) = ''indoor_sightseeing''
        \<and> suitabilityScore (acts ! 0) > 70)"

definition test_cold_skiing :: "ranker \<Rightarrow> bool" where
  "test_cold_skiing rank =
    (let coldWeather = \<lparr>date = today, maxTemp = -2, minTemp = -8, day_conditions = ''Snow'',
                        day_precipitation = 3, day_windSpeed = 8\<rparr>;
         acts = rank coldWeather 4;
         skiing = find (\<lambda>a. act_name a = ''skiing'') acts;
         warmWeather = \<lparr>date = today, maxTemp = 25, minTemp = 20, day_conditions = ''Clear sky'',
                        day_precipitation = 0, day_windSpeed = 5\<rparr>;
         warmActs = rank warmWeather 4;
         warmSkiing = find (\<lambda>a. act_name a = ''skiing'') warmActs
     in case skiing of
          None \<Rightarrow> False
        | Some s \<Rightarrow>
            suitabilityScore s > 50 \<and> js_includes (reasoning s) ''ideal temperature''
            \<and> (case warmSkiing of
                 None \<Rightarrow> False
               | Some ws \<Rightarrow> suitabilityScore s > suitabilityScore ws))"

definition test_top_parameter :: "ranker \<Rightarrow> bool" where
  "test_top_parameter rank =
    (let weather = \<lparr>date = today, maxTemp = 20, minTemp = 15, day_conditions = ''Clear sky'',
                    day_precipitation = 0, day_windSpeed = 10\<rparr>
     in length (rank weather 1) = 1 \<and> length (rank weather 2) = 2
        \<and> length (rank weather 3) = 3 \<and> length (rank weather 4) = 4)"

definition test_scores_in_range :: "ranker \<Rightarrow> bool" where
  "test_scores_in_range rank =
    (let extremeWeather = \<lparr>date = today, maxTemp = 45, minTemp = 40, day_conditions = ''Thunderstorm'',
                           day_precipitation = 50, day_windSpeed = 80\<rparr>;
         acts = rank extremeWeather 4
     in list_all (\<lambda>activity. suitabilityScore activity \<ge> 0 \<and> suitabilityScore activity \<le> 100
                             \<and> reasoning activity \<noteq> []) acts)"

definition test_meaningful_reasoning :: "ranker \<Rightarrow> bool" where
  "test_meaningful_reasoning rank =
    (let weather = \<lparr>date = today, maxTemp = 20, minTemp = 15, day_conditions = ''Overcast'',
                    day_precipitation = 1, day_windSpeed = 15\<rparr>;
         acts = rank weather 4
     in list_all (\<lambda>activity. reasoning activity \<noteq> [] \<and> length (reasoning activity) > 0) acts)"

definition ranking_test_suite :: "ranker \<Rightarrow> bool" where
  "ranking_test_suite rank \<longleftrightarrow>
     test_top1_by_default rank \<and> test_all_four rank \<and> test_sorted rank \<and> test_rainy_indoor rank
     \<and> test_cold_skiing rank \<and> test_top_parameter rank \<and> test_scores_in_range rank
     \<and> test_meaningful_reasoning rank"


section \<open>The loop of the sorting test\<close>

lemma successive_ge_Cons2:
  "successive_ge (x # y # rest) \<longleftrightarrow> suitabilityScore x \<ge> suitabilityScore y \<and> successive_ge (y # rest)"
  by (simp add: successive_ge_def)

lemma successive_ge_short: "length xs \<le> 1 \<Longrightarrow> successive_ge xs"
  by (cases xs) (simp_all add: successive_ge_def)

text \<open>From any start \<open>i \<ge> 0\<close> the loop checks the suffix of the array from \<open>i\<close>.\<close>

lemma sorted_loop_eq:
  "0 \<le> i \<Longrightarrow> sorted_loop acts i = Some (successive_ge (drop (nat i) acts))"
proof (induction "length acts - nat i" arbitrary: i)
  case 0
  then have "int (length acts) \<le> i"
    by (simp add: le_nat_iff)
  then show ?case
    by (subst sorted_loop.simps) (simp add: successive_ge_short)
next
  case (Suc m)
  show ?case
  proof (cases "i < int (length acts) - 1")
    case True
    then have d: "drop (nat i) acts = acts ! nat i # acts ! nat (i + 1) # drop (nat (i + 1) + 1) acts"
      using Suc.prems by (simp add: Cons_nth_drop_Suc nat_add_distrib)
    have "sorted_loop acts (i + 1) = Some (successive_ge (drop (nat (i + 1)) acts))"
      using Suc.hyps(1) [of "i + 1"] Suc.hyps(2) Suc.prems by simp
    moreover have "drop (nat (i + 1)) acts = acts ! nat (i + 1) # drop (nat (i + 1) + 1) acts"
      using True Suc.prems by (simp add: Cons_nth_drop_Suc)
    ultimately show ?thesis
      using True by (subst sorted_loop.simps) (simp add: d successive_ge_Cons2)
  next
    case False
    then show ?thesis
      by (subst sorted_loop.simps) (simp add: successive_ge_short)
  qed
qed

section \<open>Running the suite\<close>

text \<open>The days of the fixtures, evaluated once; each test then reads its result.\<close>

lemma day_activities_mild_day:
  "day_activities activityRankingService
     \<lparr>date = ''2025-01-01'', maxTemp = 20, minTemp = 15, day_conditions = c,
      day_precipitation = p, day_windSpeed = w\<rparr> =
   [\<lparr>act_name = ''skiing'', reasoning = ''too warm, no rain'', suitabilityScore = 30\<rparr>,
    \<lparr>act_name = ''surfing'', reasoning = ''too cold'', suitabilityScore = 48\<rparr>,
    \<lparr>act_name = ''indoor_sightseeing'', reasoning = ''ideal temperature'', suitabilityScore = 80\<rparr>,
    \<lparr>act_name = ''outdoor_sightseeing'', reasoning = ''ideal temperature, no rain'',
       suitabilityScore = 90\<rparr>]" if "p \<le> 1" "w \<le> 20"
  using that by (simp add: day_activities_eval ACTIVITY_CONFIGS_def score_eval activityRankingService_def)

lemma day_activities_cold_day:
  "day_activities activityRankingService
     \<lparr>date = ''2025-01-01'', maxTemp = -2, minTemp = -8, day_conditions = ''Snow'',
      day_precipitation = 3, day_windSpeed = 8\<rparr> =
   [\<lparr>act_name = ''skiing'', reasoning = ''ideal temperature, rain not ideal'', suitabilityScore = 62\<rparr>,
    \<lparr>act_name = ''surfing'', reasoning = ''too cold'', suitabilityScore = 14\<rparr>,
    \<lparr>act_name = ''indoor_sightseeing'',
       reasoning = ''too cold, rain makes it more appealing, extreme weather favors indoor activities'',
       suitabilityScore = 45\<rparr>,
    \<lparr>act_name = ''outdoor_sightseeing'', reasoning = ''too cold, rain not ideal'', suitabilityScore = 2\<rparr>]"
  by (simp add: day_activities_eval ACTIVITY_CONFIGS_def score_eval activityRankingService_def)

lemma day_activities_warm_day:
  "day_activities activityRankingService
     \<lparr>date = ''2025-01-01'', maxTemp = 25, minTemp = 20, day_conditions = ''Clear sky'',
      day_precipitation = 0, day_windSpeed = 5\<rparr> =
   [\<lparr>act_name = ''skiing'', reasoning = ''too warm, no rain'', suitabilityScore = 30\<rparr>,
    \<lparr>act_name = ''surfing'', reasoning = ''ideal temperature'', suitabilityScore = 80\<rparr>,
    \<lparr>act_name = ''indoor_sightseeing'', reasoning = ''ideal temperature'', suitabilityScore = 80\<rparr>,
    \<lparr>act_name = ''outdoor_sightseeing'', reasoning = ''ideal temperature, no rain'',
       suitabilityScore = 90\<rparr>]"
  by (simp add: day_activities_eval ACTIVITY_CONFIGS_def score_eval activityRankingService_def)

lemma day_activities_extreme_day:
  "day_activities activityRankingService
     \<lparr>date = ''2025-01-01'', maxTemp = 45, minTemp = 40, day_conditions = ''Thunderstorm'',
      day_precipitation = 50, day_windSpeed = 80\<rparr> =
   [\<lparr>act_name = ''skiing'', reasoning = ''too warm, rain not ideal, windy conditions'', suitabilityScore = 0\<rparr>,
    \<lparr>act_name = ''surfing'', reasoning = ''too warm, good wind conditions'', suitabilityScore = 19\<rparr>,
    \<lparr>act_name = ''indoor_sightseeing'',
       reasoning = ''too warm, rain makes it more appealing, extreme weather favors indoor activities'',
       suitabilityScore = 45\<rparr>,
    \<lparr>act_name = ''outdoor_sightseeing'', reasoning = ''too warm, rain not ideal, windy conditions'',
       suitabilityScore = 0\<rparr>]"
  by (simp add: day_activities_eval ACTIVITY_CONFIGS_def score_eval activityRankingService_def)

lemmas test_day_eval = day_activities_clear_day day_activities_rainy_day day_activities_mild_day
  day_activities_cold_day day_activities_warm_day day_activities_extreme_day

lemmas test_eval = today_def Let_def rank_eval test_day_eval

lemma ranking_test_suite_service: "ranking_test_suite (rankActivitiesForDay activityRankingService)"
proof -
  have "test_top1_by_default (rankActivitiesForDay activityRankingService)"
    by (simp add: test_top1_by_default_def test_eval)
  moreover have "test_all_four (rankActivitiesForDay activityRankingService)"
    by (simp add: test_all_four_def test_eval)
  moreover have "test_sorted (rankActivitiesForDay activityRankingService)"
    by (simp add: test_sorted_def sorted_loop_eq successive_ge_def test_eval)
  moreover have "test_rainy_indoor (rankActivitiesForDay activityRankingService)"
    by (simp add: test_rainy_indoor_def test_eval)
  moreover have "test_cold_skiing (rankActivitiesForDay activityRankingService)"
    by (simp add: test_cold_skiing_def test_eval)
  moreover have "test_top_parameter (rankActivitiesForDay activityRankingService)"
    by (simp add: test_top_parameter_def test_eval)
  moreover have "test_scores_in_range (rankActivitiesForDay activityRankingService)"
    by (simp add: test_scores_in_range_def test_eval)
  moreover have "test_meaningful_reasoning (rankActivitiesForDay activityRankingService)"
    by (simp add: test_meaningful_reasoning_def test_eval)
  ultimately show ?thesis
    by (simp add: ranking_test_suite_def)
qed

lemma ranking_tests_pass:
  "ranking_test_suite (rankActivitiesForDay activityRankingService)
   \<and> ranking_test_suite legacy_rankActivitiesForDay"
  using ranking_test_suite_service by (simp add: legacy_rankActivitiesForDay_fun)

lemma sorted_loop_terminates: "\<exists>b. sorted_loop acts i = Some b"
proof (induction "nat (int (length acts) - 1 - i)" arbitrary: i)
  case 0
  then have "\<not> i < int (length acts) - 1"
    by simp
  then show ?case
    by (subst sorted_loop.simps) auto
next
  case (Suc m)
  then have "m = nat (int (length acts) - 1 - (i + 1))"
    by simp
  then obtain b where "sorted_loop acts (i + 1) = Some b"
    using Suc.hyps(1) by blast
  then show ?case
    by (subst sorted_loop.simps) auto
qed

end
