(* ===== verification/Schema.thy ===== *)
theory Schema
  imports Resolvers
begin

text \<open>
  The GraphQL schema \<open>src/schema.graphql\<close>, the query types that code generation derives
  from it (\<open>Query\<close>, \<open>QuerySearchCitiesArgs\<close>, \<open>QueryGetCityWeatherArgs\<close> of
  \<open>src/unnamed/part_002\<close>), and the \<open>resolvers\<close> object of \<open>src/src/schema/resolvers.ts\<close>
  that serves the two fields of \<open>Query\<close>. The schema is data: every object type with its
  fields and their types. What the GraphQL executor does with a resolver's value is a model
  of the library \<open>graphql\<close>: the value is completed field by field into a response value,
  and it must conform to the field's declared type. A non-null type rejects null, a list
  type completes each item, an object type completes each of its fields, and the scalars
  coerce as \<open>graphql\<close> 16 coerces them: a \<open>Float\<close> is a finite number, an \<open>Int\<close> a
  32-bit integer. The main lemma of this theory is that no successful result of the two
  resolvers is rejected by that check.
\<close>

section \<open>GraphQL types and values\<close>

datatype gql_type = Named string | NonNull gql_type | ListOf gql_type

record FieldDef =
  fd_name :: string
  fd_args :: "(string \<times> gql_type) list"
  fd_type :: gql_type

datatype gql_value =
    GNull
  | GString string
  | GNumber js_number
  | GBool bool
  | GList "gql_value list"
  | GObject "(string \<times> gql_value) list"

section \<open>The schema\<close>

definition fld :: "string \<Rightarrow> gql_type \<Rightarrow> FieldDef" where
  "fld n t = \<lparr>fd_name = n, fd_args = [], fd_type = t\<rparr>"

definition schema :: "(string \<times> FieldDef list) list" where
  "schema =
    [(''Query'',
      [\<lparr>fd_name = ''searchCities'', fd_args = [(''input'', NonNull (Named ''String''))],
        fd_type = NonNull (ListOf (NonNull (Named ''City'')))\<rparr>,
       \<lparr>fd_name = ''getCityWeather'', fd_args = [(''cityId'', NonNull (Named ''String''))],
        fd_type = NonNull (Named ''CityWeather'')\<rparr>]),
     (''City'',
      [fld ''id'' (NonNull (Named ''String'')), fld ''name'' (NonNull (Named ''String'')),
       fld ''country'' (NonNull (Named ''String'')), fld ''latitude'' (NonNull (Named ''Float'')),
       fld ''longitude'' (NonNull (Named ''Float''))]),
     (''Weather'',
      [fld ''temperature'' (NonNull (Named ''Float'')), fld ''conditions'' (NonNull (Named ''String'')),
       fld ''humidity'' (NonNull (Named ''Float'')), fld ''windSpeed'' (NonNull (Named ''Float'')),
       fld ''precipitation'' (NonNull (Named ''Float'')),
       fld ''forecast'' (NonNull (ListOf (NonNull (Named ''DailyForecast''))))]),
     (''DailyForecast'',
      [fld ''date'' (NonNull (Named ''String'')), fld ''maxTemp'' (NonNull (Named ''Float'')),
       fld ''minTemp'' (NonNull (Named ''Float'')), fld ''conditions'' (NonNull (Named ''String'')),
       fld ''precipitation'' (NonNull (Named ''Float'')), fld ''windSpeed'' (NonNull (Named ''Float'')),
       fld ''activities'' (NonNull (ListOf (NonNull (Named ''Activity''))))]),
     (''Activity'',
      [fld ''name'' (NonNull (Named ''String'')), fld ''suitabilityScore'' (NonNull (Named ''Int'')),
       fld ''reasoning'' (NonNull (Named ''String''))]),
     (''CityWeather'',
      [fld ''city'' (NonNull (Named ''City'')), fld ''weather'' (NonNull (Named ''Weather''))])]"

section \<open>Value completion\<close>

definition js_isFinite :: "js_number \<Rightarrow> bool" where
  "js_isFinite x = (case x of JsNum _ \<Rightarrow> True | _ \<Rightarrow> False)"

text \<open>\<open>Number.isInteger\<close> and the range check of \<open>graphql\<close>'s \<open>serializeInt\<close>.\<close>

definition js_isInt32 :: "js_number \<Rightarrow> bool" where
  "js_isInt32 x =
    (case x of JsNum r \<Rightarrow> r = of_int \<lfloor>r\<rfloor> \<and> - (2 ^ 31) \<le> \<lfloor>r\<rfloor> \<and> \<lfloor>r\<rfloor> < 2 ^ 31 | _ \<Rightarrow> False)"

definition scalar_ok :: "string \<Rightarrow> gql_value \<Rightarrow> bool" where
  "scalar_ok n v =
    (if n = ''String'' then (case v of GString _ \<Rightarrow> True | _ \<Rightarrow> False)
     else if n = ''Int'' then (case v of GNumber x \<Rightarrow> js_isInt32 x | _ \<Rightarrow> False)
     else if n = ''Float'' then (case v of GNumber x \<Rightarrow> js_isFinite x | _ \<Rightarrow> False)
     else if n = ''Boolean'' then (case v of GBool _ \<Rightarrow> True | _ \<Rightarrow> False)
     else False)"

fun conforms :: "gql_type \<Rightarrow> gql_value \<Rightarrow> bool"
  and conforms_list :: "gql_type \<Rightarrow> gql_value list \<Rightarrow> bool"
  and conforms_fields :: "FieldDef list \<Rightarrow> (string \<times> gql_value) list \<Rightarrow> bool" where
  "conforms (NonNull t) v \<longleftrightarrow> v \<noteq> GNull \<and> conforms t v"
| "conforms (ListOf t) GNull \<longleftrightarrow> True"
| "conforms (ListOf t) (GList vs) \<longleftrightarrow> conforms_list t vs"
| "conforms (ListOf t) _ \<longleftrightarrow> False"
| "conforms (Named n) GNull \<longleftrightarrow> True"
| "conforms (Named n) (GObject fs) \<longleftrightarrow>
     (case map_of schema n of Some fds \<Rightarrow> conforms_fields fds fs | None \<Rightarrow> False)"
| "conforms (Named n) v \<longleftrightarrow> scalar_ok n v"
| "conforms_list t [] \<longleftrightarrow> True"
| "conforms_list t (v # vs) \<longleftrightarrow> conforms t v \<and> conforms_list t vs"
| "conforms_fields [] [] \<longleftrightarrow> True"
| "conforms_fields (fd # fds) ((n, v) # fs) \<longleftrightarrow>
     n = fd_name fd \<and> conforms (fd_type fd) v \<and> conforms_fields fds fs"
| "conforms_fields _ _ \<longleftrightarrow> False"

section \<open>The response value of each object type\<close>

text \<open>A resolver's value completed with every field of its type selected, in the order the
  schema declares them. JavaScript has one number type: whether a number must be an \<open>Int\<close>
  or may be any \<open>Float\<close> is decided by the field's declared type, when the value is
  coerced.\<close>

definition activity_value :: "Activity \<Rightarrow> gql_value" where
  "activity_value a =
    GObject [(''name'', GString (act_name a)), (''suitabilityScore'', GNumber (JsNum (of_int (suitabilityScore a)))),
             (''reasoning'', GString (reasoning a))]"

definition daily_forecast_value :: "DailyForecast \<Rightarrow> gql_value" where
  "daily_forecast_value d =
    GObject [(''date'', GString (date d)), (''maxTemp'', GNumber (JsNum (maxTemp d))),
             (''minTemp'', GNumber (JsNum (minTemp d))), (''conditions'', GString (day_conditions d)),
             (''precipitation'', GNumber (JsNum (day_precipitation d))),
             (''windSpeed'', GNumber (JsNum (day_windSpeed d))),
             (''activities'', GList (map activity_value (activities d)))]"

definition weather_value :: "Weather \<Rightarrow> gql_value" where
  "weather_value w =
    GObject [(''temperature'', GNumber (JsNum (temperature w))), (''conditions'', GString (conditions w)),
             (''humidity'', GNumber (JsNum (humidity w))), (''windSpeed'', GNumber (JsNum (windSpeed w))),
             (''precipitation'', GNumber (JsNum (precipitation w))),
             (''forecast'', GList (map daily_forecast_value (forecast w)))]"

definition city_value :: "City \<Rightarrow> gql_value" where
  "city_value c =
    GObject [(''id'', GString (city_id c)), (''name'', GString (name c)), (''country'', GString (country c)),
             (''latitude'', GNumber (latitude c)), (''longitude'', GNumber (longitude c))]"

definition city_weather_value :: "CityWeather \<Rightarrow> gql_value" where
  "city_weather_value cw = GObject [(''city'', city_value (city cw)), (''weather'', weather_value (weather cw))]"

section \<open>The Query type and the resolvers object\<close>

record QuerySearchCitiesArgs =
  qsc_input :: string

record QueryGetCityWeatherArgs =
  qgcw_cityId :: string

text \<open>An operation selects one field of \<open>Query\<close> with its arguments; its data is the
  value of that field.\<close>

datatype Query =
    SearchCitiesQuery QuerySearchCitiesArgs
  | GetCityWeatherQuery QueryGetCityWeatherArgs

datatype QueryData =
    SearchCitiesData "City list"
  | GetCityWeatherData CityWeather

definition query_field :: "Query \<Rightarrow> string" where
  "query_field q = (case q of SearchCitiesQuery _ \<Rightarrow> ''searchCities'' | GetCityWeatherQuery _ \<Rightarrow> ''getCityWeather'')"

definition query_data_value :: "QueryData \<Rightarrow> gql_value" where
  "query_data_value d =
    (case d of SearchCitiesData cs \<Rightarrow> GList (map city_value cs)
     | GetCityWeatherData cw \<Rightarrow> city_weather_value cw)"

text \<open>The declared type of the selected field, read from the schema.\<close>

definition query_field_type :: "Query \<Rightarrow> gql_type option" where
  "query_field_type q =
    (case map_of schema ''Query'' of
       None \<Rightarrow> None
     | Some fds \<Rightarrow> map_option fd_type (find (\<lambda>fd. fd_name fd = query_field q) fds))"

text \<open>\<open>axios.get\<close> serves both providers; each resolver reaches it with its own request type.\<close>

record Http =
  geo_get :: "(GeoRequest, GeocodingResponse) http_get"
  forecast_get :: "(ForecastRequest, WeatherResponse) http_get"

datatype Request = GeoReq GeoRequest | ForecastReq ForecastRequest

text \<open>\<open>QueryResolvers\<close> and \<open>Resolvers\<close>: a resolver for each field of \<open>Query\<close>, taking
  the field's arguments (\<open>RequireFields\<close>: both are present). The other object types have
  no resolvers in the code, so GraphQL reads their fields from the parent value, as the
  value functions above do.\<close>

record QueryResolvers =
  getCityWeather_field ::
    "(ForecastRequest, WeatherResponse) http_get \<Rightarrow> QueryGetCityWeatherArgs
     \<Rightarrow> (GraphQLError + CityWeather) \<times> ForecastRequest list"
  searchCities_field ::
    "(GeoRequest, GeocodingResponse) http_get \<Rightarrow> QuerySearchCitiesArgs
     \<Rightarrow> (GraphQLError + City list) \<times> GeoRequest list"

record ResolverMap =
  Query_resolvers :: QueryResolvers

text \<open>\<open>export const resolvers: Resolvers = { Query: { searchCities, getCityWeather } }\<close>;
  each resolver destructures its argument (\<open>{ input }\<close>, \<open>{ cityId }\<close>).\<close>

definition resolvers :: ResolverMap where
  "resolvers =
    \<lparr>Query_resolvers =
       \<lparr>getCityWeather_field = (\<lambda>http args. getCityWeather_resolver http (qgcw_cityId args)),
        searchCities_field = (\<lambda>http args. searchCities_resolver http (qsc_input args))\<rparr>\<rparr>"

text \<open>The executor runs an operation by calling the resolver of the selected field.\<close>

definition execute_query ::
  "ResolverMap \<Rightarrow> Http \<Rightarrow> Query \<Rightarrow> (GraphQLError + QueryData) \<times> Request list" where
  "execute_query rs http q =
    (case q of
       SearchCitiesQuery args \<Rightarrow>
         (let (r, reqs) = searchCities_field (Query_resolvers rs) (geo_get http) args
          in (map_sum id SearchCitiesData r, map GeoReq reqs))
     | GetCityWeatherQuery args \<Rightarrow>
         (let (r, reqs) = getCityWeather_field (Query_resolvers rs) (forecast_get http) args
          in (map_sum id GetCityWeatherData r, map ForecastReq reqs)))"

section \<open>Conformance of the resolvers' results\<close>

lemma conforms_list_iff [simp]: "conforms_list t vs \<longleftrightarrow> list_all (conforms t) vs"
  by (induction vs) simp_all

lemma scalar_ok_simps [simp]:
  "scalar_ok ''String'' (GString s)"
  "scalar_ok ''Int'' (GNumber (JsNum (of_int i))) \<longleftrightarrow> - (2 ^ 31) \<le> i \<and> i < 2 ^ 31"
  "scalar_ok ''Float'' (GNumber x) \<longleftrightarrow> js_isFinite x"
  by (simp_all add: scalar_ok_def js_isInt32_def)

lemma js_isFinite_JsNum [simp]: "js_isFinite (JsNum r)"
  by (simp add: js_isFinite_def)

lemma isValidCoordinate_finite:
  "isValidCoordinate lat lon \<Longrightarrow> js_isFinite lat \<and> js_isFinite lon"
  by (cases lat; cases lon) (simp_all add: isValidCoordinate_def js_isFinite_def)

lemma conforms_object:
  "map_of schema n = Some fds \<Longrightarrow>
   conforms (NonNull (Named n)) (GObject fs) \<longleftrightarrow> conforms_fields fds fs"
  by simp

lemma activity_value_conforms:
  "wf_activity a \<Longrightarrow> conforms (NonNull (Named ''Activity'')) (activity_value a)"
  by (simp add: activity_value_def schema_def fld_def wf_activity_def)

lemma daily_forecast_value_conforms:
  assumes "\<forall>a\<in>set (activities d). wf_activity a"
  shows "conforms (NonNull (Named ''DailyForecast'')) (daily_forecast_value d)"
proof -
  have "list_all (conforms (NonNull (Named ''Activity''))) (map activity_value (activities d))"
    using assms by (auto simp: list_all_iff simp del: conforms.simps intro: activity_value_conforms)
  then show ?thesis
    by (simp add: daily_forecast_value_def schema_def fld_def)
qed

lemma weather_value_conforms:
  assumes "\<forall>d\<in>set (forecast w). \<forall>a\<in>set (activities d). wf_activity a"
  shows "conforms (NonNull (Named ''Weather'')) (weather_value w)"
proof -
  have "list_all (conforms (NonNull (Named ''DailyForecast''))) (map daily_forecast_value (forecast w))"
    using assms by (auto simp: list_all_iff simp del: conforms.simps intro: daily_forecast_value_conforms)
  then show ?thesis
    by (simp add: weather_value_def schema_def fld_def)
qed

lemma city_value_conforms:
  "js_isFinite (latitude c) \<Longrightarrow> js_isFinite (longitude c) \<Longrightarrow>
   conforms (NonNull (Named ''City'')) (city_value c)"
  by (simp add: city_value_def schema_def fld_def)

lemma city_weather_value_conforms:
  assumes "js_isFinite (latitude (city cw))" and "js_isFinite (longitude (city cw))"
    and "\<forall>d\<in>set (forecast (weather cw)). \<forall>a\<in>set (activities d). wf_activity a"
  shows "conforms (NonNull (Named ''CityWeather'')) (city_weather_value cw)"
proof -
  have "conforms (NonNull (Named ''City'')) (city_value (city cw))"
    using assms(1,2) by (rule city_value_conforms)
  moreover have "conforms (NonNull (Named ''Weather'')) (weather_value (weather cw))"
    using assms(3) by (rule weather_value_conforms)
  ultimately show ?thesis
    by (simp add: city_weather_value_def del: conforms.simps(1)) (simp add: schema_def fld_def)
qed

lemma getCityWeather_resolver_Inr:
  "fst (getCityWeather_resolver http cityId) = Inr cw \<Longrightarrow>
   \<exists>w info. fst (getWeatherByCityId openMeteoAPI http cityId) = Inr (w, info)
     \<and> city cw = \<lparr>name = name info, country = country info, latitude = latitude info,
                   longitude = longitude info, city_id = cityId\<rparr>
     \<and> weather cw = w"
  by (cases "fst (getWeatherByCityId openMeteoAPI http cityId)") (auto simp: getCityWeather_resolver_split)

lemma resolvers_search_Inr:
  "fst (execute_query resolvers http (SearchCitiesQuery args)) = Inr d \<Longrightarrow>
   \<exists>cs. fst (searchCities openMeteoAPI (geo_get http) (qsc_input args)) = Inr cs \<and> d = SearchCitiesData cs"
  by (cases "fst (searchCities openMeteoAPI (geo_get http) (qsc_input args))")
    (auto simp: execute_query_def resolvers_def searchCities_resolver_split Let_def)

lemma resolvers_weather_Inr:
  "fst (execute_query resolvers http (GetCityWeatherQuery args)) = Inr d \<Longrightarrow>
   \<exists>cw. fst (getCityWeather_resolver (forecast_get http) (qgcw_cityId args)) = Inr cw \<and> d = GetCityWeatherData cw"
  by (cases "fst (getCityWeather_resolver (forecast_get http) (qgcw_cityId args))")
    (auto simp: execute_query_def resolvers_def Let_def split: prod.splits)

lemma weather_of_response_wf:
  assumes "d \<in> set (forecast (weather_of_response response))" and "a \<in> set (activities d)"
  shows "wf_activity a"
proof -
  obtain i where "d = daily_forecast (daily response) i (time (daily response) ! i)"
    using forecast_set [OF assms(1)] by blast
  then have "a \<in> set (rankActivitiesForDay activityRankingService
               (forecast_day (daily response) i (time (daily response) ! i)) 1)"
    using assms(2) by (simp add: activities_daily_forecast)
  then show ?thesis
    using rank_top1 [of activityRankingService "forecast_day (daily response) i (time (daily response) ! i)"]
    by (auto intro: day_activities_wf)
qed

lemma city_of_result_finite:
  "js_isFinite (latitude (city_of_result r)) \<and> js_isFinite (longitude (city_of_result r))"
  by (simp add: city_of_result_def)

lemma query_field_types:
  "query_field_type (SearchCitiesQuery args) = Some (NonNull (ListOf (NonNull (Named ''City''))))"
  "query_field_type (GetCityWeatherQuery args') = Some (NonNull (Named ''CityWeather''))"
  by (simp_all add: query_field_type_def query_field_def schema_def fld_def)

lemma resolvers_search_fst:
  "fst (execute_query resolvers http (SearchCitiesQuery args)) =
     map_sum id SearchCitiesData (fst (searchCities_resolver (geo_get http) (qsc_input args)))"
  by (simp add: execute_query_def resolvers_def split_def Let_def)


lemma resolvers_conform:
  assumes "fst (execute_query resolvers http q) = Inr d"
  shows "\<exists>T. query_field_type q = Some T \<and> conforms T (query_data_value d)"
proof (cases q)
  case (SearchCitiesQuery args)
  then obtain cs where cs: "fst (searchCities openMeteoAPI (geo_get http) (qsc_input args)) = Inr cs"
    and d: "d = SearchCitiesData cs"
    using assms resolvers_search_Inr by blast
  have "\<forall>c\<in>set cs. conforms (NonNull (Named ''City'')) (city_value c)"
    using searchCities_Inr_city [OF cs] city_of_result_finite city_value_conforms by metis
  then show ?thesis
    using SearchCitiesQuery d by (simp add: query_field_types query_data_value_def list_all_iff)
next
  case (GetCityWeatherQuery args)
  then obtain cw where cw: "fst (getCityWeather_resolver (forecast_get http) (qgcw_cityId args)) = Inr cw"
    and d: "d = GetCityWeatherData cw"
    using assms resolvers_weather_Inr by blast
  then obtain w info where
    r: "fst (getWeatherByCityId openMeteoAPI (forecast_get http) (qgcw_cityId args)) = Inr (w, info)"
    and c: "city cw = \<lparr>name = name info, country = country info, latitude = latitude info,
                      longitude = longitude info, city_id = qgcw_cityId args\<rparr>"
    and ww: "weather cw = w"
    using getCityWeather_resolver_Inr [OF cw] by blast
  obtain response where p: "parseCityId (qgcw_cityId args) = Inr info"
    and w: "w = weather_of_response response"
    using r by (auto simp: getWeatherByCityId_def getWeatherData_def Let_def
        split: sum.splits if_splits prod.splits)
  have "conforms (NonNull (Named ''CityWeather'')) (city_weather_value cw)"
    using city_weather_value_conforms [of cw] isValidCoordinate_finite [OF parseCityId_valid [OF p]]
      weather_of_response_wf [of _ response] c ww w by simp
  then show ?thesis
    using GetCityWeatherQuery d by (simp add: query_field_types query_data_value_def)
qed

end
