(* ===== verification/Codegen.thy ===== *)
theory Codegen
  imports Schema
begin

text \<open>
  The TypeScript that \<open>graphql-codegen\<close> generated from \<open>src/schema.graphql\<close>
  (\<open>src/unnamed/part_002\<close>, \<open>__generated__/resolvers-types.ts\<close>), as data. A
  TypeScript type is the datatype \<open>ts_type\<close>:
  \<^item> \<open>Scalars['X']['output']\<close> (and \<open>['input']\<close>) is \<open>TsScalar\<close>;
  \<^item> a generated object type is \<open>TsRef\<close>;
  \<^item> \<open>Array<T>\<close> is \<open>TsArray\<close>, \<open>Maybe<T>\<close> is \<open>TsMaybe\<close>, and the empty object type
    \<open>{}\<close> is \<open>TsEmpty\<close>;
  \<^item> \<open>ResolversTypes['X']\<close> is \<open>TsResolversType\<close>.
  \<open>ResolverTypeWrapper<T>\<close> (\<open>Promise<T> | T\<close>) is the awaited type \<open>T\<close>, and the
  optional meta-field \<open>__typename\<close> is not a field of the schema. The main lemma is
  that the committed generated code agrees with the schema: each generated type has the
  fields the schema declares, typed as the codegen rules translate them, so no field was
  added, dropped or retyped since the code was last generated. The generic resolver
  function types, and the subscription and directive types, have no instance in the
  program and are not modelled.
\<close>

datatype ts_prim = TsString | TsNumber | TsBoolean

datatype ts_type =
    TsScalar string
  | TsRef string
  | TsArray ts_type
  | TsMaybe ts_type
  | TsEmpty
  | TsResolversType string

section \<open>The generated declarations\<close>

text \<open>\<open>Scalars\<close>: each built-in scalar with its input and its output representation.\<close>

definition Scalars :: "(string \<times> ts_prim \<times> ts_prim) list" where
  "Scalars =
    [(''ID'', TsString, TsString), (''String'', TsString, TsString), (''Boolean'', TsBoolean, TsBoolean),
     (''Int'', TsNumber, TsNumber), (''Float'', TsNumber, TsNumber)]"

text \<open>The object types \<open>Activity\<close>, \<open>City\<close>, \<open>CityWeather\<close>, \<open>DailyForecast\<close>, \<open>Query\<close>
  and \<open>Weather\<close>, with their fields in the generated (alphabetical) order.\<close>

definition generated_types :: "(string \<times> (string \<times> ts_type) list) list" where
  "generated_types =
    [(''Activity'', [(''name'', TsScalar ''String''), (''reasoning'', TsScalar ''String''),
                     (''suitabilityScore'', TsScalar ''Int'')]),
     (''City'', [(''country'', TsScalar ''String''), (''id'', TsScalar ''String''),
                 (''latitude'', TsScalar ''Float''), (''longitude'', TsScalar ''Float''),
                 (''name'', TsScalar ''String'')]),
     (''CityWeather'', [(''city'', TsRef ''City''), (''weather'', TsRef ''Weather'')]),
     (''DailyForecast'', [(''activities'', TsArray (TsRef ''Activity'')), (''conditions'', TsScalar ''String''),
                          (''date'', TsScalar ''String''), (''maxTemp'', TsScalar ''Float''),
                          (''minTemp'', TsScalar ''Float''), (''precipitation'', TsScalar ''Float''),
                          (''windSpeed'', TsScalar ''Float'')]),
     (''Query'', [(''getCityWeather'', TsRef ''CityWeather''), (''searchCities'', TsArray (TsRef ''City''))]),
     (''Weather'', [(''conditions'', TsScalar ''String''), (''forecast'', TsArray (TsRef ''DailyForecast'')),
                    (''humidity'', TsScalar ''Float''), (''precipitation'', TsScalar ''Float''),
                    (''temperature'', TsScalar ''Float''), (''windSpeed'', TsScalar ''Float'')])]"

text \<open>\<open>QueryGetCityWeatherArgs\<close> and \<open>QuerySearchCitiesArgs\<close>, by the field they belong to.\<close>

definition generated_args :: "(string \<times> (string \<times> ts_type) list) list" where
  "generated_args =
    [(''getCityWeather'', [(''cityId'', TsScalar ''String'')]),
     (''searchCities'', [(''input'', TsScalar ''String'')])]"

definition ResolversTypes :: "(string \<times> ts_type) list" where
  "ResolversTypes =
    [(''Activity'', TsRef ''Activity''), (''Boolean'', TsScalar ''Boolean''), (''City'', TsRef ''City''),
     (''CityWeather'', TsRef ''CityWeather''), (''DailyForecast'', TsRef ''DailyForecast''),
     (''Float'', TsScalar ''Float''), (''Int'', TsScalar ''Int''), (''Query'', TsEmpty),
     (''String'', TsScalar ''String''), (''Weather'', TsRef ''Weather'')]"

definition ResolversParentTypes :: "(string \<times> ts_type) list" where
  "ResolversParentTypes =
    [(''Activity'', TsRef ''Activity''), (''Boolean'', TsScalar ''Boolean''), (''City'', TsRef ''City''),
     (''CityWeather'', TsRef ''CityWeather''), (''DailyForecast'', TsRef ''DailyForecast''),
     (''Float'', TsScalar ''Float''), (''Int'', TsScalar ''Int''), (''Query'', TsEmpty),
     (''String'', TsScalar ''String''), (''Weather'', TsRef ''Weather'')]"

text \<open>\<open>ActivityResolvers\<close>, \<open>CityResolvers\<close>, \<open>CityWeatherResolvers\<close>,
  \<open>DailyForecastResolvers\<close>, \<open>QueryResolvers\<close>, \<open>WeatherResolvers\<close>: the result type of
  each field resolver.\<close>

definition type_resolvers :: "(string \<times> (string \<times> ts_type) list) list" where
  "type_resolvers =
    [(''Activity'', [(''name'', TsResolversType ''String''), (''reasoning'', TsResolversType ''String''),
                     (''suitabilityScore'', TsResolversType ''Int'')]),
     (''City'', [(''country'', TsResolversType ''String''), (''id'', TsResolversType ''String''),
                 (''latitude'', TsResolversType ''Float''), (''longitude'', TsResolversType ''Float''),
                 (''name'', TsResolversType ''String'')]),
     (''CityWeather'', [(''city'', TsResolversType ''City''), (''weather'', TsResolversType ''Weather'')]),
     (''DailyForecast'', [(''activities'', TsArray (TsResolversType ''Activity'')),
                          (''conditions'', TsResolversType ''String''), (''date'', TsResolversType ''String''),
                          (''maxTemp'', TsResolversType ''Float''), (''minTemp'', TsResolversType ''Float''),
                          (''precipitation'', TsResolversType ''Float''),
                          (''windSpeed'', TsResolversType ''Float'')]),
     (''Query'', [(''getCityWeather'', TsResolversType ''CityWeather''),
                  (''searchCities'', TsArray (TsResolversType ''City''))]),
     (''Weather'', [(''conditions'', TsResolversType ''String''),
                    (''forecast'', TsArray (TsResolversType ''DailyForecast'')),
                    (''humidity'', TsResolversType ''Float''), (''precipitation'', TsResolversType ''Float''),
                    (''temperature'', TsResolversType ''Float''), (''windSpeed'', TsResolversType ''Float'')])]"

text \<open>\<open>Resolvers\<close>: the types that may have resolvers.\<close>

definition Resolvers_types :: "string list" where
  "Resolvers_types = [''Activity'', ''City'', ''CityWeather'', ''DailyForecast'', ''Query'', ''Weather'']"

section \<open>The codegen translation\<close>

text \<open>How the \<open>typescript\<close> plugin types a field. A non-null type is its inner type and a
  nullable one is \<open>Maybe\<close> of it. A list is an \<open>Array\<close>, a built-in scalar is read from
  \<open>Scalars\<close>, and any other named type is the generated type of that name. The
  \<open>typescript-resolvers\<close> plugin translates in the same way, with \<open>ResolversTypes\<close> in
  place of both.\<close>

fun ts_of :: "gql_type \<Rightarrow> ts_type"
  and ts_nonnull :: "gql_type \<Rightarrow> ts_type" where
  "ts_of (NonNull t) = ts_nonnull t"
| "ts_of t = TsMaybe (ts_nonnull t)"
| "ts_nonnull (NonNull t) = ts_nonnull t"
| "ts_nonnull (ListOf t) = TsArray (ts_of t)"
| "ts_nonnull (Named n) = (if map_of Scalars n = None then TsRef n else TsScalar n)"

fun ts_res :: "gql_type \<Rightarrow> ts_type"
  and ts_res_nonnull :: "gql_type \<Rightarrow> ts_type" where
  "ts_res (NonNull t) = ts_res_nonnull t"
| "ts_res t = TsMaybe (ts_res_nonnull t)"
| "ts_res_nonnull (NonNull t) = ts_res_nonnull t"
| "ts_res_nonnull (ListOf t) = TsArray (ts_res t)"
| "ts_res_nonnull (Named n) = TsResolversType n"

text \<open>Two field lists agree when they hold the same typed fields, in any order.\<close>

definition same_fields :: "(string \<times> 'a) list \<Rightarrow> (string \<times> 'a) list \<Rightarrow> bool" where
  "same_fields xs ys \<longleftrightarrow>
     distinct (map fst xs) \<and> length xs = length ys \<and> list_all (\<lambda>p. p \<in> set ys) xs"

definition schema_fields :: "(gql_type \<Rightarrow> ts_type) \<Rightarrow> FieldDef list \<Rightarrow> (string \<times> ts_type) list" where
  "schema_fields tr fds = map (\<lambda>fd. (fd_name fd, tr (fd_type fd))) fds"

text \<open>The type \<open>ResolversTypes\<close> gives a name: a built-in scalar, the empty object for
  the root \<open>Query\<close>, and the generated type otherwise.\<close>

definition resolvers_type_of :: "string \<Rightarrow> ts_type" where
  "resolvers_type_of n =
    (if map_of Scalars n \<noteq> None then TsScalar n else if n = ''Query'' then TsEmpty else TsRef n)"

fun base_name :: "gql_type \<Rightarrow> string" where
  "base_name (NonNull t) = base_name t"
| "base_name (ListOf t) = base_name t"
| "base_name (Named n) = n"

text \<open>The scalars \<open>ResolversTypes\<close> lists: those the schema's fields and arguments use,
  and \<open>Boolean\<close> and \<open>String\<close>, which the plugin always emits.\<close>

definition codegen_scalars :: "string list" where
  "codegen_scalars =
    remdups (filter (\<lambda>n. map_of Scalars n \<noteq> None)
      (concat (map (\<lambda>(_, fds). map (base_name \<circ> fd_type) fds
                                @ concat (map (map (base_name \<circ> snd) \<circ> fd_args) fds)) schema))
     @ [''Boolean'', ''String''])"

definition codegen_consistent :: bool where
  "codegen_consistent \<longleftrightarrow>
     list_all (\<lambda>(n, fds).
         (case map_of generated_types n of
            Some gfs \<Rightarrow> same_fields gfs (schema_fields ts_of fds) | None \<Rightarrow> False)
       \<and> (case map_of type_resolvers n of
            Some rfs \<Rightarrow> same_fields rfs (schema_fields ts_res fds) | None \<Rightarrow> False)
       \<and> n \<in> set Resolvers_types) schema
   \<and> distinct (map fst generated_types) \<and> length generated_types = length schema
   \<and> distinct (map fst type_resolvers) \<and> length type_resolvers = length schema
   \<and> distinct Resolvers_types \<and> length Resolvers_types = length schema
   \<and> (case map_of schema ''Query'' of
        Some qfs \<Rightarrow> list_all (\<lambda>fd. map_of generated_args (fd_name fd) =
                                   Some (map (\<lambda>(a, t). (a, ts_of t)) (fd_args fd))) qfs
                    \<and> length generated_args = length qfs
      | None \<Rightarrow> False)
   \<and> same_fields ResolversTypes (map (\<lambda>n. (n, resolvers_type_of n)) (map fst schema @ codegen_scalars))
   \<and> ResolversParentTypes = ResolversTypes"

section \<open>Agreement with the schema\<close>

lemma codegen_matches_schema: "codegen_consistent"
  by (simp add: codegen_consistent_def schema_def fld_def generated_types_def type_resolvers_def
      Resolvers_types_def generated_args_def ResolversTypes_def ResolversParentTypes_def same_fields_def
      schema_fields_def resolvers_type_of_def codegen_scalars_def Scalars_def)

end
