(* ===== verification/Singleton.thy ===== *)
theory Singleton
  imports OpenMeteoAPI
begin

text \<open>
  The singleton pattern both service classes use: \<open>ActivityRankingService.getInstance\<close>
  (\<open>src/unnamed/part_000\<close>) and \<open>OpenMeteoAPI.getInstance\<close> (\<open>src/unnamed/part_001\<close>),
  each reached by a module-level \<open>getInstance()\<close> call (\<open>export const openMeteoAPI\<close>).
  Object identity matters here, so the model has an explicit store. Objects of the class
  live at addresses, \<open>new\<close> allocates the next fresh address, and the static field
  \<open>instance\<close> holds an address or nothing. The constructor takes no arguments and
  initialises only read-only fields, so every object it builds is the same record \<open>ctor\<close>
  (\<open>activityRankingService\<close>, \<open>openMeteoAPI\<close>). The store may grow by other \<open>new\<close>
  calls too, as the test suite's \<open>new ActivityRankingService()\<close> does. The step relation
  \<open>reachable\<close> covers both kinds of step; its invariant shows that every call of
  \<open>getInstance\<close> returns the same object, built by the constructor. This is why the
  other theories may use the instance as a constant.
\<close>

record 'o class_state =
  next_addr :: nat
  objects :: "(nat \<times> 'o) list"
  static_instance :: "nat option"

definition initial_state :: "'o class_state" where
  "initial_state = \<lparr>next_addr = 0, objects = [], static_instance = None\<rparr>"

text \<open>\<open>new C()\<close>: a fresh address holding the constructed object.\<close>

definition new_object :: "'o \<Rightarrow> 'o class_state \<Rightarrow> nat \<times> 'o class_state" where
  "new_object ctor s =
    (next_addr s, s\<lparr>next_addr := Suc (next_addr s), objects := objects s @ [(next_addr s, ctor)]\<rparr>)"

definition getInstance :: "'o \<Rightarrow> 'o class_state \<Rightarrow> nat \<times> 'o class_state" where
  "getInstance ctor s =
    (case static_instance s of
       None \<Rightarrow> (let (a, s') = new_object ctor s in (a, s'\<lparr>static_instance := Some a\<rparr>))
     | Some a \<Rightarrow> (a, s))"

text \<open>The object at an address: the store is an association list, read by \<open>map_of\<close>.\<close>

definition deref :: "'o class_state \<Rightarrow> nat \<Rightarrow> 'o option" where
  "deref s a = map_of (objects s) a"

inductive reachable :: "'o \<Rightarrow> 'o class_state \<Rightarrow> bool" for ctor :: 'o where
  init: "reachable ctor initial_state"
| get: "reachable ctor s \<Longrightarrow> reachable ctor (snd (getInstance ctor s))"
| new: "reachable ctor s \<Longrightarrow> reachable ctor (snd (new_object ctor s))"

text \<open>Every address in the store is below the next fresh one, and the static field, when
  set, names an object of the store built by the constructor.\<close>

definition singleton_inv :: "'o \<Rightarrow> 'o class_state \<Rightarrow> bool" where
  "singleton_inv ctor s \<longleftrightarrow>
     list_all (\<lambda>(a, _). a < next_addr s) (objects s)
     \<and> (case static_instance s of None \<Rightarrow> True | Some a \<Rightarrow> deref s a = Some ctor)"

text \<open>The module-level call \<open>export const openMeteoAPI = OpenMeteoAPI.getInstance()\<close>.\<close>

definition module_instance :: "'o \<Rightarrow> nat \<times> 'o class_state" where
  "module_instance ctor = getInstance ctor initial_state"

text \<open>The three classes with this \<open>getInstance\<close>. \<open>OpenMeteoAPI\<close> and
  \<open>ActivityRankingService\<close> of \<open>part_000\<close> construct their read-only field records. The
  legacy \<open>ActivityRankingService\<close> of \<open>activityRanking.ts\<close> declares no instance field, so
  all its objects are alike, the unit value.\<close>

definition ActivityRankingService_getInstance ::
  "ActivityRankingService class_state \<Rightarrow> nat \<times> ActivityRankingService class_state" where
  "ActivityRankingService_getInstance = getInstance activityRankingService"

definition legacy_getInstance :: "unit class_state \<Rightarrow> nat \<times> unit class_state" where
  "legacy_getInstance = getInstance ()"

text \<open>\<open>export const activityRankingService = ActivityRankingService.getInstance()\<close>, in
  \<open>part_000\<close> and in \<open>activityRanking.ts\<close>.\<close>

definition activityRankingService_export :: "nat \<times> ActivityRankingService class_state" where
  "activityRankingService_export = module_instance activityRankingService"

definition legacy_activityRankingService_export :: "nat \<times> unit class_state" where
  "legacy_activityRankingService_export = module_instance ()"

section \<open>The invariant\<close>

lemma map_of_fresh: "list_all (\<lambda>(a, _). a < (n::nat)) xs \<Longrightarrow> map_of xs n = None"
  by (induction xs) auto

lemma map_of_append_fresh:
  "list_all (\<lambda>(a, _). a < (n::nat)) xs \<Longrightarrow> map_of (xs @ [(n, v)]) a = (if a = n then Some v else map_of xs a)"
  using map_of_fresh [of n xs] by (auto simp: map_add_def split: option.split)

lemma singleton_inv_init: "singleton_inv ctor initial_state"
  by (simp add: singleton_inv_def initial_state_def)

lemma singleton_inv_new:
  "singleton_inv ctor s \<Longrightarrow> singleton_inv ctor (snd (new_object ctor s))"
  by (auto simp: singleton_inv_def new_object_def deref_def map_of_append_fresh list_all_iff
      simp del: map_of_append split: option.splits)

lemma singleton_inv_get:
  "singleton_inv ctor s \<Longrightarrow> singleton_inv ctor (snd (getInstance ctor s))"
  by (auto simp: singleton_inv_def getInstance_def new_object_def deref_def map_of_append_fresh
      list_all_iff simp del: map_of_append split: option.splits)

lemma reachable_inv: "reachable ctor s \<Longrightarrow> singleton_inv ctor s"
  by (induction rule: reachable.induct) (auto intro: singleton_inv_init singleton_inv_new singleton_inv_get)

text \<open>C30: From any reachable state of the store, getInstance returns an object built by the constructor, sets the static field to it, and every later call returns that same address without allocating, so all callers share one instance.\<close>

theorem getInstance_singleton:
  assumes "reachable ctor s" and "getInstance ctor s = (a, s')"
  shows "deref s' a = Some ctor \<and> static_instance s' = Some a \<and> getInstance ctor s' = (a, s')
         \<and> reachable ctor s'"
proof -
  have inv: "singleton_inv ctor s'"
    using reachable_inv [OF reachable.get [OF assms(1)]] assms(2) by simp
  have st: "static_instance s' = Some a"
    using assms(2) by (auto simp: getInstance_def new_object_def split: option.splits)
  then have "deref s' a = Some ctor"
    using inv by (simp add: singleton_inv_def)
  moreover have "getInstance ctor s' = (a, s')"
    using st by (simp add: getInstance_def)
  moreover have "reachable ctor s'"
    using reachable.get [OF assms(1)] assms(2) by simp
  ultimately show ?thesis
    using st by blast
qed

lemma service_exports:
  "activityRankingService_export = (0, \<lparr>next_addr = 1, objects = [(0, activityRankingService)], static_instance = Some 0\<rparr>)"
  "legacy_activityRankingService_export = (0, \<lparr>next_addr = 1, objects = [(0, ())], static_instance = Some 0\<rparr>)"
  "ActivityRankingService_getInstance (snd activityRankingService_export) = activityRankingService_export"
  by (simp_all add: activityRankingService_export_def legacy_activityRankingService_export_def
      ActivityRankingService_getInstance_def module_instance_def getInstance_def new_object_def initial_state_def)

theorem getInstance_singleton_witness:
  "module_instance openMeteoAPI =
     (0, \<lparr>next_addr = 1, objects = [(0, openMeteoAPI)], static_instance = Some 0\<rparr>)
   \<and> deref \<lparr>next_addr = 1, objects = [(0, openMeteoAPI)], static_instance = Some 0\<rparr> 0 = Some openMeteoAPI
   \<and> getInstance openMeteoAPI \<lparr>next_addr = 1, objects = [(0, openMeteoAPI)], static_instance = Some 0\<rparr> =
       (0, \<lparr>next_addr = 1, objects = [(0, openMeteoAPI)], static_instance = Some 0\<rparr>)"
proof -
  have r: "reachable openMeteoAPI initial_state"
    by (rule reachable.init)
  have g: "getInstance openMeteoAPI initial_state =
     (0, \<lparr>next_addr = 1, objects = [(0, openMeteoAPI)], static_instance = Some 0\<rparr>)"
    by (simp add: getInstance_def new_object_def initial_state_def)
  show ?thesis
    using getInstance_singleton [OF r g] g by (simp add: module_instance_def)
qed

end
