(* ===== verification/Spec2Isabelle.thy ===== *)
theory Spec2Isabelle
  imports ApiTests RankingTests Codegen Singleton
begin

text \<open>
  \<^bold>\<open>A verification development of travel-planner-api.\<close>
  The program is a GraphQL API (TypeScript) that searches cities through the Open-Meteo
  geocoding service, fetches a seven-day forecast through the Open-Meteo forecast service,
  and ranks four activities (skiing, surfing, indoor and outdoor sightseeing) for every
  forecast day. Its parts, and how they interact:
  \<^item> the GraphQL resolvers \<open>searchCities\<close> and \<open>getCityWeather\<close>
    (\<open>src/src/schema/resolvers.ts\<close>) call the adapter and turn its failures into
    \<open>GraphQLError\<close>s;
  \<^item> the Open-Meteo adapter, class \<open>OpenMeteoAPI\<close> (\<open>src/unnamed/part_001\<close>): \<open>searchCities\<close>
    issues the geocoding request, keeps populated places and gives every city the rich
    identifier \<open>lat,lon:name:country\<close>; \<open>getWeatherByCityId\<close> decodes such an identifier
    (\<open>parseCityId\<close>), \<open>getWeatherData\<close> checks the coordinates, issues the forecast request
    and summarises each day, ranking its activities with top 1;
  \<^item> the scoring engine \<open>ActivityRankingService\<close> (\<open>src/unnamed/part_000\<close>) scores each
    profile of the table \<open>ACTIVITY_CONFIGS\<close> (\<open>src/src/utils/constants.ts\<close>) against the day
    and sorts the scores;
  \<^item> the data types of the GraphQL schema (\<open>src/unnamed/part_002\<close>, generated code).

  \<^bold>\<open>Theories.\<close>
  \<^item> \<open>Prelude\<close>: the JavaScript built-ins the code relies on, as HOL functions:
    \<open>String.prototype.split\<close>, \<open>Array.prototype.join\<close>, \<open>trim\<close>, \<open>includes\<close>,
    \<open>Math.round\<close>, \<open>Array.prototype.slice\<close> (negative bounds included) and
    \<open>Array.prototype.sort\<close> as a stable insertion sort by the comparator's sign; the lemmas
    split/join round trip, and the sort equals the library's \<open>Sorting_Algorithms.sort\<close> for
    every comparator that agrees with a library comparator.
  \<^item> \<open>Constants\<close>: \<open>WEATHER_CODES\<close>, \<open>ERROR_CODES\<close>, \<open>ERROR_CODES_MAP\<close>, \<open>ActivityConfig\<close>
    and \<open>ACTIVITY_CONFIGS\<close>, the current (second) copy of the tables in \<open>constants.ts\<close>, and
    the older first copy of the same tables (\<open>_v1\<close>). Lemmas: the two copies are equal, and
    \<open>ERROR_CODES\<close> is well-formed (every code named by its own value, under one kind).
  \<^item> \<open>ActivityRanking\<close>: the service's constants as a record and its instance,
    \<open>scoreActivity\<close> as four stages on (score, reasons) run in the source's order,
    \<open>rankActivitiesForDay\<close> as score, sort, slice; scores are exact reals until
    \<open>Math.round\<close>. Lemmas: bounds of the clamp, order and length of the ranking, stability,
    the best activity first, the reasoning text, the two days of the ranking tests, and the
    upper bound 90 of every shipped profile, proved stage by stage (each stage adds at most a
    fixed amount; the indoor bonus excludes the temperature bonus). \<open>wf_activity\<close> is the
    shape the GraphQL type \<open>Activity\<close> promises.
  \<^item> \<open>JsNumber\<close>: JavaScript numbers (a real, the two infinities, NaN), the decimal literal a
    JSON payload carries, \<open>Number::toString\<close> (ECMA-262 steps 6 to 10 on the literal's
    shortest digits) and \<open>parseFloat\<close> (whitespace, sign, Infinity, longest numeric prefix);
    the round trip \<open>parseFloat (toString d) = d\<close> holds exactly for every literal.
  \<^item> \<open>ApiTypes\<close>: the provider payloads, the adapter's error class, the requests, the GraphQL
    output records; the HTTP collaborator \<open>axios.get\<close> is a parameter of type
    \<open>'req \<Rightarrow> thrown + 'resp\<close>.
  \<^item> \<open>CityId\<close>: the identifier template, \<open>parseCityId\<close> and \<open>isValidCoordinate\<close>, with the
    round trip of an identifier and the behaviour on malformed ones.
  \<^item> \<open>OpenMeteoAPI\<close>: the adapter's methods. Each returns its outcome (the
    \<open>OpenMeteoAPIError\<close> thrown, \<open>Inl\<close>, or the value, \<open>Inr\<close>) with the list of requests it
    issued, so that guards are shown to run before the network is touched. Lemmas: input
    guards, the request sent, the populated-place filter, error classification, the forecast
    days, their best activity and the well-formedness of every activity returned, and the
    London scenarios that the test suites reuse.
  \<^item> \<open>ActivityRankingLegacy\<close>: the earlier engine \<open>src/src/utils/activityRanking.ts\<close> with
    inline literals, translated as written, and its equivalence with \<open>ActivityRanking\<close>.
  \<^item> \<open>Resolvers\<close>: the two resolvers and their catch blocks; the codes that reach a client.
  \<^item> \<open>Schema\<close>: \<open>src/schema.graphql\<close> as data, the \<open>Query\<close> types of the generated
    code, the \<open>resolvers\<close> object of \<open>resolvers.ts\<close> as a value of the generated
    \<open>Resolvers\<close> type, and the executor's dispatch of an operation to its field resolver. The GraphQL type check of a result is modelled after the \<open>graphql\<close> library:
    non-null, lists, objects field by field, a finite \<open>Float\<close> and a 32-bit \<open>Int\<close>.
    A lemma shows that every successful result of either resolver conforms to its field's
    declared type, for forecast responses whose daily arrays have equal lengths. It needs the coordinate check of \<open>parseCityId\<close> (no NaN or infinity reaches a
    \<open>Float\<close>) and the score clamp (every score fits an \<open>Int\<close>).
  \<^item> \<open>Singleton\<close>: the \<open>getInstance\<close> methods of the three service classes (\<open>OpenMeteoAPI\<close>
    and both \<open>ActivityRankingService\<close>s), and their module-level exports, over an explicit
    object store, with the reachable states as an inductive step relation. Theorem, by rule
    induction: every call returns the one object the constructor built. This is why
    \<open>openMeteoAPI\<close> and \<open>activityRankingService\<close> are constants elsewhere.
  \<^item> \<open>Codegen\<close>: the declarations \<open>graphql-codegen\<close> generated in \<open>part_002\<close> as data:
    \<open>Scalars\<close>, the object and argument types, \<open>ResolversTypes\<close>,
    \<open>ResolversParentTypes\<close>, the per-type resolver signatures and \<open>Resolvers\<close>. The codegen
    translation of a schema type is a function. A lemma checks that the committed code agrees
    with \<open>schema.graphql\<close>, so it is not stale.
  \<^item> \<open>RankingTests\<close>: the test suite \<open>describe('ActivityRankingService')\<close> that forms the
    third part of \<open>constants.ts\<close>. Each \<open>it\<close> block is a bool-valued definition over the
    ranking method under test, and the suite is proved to pass for both engines. The
    sorting test's \<open>for\<close> loop is a \<open>partial_function (option)\<close> over its
    JavaScript counter. Lemmas show that it returns on every array and computes the
    reference property "each score is at least the next".
  \<^item> \<open>ApiTests\<close>: the two suites of \<open>src/src/__tests__/openMeteoAPI.test.ts\<close>, ten adapter
    tests and ten resolver integration tests. Each \<open>it\<close> block is a definition; the jest
    mocks of \<open>axios.get\<close> are constant HTTP functions, and Apollo's \<open>executeOperation\<close>
    is the resolver called on the operation's variable. Both suites are proved to pass.
    The proofs evaluate the model by \<open>simp\<close>: each fixture day is ranked once, and each
    test then reads its result.
  \<^item> this theory: the properties that span the pipeline, from a search result to its weather.

  \<^bold>\<open>Modelling choices.\<close> Asynchrony is sequential composition: each method awaits at most
  one request, and a rejected promise is the \<open>Inl\<close> value the collaborator returns. Loops
  are \<open>map\<close>, \<open>filter\<close> and structural recursion, so no fuel is needed and every
  definition is total and executable. The one counted loop, the \<open>for\<close> loop of the sorting
  test, is modelled with its integer counter, and a lemma shows that it terminates. No
  operation waits on another or runs concurrently, so the development has no liveness
  claim. A coordinate of a geocoding result is the decimal
  literal of the JSON payload; the number the program computes with is its exact value,
  which is what \<open>JSON.parse\<close> yields for literals of at most 15 significant digits, as the
  provider sends. The daily arrays of a forecast response are read by index with
  \<open>!\<close>, which agrees with the code whenever every daily array is at least as long as
  \<open>time\<close>, as the provider sends them. The code does not check this: past the end of an
  array JavaScript reads \<open>undefined\<close>, and the day gets a NaN score, while HOL's
  \<open>!\<close> yields an unspecified number. The forecast theorems (\<open>getWeatherData_forecast\<close>,
  \<open>getWeatherData_best_activity\<close>, \<open>getWeatherData_activities_wf\<close>) and the conformance
  lemma of \<open>Schema\<close> therefore describe responses whose daily arrays have equal lengths.

  \<^bold>\<open>Not modelled.\<close> Logging; the Apollo server and schema loading (not among the sources);
  the generic helper types of the generated code (\<open>Maybe\<close>, \<open>Exact\<close>, \<open>MakeOptional\<close>,
  \<open>ResolverFn\<close>, the subscription, directive and type-resolution function types), which are
  type-level plumbing with no instance in the program. Of the
  test suites, only the harness is left out: jest's mock bookkeeping, and Apollo's parsing and
  execution of the operation text. A selection set only projects fields the tests then read.\<close>

section \<open>From a search result to its weather\<close>

text \<open>C1: End to end: a city returned by the searchCities resolver, whose name and country have no colon and whose coordinates are valid, passed back by its identifier to getCityWeather, gets weather for exactly its own coordinates and is returned unchanged.\<close>

theorem search_then_weather:
  assumes "fst (searchCities_resolver http1 query) = Inr cities" and "c \<in> set cities"
    and "CHR '':'' \<notin> set (name c)" and "CHR '':'' \<notin> set (country c)"
    and "isValidCoordinate (latitude c) (longitude c)"
    and "http2 (forecast_request openMeteoAPI (latitude c) (longitude c)) = Inr response"
  shows "getCityWeather_resolver http2 (city_id c) =
           (Inr \<lparr>city = c, weather = weather_of_response response\<rparr>,
            [forecast_request openMeteoAPI (latitude c) (longitude c)])"
proof -
  obtain r where c: "c = city_of_result r"
    using searchCities_Inr_city [OF searchCities_resolver_Inr [OF assms(1)] assms(2)] by blast
  have p: "parseCityId (city_id c) =
      Inr \<lparr>name = name c, country = country c, latitude = latitude c, longitude = longitude c\<rparr>"
    using city_of_result_roundtrip [of r] assms(3-5) by (simp add: c)
  show ?thesis
    using assms(6) unfolding getCityWeather_resolver_split getWeatherByCityId_parsed [OF p]
    by (simp add: c city_of_result_def)
qed

text \<open>C18: End to end: a city returned by the searchCities resolver whose name or country contains a colon cannot be looked up: getCityWeather rejects its own identifier with the invalid-format error and sends no request.\<close>

theorem search_colon_name:
  assumes "fst (searchCities_resolver http1 query) = Inr cities" and "c \<in> set cities"
    and "CHR '':'' \<in> set (name c) \<or> CHR '':'' \<in> set (country c)"
  shows "getCityWeather_resolver http2 (city_id c) =
           (Inl \<lparr>gql_message = err_message invalid_id_format_error, gql_code = Some INVALID_COORDINATES,
                 gql_service = Some ''OpenMeteo Weather API''\<rparr>, [])"
proof -
  obtain r where c: "c = city_of_result r"
    using searchCities_Inr_city [OF searchCities_resolver_Inr [OF assms(1)] assms(2)] by blast
  have "parseCityId (city_id c) = Inl invalid_id_format_error"
    using city_of_result_colon [of r] assms(3) by (simp add: c)
  then show ?thesis
    by (simp add: getCityWeather_resolver_split getWeatherByCityId_def getCityWeather_catch_def
        invalid_id_format_error_def)
qed

subsection \<open>Witnesses\<close>

theorem search_then_weather_witness:
  "fst (searchCities_resolver (\<lambda>_. Inr cape_town_search) ''Cape'') =
     Inr [city_of_result (hd (the (results cape_town_search)))]
   \<and> CHR '':'' \<notin> set (name (city_of_result (hd (the (results cape_town_search)))))
   \<and> CHR '':'' \<notin> set (country (city_of_result (hd (the (results cape_town_search)))))
   \<and> isValidCoordinate (latitude (city_of_result (hd (the (results cape_town_search)))))
       (longitude (city_of_result (hd (the (results cape_town_search)))))
   \<and> getCityWeather_resolver (\<lambda>_. Inr (test_weather_response 0 61 3))
       (city_id (city_of_result (hd (the (results cape_town_search))))) =
       (Inr \<lparr>city = city_of_result (hd (the (results cape_town_search))),
             weather = weather_of_response (test_weather_response 0 61 3)\<rparr>,
        [forecast_request openMeteoAPI (latitude (city_of_result (hd (the (results cape_town_search)))))
           (longitude (city_of_result (hd (the (results cape_town_search)))))])"
proof -
  let ?c = "city_of_result (hd (the (results cape_town_search)))"
  have n: "CHR '':'' \<notin> set (name ?c)" "CHR '':'' \<notin> set (country ?c)"
    by (simp_all add: cape_town_search_def test_geocoding_result_def city_of_result_def)
  have v: "isValidCoordinate (latitude ?c) (longitude ?c)"
    by (simp add: cape_town_search_def test_geocoding_result_def city_of_result_def isValidCoordinate_def)
  show ?thesis
    using cape_town_found n v
      search_then_weather [OF cape_town_found, of ?c "\<lambda>_. Inr (test_weather_response 0 61 3)"
        "test_weather_response 0 61 3"]
    by simp
qed

theorem search_colon_name_witness:
  "fst (searchCities_resolver (\<lambda>_. Inr \<lparr>results = Some [test_geocoding_result ''Foo:Bar'' (Decimal 1 0)
          (Decimal 2 0) ''X'' ''PPL''], generationtime_ms = 0\<rparr>) ''Foo'') =
     Inr [city_of_result (test_geocoding_result ''Foo:Bar'' (Decimal 1 0) (Decimal 2 0) ''X'' ''PPL'')]
   \<and> CHR '':'' \<in> set (name (city_of_result (test_geocoding_result ''Foo:Bar'' (Decimal 1 0) (Decimal 2 0) ''X'' ''PPL'')))
   \<and> getCityWeather_resolver (\<lambda>_. Inl timeout_error)
       (city_id (city_of_result (test_geocoding_result ''Foo:Bar'' (Decimal 1 0) (Decimal 2 0) ''X'' ''PPL''))) =
       (Inl \<lparr>gql_message = err_message invalid_id_format_error, gql_code = Some INVALID_COORDINATES,
             gql_service = Some ''OpenMeteo Weather API''\<rparr>, [])"
proof -
  let ?r = "test_geocoding_result ''Foo:Bar'' (Decimal 1 0) (Decimal 2 0) ''X'' ''PPL''"
  have h: "2 \<le> length (js_trim ''Foo'')"
    by (simp add: trim_eval)
  have f: "fst (searchCities_resolver (\<lambda>_. Inr \<lparr>results = Some [?r], generationtime_ms = 0\<rparr>) ''Foo'') =
     Inr [city_of_result ?r]"
    by (simp add: searchCities_resolver_split searchCities_call [OF h] test_geocoding_result_def
        is_populated_place_def populated_place_codes_def)
  have n: "CHR '':'' \<in> set (name (city_of_result ?r))"
    by (simp add: test_geocoding_result_def city_of_result_def)
  show ?thesis
    using f n search_colon_name [OF f, of "city_of_result ?r" "\<lambda>_. Inl timeout_error"] by simp
qed

end
